theory Spec2Isabelle
  imports Complex_Main
begin

section \<open>NN-XOR: the headless simulation and timeline engine\<close>

text \<open>
  A shallow embedding of \<^verbatim>\<open>src/core.py\<close>, \<^verbatim>\<open>src/models.py\<close> (classes
  \<^verbatim>\<open>XOR_Slice\<close>, \<^verbatim>\<open>XOR_array_model\<close>, \<^verbatim>\<open>XOR_model\<close>) and of
  \<^verbatim>\<open>saveModel\<close> in \<^verbatim>\<open>src/main.py\<close>.

  Conventions.
  \<^item> Python \<^verbatim>\<open>int\<close> is \<open>int\<close>. A NumPy \<^verbatim>\<open>float64\<close> is idealised as a \<open>real\<close>:
    comparisons, \<^verbatim>\<open>min\<close>, \<^verbatim>\<open>max\<close> and \<^verbatim>\<open>clip\<close> are exact on floats, rounding of
    \<^verbatim>\<open>+\<close>, \<^verbatim>\<open>*\<close>, \<^verbatim>\<open>/\<close> and the values \<^verbatim>\<open>inf\<close>, \<^verbatim>\<open>nan\<close> are not represented.
  \<^item> A two-dimensional NumPy array is the list of its rows; a stack of them (first axis =
    step) is a list of such matrices.
  \<^item> Every exception of the source is a value of \<open>error\<close>.
  \<^item> NumPy's random generator is not part of the repository: it is a parameter, a record
    of the draw operations the source calls, each returning its result and the generator
    that remains.
\<close>

subsection \<open>Exceptions\<close>

datatype error =
    ValueError
  | IndexError
  | KeyError string
  | TypeError
  | AssertionError

definition bind_err :: "error + 'a \<Rightarrow> ('a \<Rightarrow> error + 'b) \<Rightarrow> error + 'b" where
  \<comment> \<open>Run a step; an exception ends the computation, a result goes to the rest.\<close>
  "bind_err m f = (case m of Inl e \<Rightarrow> Inl e | Inr x \<Rightarrow> f x)"

subsection \<open>NumPy helpers\<close>

type_synonym matrix = "real list list"

definition np_clip :: "real \<Rightarrow> real \<Rightarrow> real \<Rightarrow> real" where
  \<comment> \<open>\<^verbatim>\<open>a.clip(lo, hi)\<close> on one entry: \<^verbatim>\<open>minimum(maximum(a, lo), hi)\<close>.\<close>
  "np_clip lo hi a = min (max a lo) hi"

definition mat_clip :: "real \<Rightarrow> real \<Rightarrow> matrix \<Rightarrow> matrix" where
  "mat_clip lo hi m = map (map (np_clip lo hi)) m"

definition hstack_ones :: "matrix \<Rightarrow> matrix" where
  \<comment> \<open>\<^verbatim>\<open>np.hstack((x, np.ones((m, 1))))\<close>: the bias column.\<close>
  "hstack_ones x = map (\<lambda>row. row @ [1]) x"

definition dot :: "real list \<Rightarrow> real list \<Rightarrow> real" where
  "dot u v = sum_list (map2 (*) u v)"

definition mat_mul :: "matrix \<Rightarrow> matrix \<Rightarrow> matrix" where
  \<comment> \<open>\<^verbatim>\<open>a @ b\<close> and \<^verbatim>\<open>np.dot(a, b)\<close> on two-dimensional arrays.\<close>
  "mat_mul a b = map (\<lambda>row. map (dot row) (transpose b)) a"

definition mat_map2 :: "(real \<Rightarrow> real \<Rightarrow> real) \<Rightarrow> matrix \<Rightarrow> matrix \<Rightarrow> matrix" where
  \<comment> \<open>An entry-wise binary operation on two arrays of one shape.\<close>
  "mat_map2 f a b = map2 (map2 f) a b"

definition mat_scale :: "real \<Rightarrow> matrix \<Rightarrow> matrix" where
  "mat_scale c a = map (map (\<lambda>v. v * c)) a"

definition mat_of_int :: "int list list \<Rightarrow> matrix" where
  "mat_of_int a = map (map real_of_int) a"

definition py_bool :: "bool \<Rightarrow> real" where
  \<comment> \<open>A NumPy boolean used as a number.\<close>
  "py_bool b = (if b then 1 else 0)"

subsection \<open>\<^verbatim>\<open>constants.py\<close>\<close>

definition EPSILON :: real where
  "EPSILON = 1 / 10000000"

definition LEAKY_eps :: real where
  "LEAKY_eps = 1 / 10"

definition X_BATCH_4 :: matrix where
  "X_BATCH_4 = [[0, 0], [0, 1], [1, 0], [1, 1]]"

definition Y_XOR_TRUE_4 :: "int list list" where
  "Y_XOR_TRUE_4 = [[0], [1], [1], [0]]"

definition MAX_LEN_FILENAME_JSON :: nat where
  "MAX_LEN_FILENAME_JSON = 50"

definition BATCH_SIZE :: "int list" where
  "BATCH_SIZE = [1, 2, 4, 10]"

definition EPOCH_SIZE :: "int list" where
  "EPOCH_SIZE = [100, 200, 500, 1000, 2000, 5000]"

definition CYCLES_PER_EPOCH :: "int list" where
  "CYCLES_PER_EPOCH = [1, 2, 5, 10]"

subsection \<open>\<^verbatim>\<open>core.py\<close>: the function library\<close>

text \<open>
  The argument of a function of the library is a NumPy array (anything with a
  \<^verbatim>\<open>clip\<close> method) or a plain Python number, for which \<^verbatim>\<open>a.clip\<close> raises
  \<^verbatim>\<open>AttributeError\<close> and the \<^verbatim>\<open>except\<close> branch runs.
\<close>

datatype num = PyNum real | NdArray matrix

definition sigmoid_value_nd :: "matrix \<Rightarrow> matrix" where
  \<comment> \<open>\<^verbatim>\<open>np.exp(np.fmin(x, 0)) / (1 + np.exp(-np.abs(x)))\<close>\<close>
  "sigmoid_value_nd x = map (map (\<lambda>v. exp (min v 0) / (1 + exp (- \<bar>v\<bar>)))) x"

definition sigmoid_derivative_nd :: "matrix \<Rightarrow> matrix" where
  \<comment> \<open>The \<^verbatim>\<open>try\<close> branch: \<^verbatim>\<open>a = a.clip(0 + EPSILON, 1 - EPSILON); return a * (1 - a)\<close>.\<close>
  "sigmoid_derivative_nd a =
     map (map (\<lambda>v. let c = np_clip (0 + EPSILON) (1 - EPSILON) v in c * (1 - c))) a"

definition py_min3 :: "real \<Rightarrow> real \<Rightarrow> real \<Rightarrow> real" where
  \<comment> \<open>Python's built-in \<^verbatim>\<open>min(a, b, c)\<close>.\<close>
  "py_min3 a b c = min a (min b c)"

fun sigmoid_derivative :: "num \<Rightarrow> num" where
  \<comment> \<open>\<^verbatim>\<open>Functions.sigmoid.derivative(a)\<close> with \<^verbatim>\<open>a\<close> given. On a plain number the
      \<^verbatim>\<open>except AttributeError\<close> branch computes
      \<^verbatim>\<open>a = min(a, max(a, 0 + EPSILON), 1 - EPSILON)\<close>.\<close>
  "sigmoid_derivative (NdArray a) = NdArray (sigmoid_derivative_nd a)"
| "sigmoid_derivative (PyNum a) =
     (let c = py_min3 a (max a (0 + EPSILON)) (1 - EPSILON) in PyNum (c * (1 - c)))"

fun LCE_Loss_init_a :: "num \<Rightarrow> num" where
  \<comment> \<open>The attribute \<^verbatim>\<open>_a\<close> that \<^verbatim>\<open>Functions.LCE_Loss.__init__(a, y_true)\<close> stores.\<close>
  "LCE_Loss_init_a (NdArray a) = NdArray (mat_clip (0 + EPSILON) (1 - EPSILON) a)"
| "LCE_Loss_init_a (PyNum a) = PyNum (py_min3 a (max a (0 + EPSILON)) (1 - EPSILON))"

text \<open>
  The classes of \<^verbatim>\<open>Functions\<close>, in the order of the class body (the order of
  \<^verbatim>\<open>Functions.__dict__\<close>), with \<^verbatim>\<open>fType()\<close> and whether the class derives from
  \<^verbatim>\<open>Function_d1_cost\<close>.
\<close>

datatype FunctionType = HiddenLayer | OutputLayer | Loss

datatype Function_d1 =
    Sigmoid | ReLU | LeakyReLU | Tanh | Linear | BinaryStop
  | LCE_Loss | Hinge_Loss | Squared_Hinge_Loss | Hinge_Loss_0_1 | Squared_Hinge_Loss_0_1

fun fType :: "Function_d1 \<Rightarrow> FunctionType list" where
  "fType Sigmoid = [HiddenLayer, OutputLayer]"
| "fType ReLU = [HiddenLayer, OutputLayer]"
| "fType LeakyReLU = [HiddenLayer]"
| "fType Tanh = [HiddenLayer, OutputLayer]"
| "fType Linear = [HiddenLayer, OutputLayer]"
| "fType BinaryStop = [OutputLayer]"
| "fType LCE_Loss = [Loss]"
| "fType Hinge_Loss = [Loss]"
| "fType Squared_Hinge_Loss = [Loss]"
| "fType Hinge_Loss_0_1 = [Loss]"
| "fType Squared_Hinge_Loss_0_1 = [Loss]"

fun is_Function_d1_cost :: "Function_d1 \<Rightarrow> bool" where
  "is_Function_d1_cost LCE_Loss = True"
| "is_Function_d1_cost Hinge_Loss = True"
| "is_Function_d1_cost Squared_Hinge_Loss = True"
| "is_Function_d1_cost Hinge_Loss_0_1 = True"
| "is_Function_d1_cost Squared_Hinge_Loss_0_1 = True"
| "is_Function_d1_cost _ = False"

definition Functions_dict :: "(string \<times> Function_d1) list" where
  "Functions_dict =
     [(''sigmoid'', Sigmoid), (''ReLU'', ReLU), (''LeakyReLU'', LeakyReLU), (''tanh'', Tanh),
      (''linear'', Linear), (''BinaryStop'', BinaryStop), (''LCE_Loss'', LCE_Loss),
      (''Hinge_Loss'', Hinge_Loss), (''Squared_Hinge_Loss'', Squared_Hinge_Loss),
      (''Hinge_Loss_0_1'', Hinge_Loss_0_1), (''Squared_Hinge_Loss_0_1'', Squared_Hinge_Loss_0_1)]"

definition FunctionsListsByType_HiddenLayer :: "(string \<times> Function_d1) list" where
  "FunctionsListsByType_HiddenLayer = filter (\<lambda>(k, v). HiddenLayer \<in> set (fType v)) Functions_dict"

definition FunctionsListsByType_OutputLayer :: "(string \<times> Function_d1) list" where
  "FunctionsListsByType_OutputLayer = filter (\<lambda>(k, v). OutputLayer \<in> set (fType v)) Functions_dict"

definition FunctionsListsByType_LossFunction :: "(string \<times> Function_d1) list" where
  "FunctionsListsByType_LossFunction =
     filter (\<lambda>(k, v). is_Function_d1_cost v \<and> Loss \<in> set (fType v)) Functions_dict"

definition dict_getitem :: "(string \<times> 'v) list \<Rightarrow> string \<Rightarrow> error + 'v" where
  \<comment> \<open>\<^verbatim>\<open>d[k]\<close> on a dictionary.\<close>
  "dict_getitem d k = (case map_of d k of None \<Rightarrow> Inl (KeyError k) | Some v \<Rightarrow> Inr v)"

fun activation_value :: "Function_d1 \<Rightarrow> matrix \<Rightarrow> matrix" where
  \<comment> \<open>\<^verbatim>\<open>cls(x).value()\<close> for the activation classes.\<close>
  "activation_value Sigmoid x = sigmoid_value_nd x"
| "activation_value ReLU x = map (map (\<lambda>v. v * py_bool (v > 0))) x"
| "activation_value LeakyReLU x =
     map (map (\<lambda>v. v * py_bool (v > 0) + LEAKY_eps * v * py_bool (v < 0))) x"
| "activation_value Tanh x = map (map tanh) x"
| "activation_value Linear x = x"
| "activation_value BinaryStop x = map (map (\<lambda>v. py_bool (v > 0) * 1)) x"
| "activation_value _ x = x"

fun activation_derivative :: "Function_d1 \<Rightarrow> matrix \<Rightarrow> matrix \<Rightarrow> matrix" where
  \<comment> \<open>\<^verbatim>\<open>cls(x).derivative(a)\<close> with \<^verbatim>\<open>a\<close> an array.\<close>
  "activation_derivative Sigmoid x a = sigmoid_derivative_nd a"
| "activation_derivative ReLU x a = map (map (\<lambda>v. 0 + py_bool (v > 0))) a"
| "activation_derivative LeakyReLU x a =
     map (map (\<lambda>v. (0 + py_bool (v > 0)) + LEAKY_eps * py_bool (v < 0))) a"
| "activation_derivative Tanh x a = map (map (\<lambda>v. 1 - v * v)) a"
| "activation_derivative Linear x a = map (map (\<lambda>v. 1)) x"
| "activation_derivative BinaryStop x a = map (map (\<lambda>v. 0)) x"
| "activation_derivative _ x a = a"

text \<open>
  A loss object holds \<^verbatim>\<open>_a\<close> and \<^verbatim>\<open>_y_true\<close> as its constructor leaves them: the
  log cross-entropy clips the predictions, the hinge losses map the labels 0 to -1, and
  the \<^verbatim>\<open>_0_1\<close> variants rescale the predictions to [-1, 1] after that.
\<close>

definition hinge_y :: "int list list \<Rightarrow> matrix" where
  \<comment> \<open>\<^verbatim>\<open>self._y_true[where(self._y_true == 0)] = -1\<close>\<close>
  "hinge_y y = map (map (\<lambda>v. if v = 0 then - 1 else real_of_int v)) y"

fun loss_init :: "Function_d1 \<Rightarrow> matrix \<Rightarrow> int list list \<Rightarrow> matrix \<times> matrix" where
  "loss_init LCE_Loss a y = (mat_clip (0 + EPSILON) (1 - EPSILON) a, mat_of_int y)"
| "loss_init Hinge_Loss a y = (a, hinge_y y)"
| "loss_init Squared_Hinge_Loss a y = (a, hinge_y y)"
| "loss_init Hinge_Loss_0_1 a y = (map (map (\<lambda>v. v * 2 - 1)) a, hinge_y y)"
| "loss_init Squared_Hinge_Loss_0_1 a y = (map (map (\<lambda>v. v * 2 - 1)) a, hinge_y y)"
| "loss_init _ a y = (a, mat_of_int y)"

fun loss_value_of :: "Function_d1 \<Rightarrow> matrix \<times> matrix \<Rightarrow> matrix" where
  "loss_value_of LCE_Loss (a, y) =
     mat_map2 (\<lambda>av yv. - (yv * ln av + (1 - yv) * ln (1 - av))) a y"
| "loss_value_of Hinge_Loss (a, y) = mat_map2 (\<lambda>av yv. max 0 (1 - yv * av)) a y"
| "loss_value_of Hinge_Loss_0_1 (a, y) = mat_map2 (\<lambda>av yv. max 0 (1 - yv * av)) a y"
| "loss_value_of Squared_Hinge_Loss (a, y) = mat_map2 (\<lambda>av yv. (max 0 (1 - yv * av))\<^sup>2) a y"
| "loss_value_of Squared_Hinge_Loss_0_1 (a, y) =
     mat_map2 (\<lambda>av yv. (max 0 (1 - yv * av))\<^sup>2) a y"
| "loss_value_of _ (a, y) = a"

fun loss_derivative_of :: "Function_d1 \<Rightarrow> matrix \<times> matrix \<Rightarrow> matrix" where
  "loss_derivative_of LCE_Loss (a, y) =
     mat_map2 (\<lambda>av yv. - (yv / av + (yv - 1) / (1 - av))) a y"
| "loss_derivative_of Hinge_Loss (a, y) = mat_map2 (\<lambda>av yv. - yv * py_bool (yv * av < 1)) a y"
| "loss_derivative_of Hinge_Loss_0_1 (a, y) =
     mat_map2 (\<lambda>av yv. - yv * py_bool (yv * av < 1)) a y"
| "loss_derivative_of Squared_Hinge_Loss (a, y) =
     mat_map2 (\<lambda>av yv. - 2 * yv * max 0 (1 - yv * av)) a y"
| "loss_derivative_of Squared_Hinge_Loss_0_1 (a, y) =
     mat_map2 (\<lambda>av yv. - 2 * yv * max 0 (1 - yv * av)) a y"
| "loss_derivative_of _ (a, y) = a"

definition np_mean :: "real list \<Rightarrow> real" where
  "np_mean v = sum_list v / real (length v)"

subsection \<open>\<^verbatim>\<open>core.py\<close>: forward and backward propagation\<close>

definition XOR_forward_prop ::
  "matrix \<Rightarrow> matrix \<Rightarrow> Function_d1 \<Rightarrow> matrix \<Rightarrow> Function_d1 \<Rightarrow> matrix \<times> matrix" where
  "XOR_forward_prop x w1 activation1 w2 activation2 =
     (let x_b = hstack_ones x;
          z1 = mat_mul x_b w1;
          a1 = activation_value activation1 z1;
          a1_b = hstack_ones a1;
          z2 = mat_mul a1_b w2;
          a2 = activation_value activation2 z2
      in (a1, a2))"

definition XOR_back_prop ::
  "matrix \<Rightarrow> Function_d1 \<Rightarrow> matrix \<Rightarrow> matrix \<Rightarrow> Function_d1 \<Rightarrow> matrix \<Rightarrow> int list list
     \<Rightarrow> Function_d1 \<Rightarrow> matrix \<times> matrix" where
  "XOR_back_prop x activation1 a1 w2 activation2 a2 y_true fctLoss =
     (let m = real (length a1);
          loss_a2 = loss_init fctLoss a2 y_true;
          dLoss_da2 = loss_derivative_of fctLoss loss_a2;
          da2_dz2 = activation_derivative activation2 a2 a2;
          a1_b = hstack_ones a1;
          dz2_dw2 = a1_b;
          dLoss_dw2 = mat_scale (1 / m) (mat_mul (transpose dz2_dw2) (mat_map2 (*) dLoss_da2 da2_dz2));
          dz2_da1 = butlast w2;
          dLoss_da1 = mat_mul (mat_map2 (*) dLoss_da2 da2_dz2) (transpose dz2_da1);
          da1_dz1 = activation_derivative activation1 a1 a1;
          x_b = hstack_ones x;
          dz1_dw1 = x_b;
          dLoss_dw1 = mat_scale (1 / m) (mat_mul (transpose dz1_dw1) (mat_map2 (*) dLoss_da1 da1_dz1))
      in (dLoss_dw1, dLoss_dw2))"

subsection \<open>NumPy's random generator, as a parameter\<close>

text \<open>
  \<^verbatim>\<open>np.random.default_rng(seed)\<close> and the methods of the generator that the source calls.
  Each draw returns its result and the generator after the draw. The last field is the
  float64 product of a draw by a constant, \<^verbatim>\<open>rng.dirichlet(...) * 100\<close>: its result is
  truncated to an integer afterwards, so its rounding is kept as NumPy's own and not
  replaced by the product of real numbers.
\<close>

record 'g rng_ops =
  default_rng :: "int \<Rightarrow> 'g"
  rng_choice_int :: "'g \<Rightarrow> int list \<Rightarrow> int \<times> 'g"
  rng_choice_str :: "'g \<Rightarrow> string list \<Rightarrow> string \<times> 'g"
  rng_random :: "'g \<Rightarrow> real \<times> 'g"
  rng_integers :: "'g \<Rightarrow> int \<Rightarrow> int \<Rightarrow> bool \<Rightarrow> int \<times> 'g"
  rng_dirichlet :: "'g \<Rightarrow> real list \<Rightarrow> real list \<times> 'g"
  rng_uniform :: "'g \<Rightarrow> real \<Rightarrow> real \<Rightarrow> nat \<Rightarrow> nat \<Rightarrow> matrix \<times> 'g"
  rng_choice_p :: "'g \<Rightarrow> nat list \<Rightarrow> int \<Rightarrow> real list \<Rightarrow> nat list \<times> 'g"
  float_mul :: "real \<Rightarrow> real \<Rightarrow> real"

subsection \<open>\<^verbatim>\<open>models.py\<close>: \<^verbatim>\<open>XOR_Slice\<close>\<close>

datatype ColumnsMap =
    Col_index | Col_xPercents | Col_yParam | Col_xHits | Col_epoch_size | Col_batch_size
  | Col_learning_rate | Col_w1 | Col_w1_lock | Col_z1 | Col_activation1 | Col_a1 | Col_w2
  | Col_w2_lock | Col_z2 | Col_activation2 | Col_y_aka_a2 | Col_lossAvg | Col_lossPerX
  | Col_minRange | Col_maxRange | Col_cyclesPerOneStepFwdOfEpoch | Col_seedTP | Col_loss

record XOR_Slice =
  seedTP :: int
  index :: int
  batch_size :: int
  epoch_size :: int
  cyclesPerOneStepFwdOfEpoch :: int
  learning_rate :: real
  activation1 :: string
  activation2 :: string
  loss :: string
  xPercents :: "int list"
  yParam :: "int list list"
  xHits :: "int list"
  minRange :: int
  maxRange :: int
  w1 :: matrix
  w1_lock :: "int list list"
  z1 :: matrix
  a1 :: matrix
  w2 :: matrix
  w2_lock :: "int list list"
  z2 :: matrix
  y_aka_a2 :: matrix
  lossAvg :: matrix
  lossPerX :: matrix

definition py_round2 :: "real \<Rightarrow> real" where
  \<comment> \<open>Python's \<^verbatim>\<open>round(x, 2)\<close>: to the nearest hundredth, a tie to the even one.\<close>
  "py_round2 x =
     (let y = x * 100; f = \<lfloor>y\<rfloor>; d = y - real_of_int f
      in real_of_int (if d < 1 / 2 then f else if d > 1 / 2 then f + 1
                      else if even f then f else f + 1) / 100)"

definition astype_int :: "real \<Rightarrow> int" where
  \<comment> \<open>\<^verbatim>\<open>.astype(int)\<close> on one entry: truncation towards zero.\<close>
  "astype_int v = (if v \<ge> 0 then \<lfloor>v\<rfloor> else \<lceil>v\<rceil>)"

definition reshape_flat :: "'a list list \<Rightarrow> 'a list" where
  \<comment> \<open>\<^verbatim>\<open>a.reshape(n)\<close> of a two-dimensional array with n entries.\<close>
  "reshape_flat a = concat a"

definition reshape_col :: "'a list \<Rightarrow> 'a list list" where
  \<comment> \<open>\<^verbatim>\<open>v.reshape(n, 1)\<close> of a one-dimensional array with n entries.\<close>
  "reshape_col v = map (\<lambda>e. [e]) v"

definition compute_z_a_loss :: "XOR_Slice \<Rightarrow> XOR_Slice \<times> error option" where
  \<comment> \<open>The slice as the method leaves it, and the exception it raised, if any: a name
      that is not a key of its table raises \<^verbatim>\<open>KeyError\<close> after the assignments before it.\<close>
  "compute_z_a_loss self =
     (let x = X_BATCH_4;
          yTrue = yParam self;
          x = hstack_ones x;
          self = self\<lparr>z1 := mat_mul x (w1 self)\<rparr>
      in case dict_getitem FunctionsListsByType_HiddenLayer (activation1 self) of
           Inl e \<Rightarrow> (self, Some e)
         | Inr act1 \<Rightarrow>
      (let self = self\<lparr>a1 := activation_value act1 (z1 self)\<rparr>;
           a1b = hstack_ones (a1 self);
           self = self\<lparr>z2 := mat_mul a1b (w2 self)\<rparr>
       in case dict_getitem FunctionsListsByType_OutputLayer (activation2 self) of
            Inl e \<Rightarrow> (self, Some e)
          | Inr act2 \<Rightarrow>
       (let self = self\<lparr>y_aka_a2 := activation_value act2 (z2 self)\<rparr>
        in case dict_getitem FunctionsListsByType_LossFunction (loss self) of
             Inl e \<Rightarrow> (self, Some e)
           | Inr fLoss \<Rightarrow>
        (let obj = loss_init fLoss [reshape_flat (y_aka_a2 self)] [reshape_flat yTrue];
             self = self\<lparr>lossPerX := reshape_col (reshape_flat (loss_value_of fLoss obj))\<rparr>;
             self = self\<lparr>lossAvg := [[np_mean (reshape_flat (loss_value_of fLoss obj))]]\<rparr>
         in (self, None)))))"

definition lock_keep :: "matrix \<Rightarrow> int list list \<Rightarrow> matrix \<Rightarrow> matrix" where
  \<comment> \<open>\<^verbatim>\<open>w * w_lock + u * (1 - w_lock)\<close>, entry by entry.\<close>
  "lock_keep w w_lock u =
     mat_map2 (+) (mat_map2 (*) w (mat_of_int w_lock))
                  (mat_map2 (*) u (map (map (\<lambda>l. 1 - real_of_int l)) w_lock))"

definition feedFromSeed ::
  "'g rng_ops \<Rightarrow> int \<Rightarrow> ColumnsMap set \<Rightarrow> XOR_Slice \<Rightarrow> XOR_Slice \<times> error option" where
  "feedFromSeed R seed setColumnsLocked self =
     (let self = self\<lparr>seedTP := seed\<rparr>;
          rng = default_rng R (seedTP self);
          (rng_Consumed, rng) = rng_choice_int R rng BATCH_SIZE;
          self = (if Col_batch_size \<notin> setColumnsLocked
                  then self\<lparr>batch_size := rng_Consumed\<rparr> else self);
          (rng_Consumed, rng) = rng_choice_int R rng EPOCH_SIZE;
          self = (if Col_epoch_size \<notin> setColumnsLocked
                  then self\<lparr>epoch_size := rng_Consumed\<rparr> else self);
          (rng_Consumed, rng) = rng_choice_int R rng CYCLES_PER_EPOCH;
          self = (if Col_cyclesPerOneStepFwdOfEpoch \<notin> setColumnsLocked
                  then self\<lparr>cyclesPerOneStepFwdOfEpoch := rng_Consumed\<rparr> else self);
          (u, rng) = rng_random R rng;
          rng_Consumed = py_round2 (u * (98 / 100) + 1 / 100);
          self = (if Col_learning_rate \<notin> setColumnsLocked
                  then self\<lparr>learning_rate := rng_Consumed\<rparr> else self);
          (rng_Consumed, rng) = rng_integers R rng (- 20) 20 False;
          (rng_Consumed2, rng) = rng_integers R rng (rng_Consumed + 1) 20 True;
          self = (if Col_minRange \<notin> setColumnsLocked
                  then self\<lparr>minRange := rng_Consumed, maxRange := rng_Consumed2\<rparr> else self);
          (rng_Consumed, rng) = rng_choice_str R rng (map fst FunctionsListsByType_HiddenLayer);
          self = (if Col_activation1 \<notin> setColumnsLocked
                  then self\<lparr>activation1 := rng_Consumed\<rparr> else self);
          (rng_Consumed, rng) = rng_choice_str R rng (map fst FunctionsListsByType_OutputLayer);
          self = (if Col_activation2 \<notin> setColumnsLocked
                  then self\<lparr>activation2 := rng_Consumed\<rparr> else self);
          (rng_Consumed, rng) = rng_choice_str R rng (map fst FunctionsListsByType_LossFunction);
          self = (if Col_loss \<notin> setColumnsLocked
                  then self\<lparr>loss := rng_Consumed\<rparr> else self);
          self =
            (if index self = 0 then
               (let (d, rng) = rng_dirichlet R rng [1, 1, 1, 1];
                    arrPc = map (\<lambda>v. astype_int (float_mul R v 100)) d;
                    arrPc = arrPc[length arrPc - 1 := 100 - sum_list (butlast arrPc)];
                    self = self\<lparr>xPercents := arrPc\<rparr>;
                    self = self\<lparr>yParam := Y_XOR_TRUE_4\<rparr>;
                    self = self\<lparr>xHits := [0, 0, 0, 0]\<rparr>;
                    (u1, rng) = rng_uniform R rng (real_of_int (minRange self))
                                  (real_of_int (maxRange self)) 3 2;
                    self = self\<lparr>w1 := lock_keep (w1 self) (w1_lock self) u1\<rparr>;
                    (u2, rng) = rng_uniform R rng (real_of_int (minRange self))
                                  (real_of_int (maxRange self)) 3 1;
                    self = self\<lparr>w2 := lock_keep (w2 self) (w2_lock self) u2\<rparr>
                in self)
             else
               (let self = self\<lparr>w1 := mat_clip (real_of_int (minRange self))
                                           (real_of_int (maxRange self)) (w1 self)\<rparr>;
                    self = self\<lparr>w2 := mat_clip (real_of_int (minRange self))
                                           (real_of_int (maxRange self)) (w2 self)\<rparr>
                in self))
      in compute_z_a_loss self)"

subsection \<open>\<^verbatim>\<open>models.py\<close>: \<^verbatim>\<open>XOR_array_model\<close>\<close>

record XOR_array_model =
  arr_xHits :: "int list list"
  arr_w1 :: "matrix list"
  arr_z1 :: "matrix list"
  arr_a1 :: "matrix list"
  arr_w2 :: "matrix list"
  arr_z2 :: "matrix list"
  arr_y_aka_a2 :: "matrix list"
  arr_lossPerX :: "matrix list"
  arr_lossAvg :: "matrix list"

definition np_zeros :: "nat \<Rightarrow> nat \<Rightarrow> matrix" where
  "np_zeros r c = replicate r (replicate c 0)"

definition take_rows :: "'a list \<Rightarrow> nat list \<Rightarrow> error + 'a list" where
  \<comment> \<open>\<^verbatim>\<open>a[hits]\<close>: the rows of \<^verbatim>\<open>a\<close> at the positions \<^verbatim>\<open>hits\<close>.\<close>
  "take_rows a hits =
     (if \<forall>h \<in> set hits. h < length a then Inr (map (\<lambda>h. a ! h) hits) else Inl IndexError)"

definition add_hits :: "int list \<Rightarrow> nat list \<Rightarrow> error + int list" where
  \<comment> \<open>\<^verbatim>\<open>(ix, nbHits) = np.unique(hits, return_counts=True); xHitsPerCycle[ix] += nbHits\<close>\<close>
  "add_hits xHitsPerCycle hits =
     (if \<forall>h \<in> set hits. h < length xHitsPerCycle
      then Inr (map (\<lambda>k. xHitsPerCycle ! k + int (count_list hits k)) [0..<length xHitsPerCycle])
      else Inl IndexError)"

definition p_distribution_of :: "int list \<Rightarrow> real list" where
  \<comment> \<open>\<^verbatim>\<open>p = xPercents / 100; p[-1] = 1 - sum(p[0: -1])\<close> (\<^verbatim>\<open>xPercents\<close> has 4 entries).\<close>
  "p_distribution_of percents =
     (let p = map (\<lambda>v. real_of_int v / 100) percents
      in p[length p - 1 := 1 - sum_list (butlast p)])"

definition lock_update :: "matrix \<Rightarrow> matrix \<Rightarrow> real \<Rightarrow> real \<Rightarrow> real \<Rightarrow> int list list \<Rightarrow> matrix" where
  \<comment> \<open>\<^verbatim>\<open>(w - (dw * learning_rate)).clip(minRange, maxRange) * (1 - w_lock) + w * w_lock\<close>\<close>
  "lock_update w dw lr lo hi w_lock =
     mat_map2 (+)
       (mat_map2 (*) (mat_clip lo hi (mat_map2 (-) w (mat_scale lr dw)))
                     (map (map (\<lambda>l. 1 - real_of_int l)) w_lock))
       (mat_map2 (*) w (mat_of_int w_lock))"

definition cycle_body ::
  "'g rng_ops \<Rightarrow> XOR_Slice \<Rightarrow> real list \<Rightarrow> nat
     \<Rightarrow> int list \<times> matrix \<times> matrix \<times> int list list \<times> 'g
     \<Rightarrow> error + int list \<times> matrix \<times> matrix \<times> int list list \<times> 'g" where
  \<comment> \<open>One pass of \<^verbatim>\<open>for _ in range(fromTP.cyclesPerOneStepFwdOfEpoch)\<close> at step \<open>i\<close>; the
      state is \<^verbatim>\<open>xHitsPerCycle\<close>, \<^verbatim>\<open>w1\<close>, \<^verbatim>\<open>w2\<close>, \<^verbatim>\<open>self.xHits\<close> and the generator.\<close>
  "cycle_body R fromTP p_distribution i st =
     (case st of (xHitsPerCycle, w1c, w2c, xHitsArr, rng) \<Rightarrow>
      let (hits, rng) = rng_choice_p R rng [0, 1, 2, 3] (batch_size fromTP) p_distribution
      in bind_err (add_hits xHitsPerCycle hits) (\<lambda>xHitsPerCycle.
         bind_err (take_rows X_BATCH_4 hits) (\<lambda>x.
         bind_err (take_rows (yParam fromTP) hits) (\<lambda>y_true.
         bind_err (dict_getitem FunctionsListsByType_HiddenLayer (activation1 fromTP)) (\<lambda>act1.
         bind_err (dict_getitem FunctionsListsByType_OutputLayer (activation2 fromTP)) (\<lambda>act2.
         let (computed_a1, computed_a2) = XOR_forward_prop x w1c act1 w2c act2
         in bind_err (dict_getitem FunctionsListsByType_LossFunction (loss fromTP)) (\<lambda>fLoss.
         let (dw1, dw2) = XOR_back_prop x act1 computed_a1 w2c act2 computed_a2 y_true fLoss;
             w2n = lock_update w2c dw2 (learning_rate fromTP) (real_of_int (minRange fromTP))
                     (real_of_int (maxRange fromTP)) (w2_lock fromTP);
             w1n = lock_update w1c dw1 (learning_rate fromTP) (real_of_int (minRange fromTP))
                     (real_of_int (maxRange fromTP)) (w1_lock fromTP)
         in Inr (xHitsPerCycle, w1n, w2n, xHitsArr[i := xHitsPerCycle], rng))))))))"

fun cycles_loop ::
  "nat \<Rightarrow> 'g rng_ops \<Rightarrow> XOR_Slice \<Rightarrow> real list \<Rightarrow> nat
     \<Rightarrow> int list \<times> matrix \<times> matrix \<times> int list list \<times> 'g
     \<Rightarrow> error + int list \<times> matrix \<times> matrix \<times> int list list \<times> 'g" where
  "cycles_loop 0 R fromTP p i st = Inr st"
| "cycles_loop (Suc n) R fromTP p i st =
     bind_err (cycle_body R fromTP p i st) (\<lambda>st'. cycles_loop n R fromTP p i st')"

definition step_body ::
  "'g rng_ops \<Rightarrow> XOR_Slice \<Rightarrow> real list \<Rightarrow> nat
     \<Rightarrow> int list list \<times> matrix list \<times> matrix list \<times> 'g
     \<Rightarrow> error + int list list \<times> matrix list \<times> matrix list \<times> 'g" where
  \<comment> \<open>The body of \<^verbatim>\<open>for i in range(1, epoch_size)\<close>; the state is \<^verbatim>\<open>self.xHits\<close>,
      \<^verbatim>\<open>self.w1\<close>, \<^verbatim>\<open>self.w2\<close> and the generator.\<close>
  "step_body R fromTP p_distribution i st =
     (case st of (xHitsArr, w1Arr, w2Arr, rng) \<Rightarrow>
      let xHitsPerCycle = xHitsArr ! (i - 1);
          w1c = w1Arr ! (i - 1);
          w2c = w2Arr ! (i - 1)
      in bind_err (cycles_loop (nat (cyclesPerOneStepFwdOfEpoch fromTP)) R fromTP p_distribution i
                     (xHitsPerCycle, w1c, w2c, xHitsArr, rng))
           (\<lambda>(xHitsPerCycle, w1c, w2c, xHitsArr, rng).
              Inr (xHitsArr, w1Arr[i := w1c], w2Arr[i := w2c], rng)))"

fun steps_loop ::
  "'g rng_ops \<Rightarrow> XOR_Slice \<Rightarrow> real list \<Rightarrow> nat list
     \<Rightarrow> int list list \<times> matrix list \<times> matrix list \<times> 'g
     \<Rightarrow> error + int list list \<times> matrix list \<times> matrix list \<times> 'g" where
  "steps_loop R fromTP p [] st = Inr st"
| "steps_loop R fromTP p (i # rest) st =
     bind_err (step_body R fromTP p i st) (\<lambda>st'. steps_loop R fromTP p rest st')"

definition fillModel :: "'g rng_ops \<Rightarrow> XOR_Slice \<Rightarrow> error + XOR_array_model" where
  \<comment> \<open>\<^verbatim>\<open>np.zeros\<close> with a negative \<^verbatim>\<open>epoch_size\<close> raises \<^verbatim>\<open>ValueError\<close>; with
      \<^verbatim>\<open>epoch_size = 0\<close> the assignment to \<^verbatim>\<open>self.w1[0]\<close> raises \<^verbatim>\<open>IndexError\<close>.\<close>
  "fillModel R fromTP =
     (let rng = default_rng R (index fromTP + (if seedTP fromTP \<ge> 0 then seedTP fromTP else 0));
          epoch = epoch_size fromTP
      in if epoch < 0 then Inl ValueError
         else if epoch = 0 then Inl IndexError
         else
         let E = nat epoch;
             xHitsArr = replicate E [0, 0, 0, 0];
             w1Arr = (replicate E (np_zeros 3 2))
                       [0 := mat_clip (real_of_int (minRange fromTP))
                               (real_of_int (maxRange fromTP)) (w1 fromTP)];
             w2Arr = (replicate E (np_zeros 3 1))
                       [0 := mat_clip (real_of_int (minRange fromTP))
                               (real_of_int (maxRange fromTP)) (w2 fromTP)];
             p_distribution = p_distribution_of (xPercents fromTP)
         in bind_err (steps_loop R fromTP p_distribution [1..<E] (xHitsArr, w1Arr, w2Arr, rng))
              (\<lambda>(xHitsArr, w1Arr, w2Arr, rng).
         let x = hstack_ones X_BATCH_4;
             z1Arr = map (\<lambda>w. mat_mul x w) w1Arr
         in bind_err (dict_getitem FunctionsListsByType_HiddenLayer (activation1 fromTP)) (\<lambda>act1.
         let a1Arr = map (activation_value act1) z1Arr;
             computed_a1 = map hstack_ones a1Arr;
             z2Arr = map2 mat_mul computed_a1 w2Arr
         in bind_err (dict_getitem FunctionsListsByType_OutputLayer (activation2 fromTP)) (\<lambda>act2.
         let yArr = map (activation_value act2) z2Arr
         in bind_err (dict_getitem FunctionsListsByType_LossFunction (loss fromTP)) (\<lambda>fLoss.
         let lossPerXArr = map (\<lambda>y. loss_value_of fLoss (loss_init fLoss y (yParam fromTP))) yArr;
             lossAvgArr =
               map (\<lambda>y. [[np_mean (reshape_flat
                     (loss_value_of fLoss
                        (loss_init fLoss [reshape_flat y] [reshape_flat (yParam fromTP)])))]])
                   yArr
         in Inr \<lparr>arr_xHits = xHitsArr, arr_w1 = w1Arr, arr_z1 = z1Arr, arr_a1 = a1Arr,
                 arr_w2 = w2Arr, arr_z2 = z2Arr, arr_y_aka_a2 = yArr,
                 arr_lossPerX = lossPerXArr, arr_lossAvg = lossAvgArr\<rparr>)))))"

definition count :: "XOR_array_model \<Rightarrow> int" where
  "count self = int (length (arr_w1 self))"

definition array_deleteBefore :: "XOR_array_model \<Rightarrow> int \<Rightarrow> error + XOR_array_model" where
  \<comment> \<open>\<^verbatim>\<open>XOR_array_model.deleteBefore\<close>. On an empty store the clamped \<^verbatim>\<open>ix\<close> is -1 and
      \<^verbatim>\<open>self.xHits[ix]\<close> raises \<^verbatim>\<open>IndexError\<close>.\<close>
  "array_deleteBefore self ix0 =
     (let ix = min (max 0 ix0) (count self - 1)
      in if ix < 0 \<or> ix \<ge> int (length (arr_xHits self)) then Inl IndexError
         else
         let n = nat ix;
             xHitsOnPos = arr_xHits self ! n
         in Inr (self\<lparr>arr_xHits := map (\<lambda>row. map2 (-) row xHitsOnPos) (drop n (arr_xHits self)),
                       arr_w1 := drop n (arr_w1 self),
                       arr_z1 := drop n (arr_z1 self),
                       arr_a1 := drop n (arr_a1 self),
                       arr_w2 := drop n (arr_w2 self),
                       arr_z2 := drop n (arr_z2 self),
                       arr_y_aka_a2 := drop n (arr_y_aka_a2 self),
                       arr_lossPerX := drop n (arr_lossPerX self),
                       arr_lossAvg := drop n (arr_lossAvg self)\<rparr>))"


subsection \<open>\<^verbatim>\<open>models.py\<close>: \<^verbatim>\<open>XOR_model\<close>\<close>

text \<open>
  The texts the controller keeps per turning point are built by string formatting
  (\<^verbatim>\<open>XOR_Slice.diff\<close>, \<^verbatim>\<open>getHTML_loss\<close>, \<^verbatim>\<open>f"{v:0.3f}"\<close>, \<^verbatim>\<open>str.split\<close> and
  \<^verbatim>\<open>str.join\<close>); the formatting functions are parameters.
\<close>

record text_ops =
  diff_text :: "XOR_Slice \<Rightarrow> XOR_Slice option \<Rightarrow> string"
  getHTML_TP_equal_mark :: "int \<Rightarrow> string"
  getHTML_loss :: "real \<Rightarrow> string"
  format_0_3f :: "real \<Rightarrow> string"
  split_join :: "string \<Rightarrow> string \<Rightarrow> string \<Rightarrow> string"

datatype signal = sigModelChanged int | sigModelNameChanged string

record XOR_model =
  modelName :: string
  lstTurningPoints :: "XOR_Slice list"
  lstTurningPointsDiff :: "string list"
  lst_TP_Final_Loss :: "string list"
  crtSlice :: XOR_Slice
  maskParamLocks :: int
  lastSavedFileInfo :: "string option"
  xor_array :: XOR_array_model
  indexOfCrtBaseTP_in_lstTurningPoints :: nat

definition py_getitem :: "'a list \<Rightarrow> int \<Rightarrow> error + 'a" where
  \<comment> \<open>\<^verbatim>\<open>a[i]\<close>: a negative index counts from the end.\<close>
  "py_getitem a i =
     (let n = int (length a); j = (if i < 0 then n + i else i)
      in if 0 \<le> j \<and> j < n then Inr (a ! nat j) else Inl IndexError)"

definition float_of_array :: "matrix \<Rightarrow> error + real" where
  \<comment> \<open>\<^verbatim>\<open>float(a)\<close> of an array with one entry.\<close>
  "float_of_array a = (case a of [[v]] \<Rightarrow> Inr v | _ \<Rightarrow> Inl TypeError)"

definition XOR_Slice_eq :: "XOR_Slice \<Rightarrow> XOR_Slice \<Rightarrow> bool" where
  \<comment> \<open>\<^verbatim>\<open>XOR_Slice.__eq__\<close>\<close>
  "XOR_Slice_eq self other \<longleftrightarrow>
     index self = index other \<and> xPercents self = xPercents other \<and>
     yParam self = yParam other \<and> epoch_size self = epoch_size other \<and>
     batch_size self = batch_size other \<and> learning_rate self = learning_rate other \<and>
     w1 self = w1 other \<and> w1_lock self = w1_lock other \<and>
     activation1 self = activation1 other \<and> w2 self = w2 other \<and>
     w2_lock self = w2_lock other \<and> activation2 self = activation2 other \<and>
     loss self = loss other \<and> minRange self = minRange other \<and>
     maxRange self = maxRange other \<and>
     cyclesPerOneStepFwdOfEpoch self = cyclesPerOneStepFwdOfEpoch other"

definition list_index :: "XOR_Slice list \<Rightarrow> XOR_Slice \<Rightarrow> nat" where
  \<comment> \<open>\<^verbatim>\<open>lst.index(item)\<close> for an item of the list: the first position that compares equal.\<close>
  "list_index lst item = length (takeWhile (\<lambda>t. \<not> XOR_Slice_eq t item) lst)"

definition model_count :: "XOR_model \<Rightarrow> int" where
  \<comment> \<open>\<^verbatim>\<open>XOR_model.count\<close>\<close>
  "model_count self = count (xor_array self)"

definition setPos :: "XOR_model \<Rightarrow> int \<Rightarrow> error + XOR_model" where
  "setPos self ix0 =
     (let ix = (if ix0 \<ge> model_count self then model_count self - 1 else ix0)
      in case find (\<lambda>item. index item \<le> ix) (rev (lstTurningPoints self)) of
           None \<Rightarrow> Inr self
         | Some item \<Rightarrow>
      (let arr = xor_array self
       in bind_err (py_getitem (arr_xHits arr) ix) (\<lambda>xHitsV.
          bind_err (py_getitem (arr_w1 arr) ix) (\<lambda>w1V.
          bind_err (py_getitem (arr_z1 arr) ix) (\<lambda>z1V.
          bind_err (py_getitem (arr_a1 arr) ix) (\<lambda>a1V.
          bind_err (py_getitem (arr_w2 arr) ix) (\<lambda>w2V.
          bind_err (py_getitem (arr_z2 arr) ix) (\<lambda>z2V.
          bind_err (py_getitem (arr_y_aka_a2 arr) ix) (\<lambda>yV.
          bind_err (py_getitem (arr_lossAvg arr) ix) (\<lambda>lossAvgV.
          bind_err (py_getitem (arr_lossPerX arr) ix) (\<lambda>lossPerXV.
          Inr (self\<lparr>indexOfCrtBaseTP_in_lstTurningPoints := list_index (lstTurningPoints self) item,
                     crtSlice := item\<lparr>index := ix, xHits := xHitsV, w1 := w1V, z1 := z1V,
                                       a1 := a1V, w2 := w2V, z2 := z2V, y_aka_a2 := yV,
                                       lossAvg := lossAvgV, lossPerX := lossPerXV\<rparr>\<rparr>))))))))))))"

definition getPos :: "XOR_model \<Rightarrow> int" where
  "getPos self = index (crtSlice self)"

definition find_tp_ix :: "XOR_Slice list \<Rightarrow> int \<Rightarrow> nat" where
  \<comment> \<open>\<^verbatim>\<open>tp_ix = 0; for i in range(len(lst)): if lst[i].index <= ix: tp_ix = i else: break\<close>\<close>
  "find_tp_ix lst ix = length (takeWhile (\<lambda>tp. index tp \<le> ix) lst) - 1"

definition renumber_diffs ::
  "text_ops \<Rightarrow> int \<Rightarrow> XOR_Slice list \<Rightarrow> string list \<Rightarrow> error + XOR_Slice list \<times> string list" where
  \<comment> \<open>The loop \<^verbatim>\<open>for i, tp in enumerate(self.lstTurningPoints)\<close> of \<^verbatim>\<open>deleteBefore\<close>:
      every index is lowered by \<open>ix\<close> and the mark in its diff text replaced; a diff list
      shorter than the list of turning points raises \<^verbatim>\<open>IndexError\<close>.\<close>
  "renumber_diffs T ix tps dtexts =
     (if length dtexts < length tps then Inl IndexError
      else Inr (map (\<lambda>tp. tp\<lparr>index := index tp - ix\<rparr>) tps,
                map2 (\<lambda>tp d. split_join T d (getHTML_TP_equal_mark T (index tp))
                                (getHTML_TP_equal_mark T (index tp - ix)))
                     tps (take (length tps) dtexts)
                @ drop (length tps) dtexts))"

definition deleteBefore ::
  "text_ops \<Rightarrow> XOR_model \<Rightarrow> int \<Rightarrow> error + XOR_model \<times> signal list" where
  \<comment> \<open>\<^verbatim>\<open>XOR_model.deleteBefore\<close>: the model it leaves and the signals it emits.\<close>
  "deleteBefore T self ix0 =
     (let ix = min (max 0 ix0) (model_count self - 1)
      in bind_err (array_deleteBefore (xor_array self) ix) (\<lambda>arr.
      let self = self\<lparr>xor_array := arr\<rparr>;
          tp_ix = find_tp_ix (lstTurningPoints self) ix;
          self = self\<lparr>lstTurningPoints := drop tp_ix (lstTurningPoints self),
                      lstTurningPointsDiff := drop tp_ix (lstTurningPointsDiff self),
                      lst_TP_Final_Loss := drop tp_ix (lst_TP_Final_Loss self)\<rparr>
      in bind_err (renumber_diffs T ix (lstTurningPoints self) (lstTurningPointsDiff self))
           (\<lambda>(tps, dtexts).
      (case tps of
         [] \<Rightarrow> Inl IndexError
       | tp0 # rest \<Rightarrow>
      (let tp0 = tp0\<lparr>index := 0\<rparr>;
           tp0 = (if length (tp0 # rest) = 1 then tp0\<lparr>epoch_size := model_count self\<rparr>
                  else tp0\<lparr>epoch_size := index (hd rest)\<rparr>);
           self = self\<lparr>lstTurningPoints := tp0 # rest, lstTurningPointsDiff := dtexts\<rparr>
       in bind_err (py_getitem (arr_lossAvg (xor_array self)) (epoch_size tp0 - 1)) (\<lambda>lossV.
          bind_err (float_of_array lossV) (\<lambda>lossF.
          (case dtexts of
             [] \<Rightarrow> Inl IndexError
           | d0 # dtexts_rest \<Rightarrow>
          (let self = self\<lparr>lstTurningPointsDiff :=
                             (diff_text T tp0 None @ getHTML_loss T lossF) # dtexts_rest\<rparr>
           in bind_err (setPos self 0) (\<lambda>self. Inr (self, [sigModelChanged 0])))))))))))"



subsection \<open>\<^verbatim>\<open>models.py\<close>: \<^verbatim>\<open>XOR_Slice.fromJson\<close>\<close>

datatype json =
    JNull | JBool bool | JInt int | JFloat real | JStr string
  | JArr "json list" | JObj "(string \<times> json) list"

text \<open>
  Python's \<^verbatim>\<open>int(v)\<close>, \<^verbatim>\<open>float(v)\<close> and NumPy's
  \<^verbatim>\<open>np.asarray(v, dtype=...).reshape(...)\<close> are parameters: each returns the converted
  value or the exception it raises.
\<close>

record py_conv =
  py_int :: "json \<Rightarrow> error + int"
  py_float :: "json \<Rightarrow> error + real"
  asarray_int :: "json \<Rightarrow> nat \<Rightarrow> nat \<Rightarrow> error + int list list"
  asarray_int_flat :: "json \<Rightarrow> nat \<Rightarrow> error + int list"
  asarray_float :: "json \<Rightarrow> nat \<Rightarrow> nat \<Rightarrow> error + matrix"

datatype log_line = Warning_not_defined string json string

definition json_getitem :: "(string \<rightharpoonup> json) \<Rightarrow> string \<Rightarrow> error + json" where
  \<comment> \<open>\<^verbatim>\<open>json_object[k]\<close>\<close>
  "json_getitem d k = (case d k of None \<Rightarrow> Inl (KeyError k) | Some v \<Rightarrow> Inr v)"

definition json_get :: "(string \<rightharpoonup> json) \<Rightarrow> string \<Rightarrow> json \<Rightarrow> json" where
  \<comment> \<open>\<^verbatim>\<open>json_object.get(k, default)\<close>\<close>
  "json_get d k dflt = (case d k of None \<Rightarrow> dflt | Some v \<Rightarrow> v)"

definition first_key :: "(string \<times> Function_d1) list \<Rightarrow> error + string" where
  \<comment> \<open>\<^verbatim>\<open>list(table)[0]\<close>\<close>
  "first_key table = (case table of [] \<Rightarrow> Inl IndexError | (k, v) # rest \<Rightarrow> Inr k)"

definition name_or_reset ::
  "(string \<times> Function_d1) list \<Rightarrow> (string \<times> Function_d1) list \<Rightarrow> string \<Rightarrow> json
     \<Rightarrow> error + json \<times> log_line list" where
  \<comment> \<open>\<^verbatim>\<open>if _tmp_str not in table: print('Warning! ...', _tmp_str := list(reset_table)[0])\<close>.
      The membership test hashes the value: a JSON array or object raises
      \<^verbatim>\<open>TypeError\<close>; any other value that is not a key is replaced.\<close>
  "name_or_reset table reset_table role v =
     (case v of
        JArr a \<Rightarrow> Inl TypeError
      | JObj a \<Rightarrow> Inl TypeError
      | JStr n \<Rightarrow>
          (if n \<in> set (map fst table) then Inr (v, [])
           else bind_err (first_key reset_table)
                  (\<lambda>k. Inr (JStr k, [Warning_not_defined role v k])))
      | _ \<Rightarrow> bind_err (first_key reset_table)
                (\<lambda>k. Inr (JStr k, [Warning_not_defined role v k])))"

definition json_str :: "json \<Rightarrow> string" where
  \<comment> \<open>The text of a value that \<^verbatim>\<open>name_or_reset\<close> returns (always a string).\<close>
  "json_str v = (case v of JStr n \<Rightarrow> n | _ \<Rightarrow> [])"

definition fromJson ::
  "py_conv \<Rightarrow> XOR_Slice \<Rightarrow> (string \<rightharpoonup> json) \<Rightarrow> error + XOR_Slice \<times> log_line list" where
  \<comment> \<open>The slice after \<^verbatim>\<open>fromJson\<close> and the warnings it printed, or the exception.\<close>
  "fromJson C self json_object =
     bind_err (bind_err (json_getitem json_object ''index'') (py_int C)) (\<lambda>v.
     let self = self\<lparr>index := v\<rparr> in
     bind_err (bind_err (json_getitem json_object ''seedTP'') (py_int C)) (\<lambda>v.
     let self = self\<lparr>seedTP := v\<rparr> in
     bind_err (bind_err (json_getitem json_object ''batch_size'') (py_int C)) (\<lambda>v.
     let self = self\<lparr>batch_size := v\<rparr> in
     bind_err (bind_err (json_getitem json_object ''epoch_size'') (py_int C)) (\<lambda>v.
     let self = self\<lparr>epoch_size := v\<rparr> in
     bind_err (bind_err (json_getitem json_object ''cyclesPerOneStepFwdOfEpoch'') (py_int C)) (\<lambda>v.
     let self = self\<lparr>cyclesPerOneStepFwdOfEpoch := v\<rparr> in
     bind_err (bind_err (json_getitem json_object ''learning_rate'') (py_float C)) (\<lambda>v.
     let self = self\<lparr>learning_rate := v\<rparr> in
     bind_err (bind_err (json_getitem json_object ''minRange'') (py_int C)) (\<lambda>v.
     let self = self\<lparr>minRange := v\<rparr> in
     bind_err (bind_err (json_getitem json_object ''maxRange'') (py_int C)) (\<lambda>v.
     let self = self\<lparr>maxRange := v\<rparr> in
     bind_err (bind_err (json_getitem json_object ''yParam'') (\<lambda>j. asarray_int C j 4 1)) (\<lambda>v.
     let self = self\<lparr>yParam := v\<rparr> in
     bind_err (bind_err (json_getitem json_object ''xPercents'') (\<lambda>j. asarray_int_flat C j 4)) (\<lambda>v.
     let self = self\<lparr>xPercents := v\<rparr> in
     bind_err (bind_err (json_getitem json_object ''w1'') (\<lambda>j. asarray_float C j 3 2)) (\<lambda>v.
     let self = self\<lparr>w1 := v\<rparr> in
     bind_err (bind_err (json_getitem json_object ''w1_lock'') (\<lambda>j. asarray_int C j 3 2)) (\<lambda>v.
     let self = self\<lparr>w1_lock := v\<rparr> in
     bind_err (name_or_reset FunctionsListsByType_HiddenLayer FunctionsListsByType_HiddenLayer
                 ''hidden activation function''
                 (json_get json_object ''activation1'' (JStr []))) (\<lambda>(tmp_str, log1).
     let self = self\<lparr>activation1 := json_str tmp_str\<rparr> in
     bind_err (bind_err (json_getitem json_object ''w2'') (\<lambda>j. asarray_float C j 3 1)) (\<lambda>v.
     let self = self\<lparr>w2 := v\<rparr> in
     bind_err (bind_err (json_getitem json_object ''w2_lock'') (\<lambda>j. asarray_int C j 3 1)) (\<lambda>v.
     let self = self\<lparr>w2_lock := v\<rparr> in
     bind_err (name_or_reset FunctionsListsByType_OutputLayer FunctionsListsByType_HiddenLayer
                 ''Output activation function''
                 (json_get json_object ''activation2'' (JStr []))) (\<lambda>(tmp_str, log2).
     let self = self\<lparr>activation2 := json_str tmp_str\<rparr> in
     bind_err (name_or_reset FunctionsListsByType_LossFunction FunctionsListsByType_LossFunction
                 ''Loss function''
                 (json_get json_object ''loss'' (JStr []))) (\<lambda>(tmp_str, log3).
     let self = self\<lparr>loss := json_str tmp_str\<rparr> in
     Inr (self, log1 @ log2 @ log3))))))))))))))))))"

subsection \<open>\<^verbatim>\<open>main.py\<close>: \<^verbatim>\<open>saveModel\<close> and \<^verbatim>\<open>XOR_model.SaveToJson\<close>\<close>

text \<open>
  A \<^verbatim>\<open>QFileInfo\<close> is the absolute path it was made from, with \<^verbatim>\<open>/\<close> as separator.
  \<^verbatim>\<open>completeBaseName()\<close> is the file name up to, not including, its last dot;
  \<^verbatim>\<open>absolutePath()\<close> is the path without the file name. The save dialog and the
  writing of the file belong to the environment: \<open>dialog\<close> maps the proposed name to the
  chosen one (empty on cancel), \<open>write\<close> maps a path to the text of the exception that
  writing it raised (empty on success).
\<close>

definition fileName :: "string \<Rightarrow> string" where
  "fileName p = rev (takeWhile (\<lambda>c. c \<noteq> CHR ''/'') (rev p))"

definition completeBaseName :: "string \<Rightarrow> string" where
  "completeBaseName p =
     (let f = fileName p
      in if CHR ''.'' \<in> set f then rev (tl (dropWhile (\<lambda>c. c \<noteq> CHR ''.'') (rev f))) else f)"

definition absolutePath :: "string \<Rightarrow> string" where
  "absolutePath p = rev (tl (dropWhile (\<lambda>c. c \<noteq> CHR ''/'') (rev p)))"

definition absoluteFilePath :: "string \<Rightarrow> string" where
  "absoluteFilePath p = p"

datatype ui_effect =
    MessageBox string string
  | FadingMessageBox string
  | OpenForWrite string
  | Emit signal

definition SaveToJson ::
  "(string \<Rightarrow> string) \<Rightarrow> XOR_model \<Rightarrow> string \<Rightarrow> string \<times> XOR_model \<times> ui_effect list" where
  \<comment> \<open>The returned text, the model and what happened: the file is opened for writing
      in every call.\<close>
  "SaveToJson write self fileInfo =
     (let sRet = write (absoluteFilePath fileInfo)
      in if sRet = []
         then (sRet,
               self\<lparr>modelName := completeBaseName fileInfo, lastSavedFileInfo := Some fileInfo\<rparr>,
               [OpenForWrite (absoluteFilePath fileInfo),
                Emit (sigModelNameChanged (completeBaseName fileInfo))])
         else (sRet, self, [OpenForWrite (absoluteFilePath fileInfo)]))"

definition save_and_report ::
  "(string \<Rightarrow> string) \<Rightarrow> XOR_model \<Rightarrow> string \<Rightarrow> bool \<times> XOR_model \<times> ui_effect list" where
  \<comment> \<open>The end of \<^verbatim>\<open>saveModel\<close>, from \<^verbatim>\<open>fileInfo = QFileInfo(newFileName)\<close> on.\<close>
  "save_and_report write crtXorModel newFileName =
     (let fileInfo = newFileName;
          (sRet, m, effs) = SaveToJson write crtXorModel fileInfo
      in if sRet = [] then (True, m, effs @ [FadingMessageBox ''Saved''])
         else (False, m, effs @ [FadingMessageBox ''Saving Error'']))"

definition saveModel ::
  "(string \<Rightarrow> string) \<Rightarrow> (string \<Rightarrow> string) \<Rightarrow> string \<Rightarrow> XOR_model \<Rightarrow> bool
     \<Rightarrow> bool \<times> XOR_model \<times> ui_effect list" where
  "saveModel dialog write lastUsedDirectory crtXorModel bSaveAs =
     (let newFileName =
            (case lastSavedFileInfo crtXorModel of
               None \<Rightarrow> lastUsedDirectory @ ''/'' @ modelName crtXorModel @ ''.json''
             | Some fi \<Rightarrow> absolutePath fi @ ''/'' @ modelName crtXorModel @ ''.json'')
      in if (case lastSavedFileInfo crtXorModel of
               None \<Rightarrow> True
             | Some fi \<Rightarrow> absoluteFilePath fi \<noteq> newFileName \<or> bSaveAs)
         then
           (let newFileName = dialog newFileName
            in if newFileName = [] then (False, crtXorModel, [])
               else
               (let fileInfo = newFileName
                in if length (completeBaseName fileInfo) > MAX_LEN_FILENAME_JSON
                   then
                     (let m = crtXorModel\<lparr>modelName :=
                                take MAX_LEN_FILENAME_JSON (completeBaseName fileInfo)\<rparr>
                      in (False, m,
                          [MessageBox ''File name length exceeded''
                             ''File name length exceeds 50.\<newline>Truncated but NOT saved!'',
                           Emit (sigModelNameChanged (modelName m))]))
                   else save_and_report write crtXorModel newFileName))
         else save_and_report write crtXorModel newFileName)"

section \<open>Reference definitions and concrete instances\<close>

subsection \<open>The stream of draws of a seed\<close>

text \<open>
  The generator after the first k draws of \<^verbatim>\<open>feedFromSeed\<close> and the value of each
  draw, written without any lock: they depend on the generator and the seed only.
\<close>

definition gen0 :: "'g rng_ops \<Rightarrow> int \<Rightarrow> 'g" where
  "gen0 R seed = default_rng R seed"

definition gen1 :: "'g rng_ops \<Rightarrow> int \<Rightarrow> 'g" where
  "gen1 R seed = snd (rng_choice_int R (gen0 R seed) BATCH_SIZE)"

definition gen2 :: "'g rng_ops \<Rightarrow> int \<Rightarrow> 'g" where
  "gen2 R seed = snd (rng_choice_int R (gen1 R seed) EPOCH_SIZE)"

definition gen3 :: "'g rng_ops \<Rightarrow> int \<Rightarrow> 'g" where
  "gen3 R seed = snd (rng_choice_int R (gen2 R seed) CYCLES_PER_EPOCH)"

definition gen4 :: "'g rng_ops \<Rightarrow> int \<Rightarrow> 'g" where
  "gen4 R seed = snd (rng_random R (gen3 R seed))"

definition gen5 :: "'g rng_ops \<Rightarrow> int \<Rightarrow> 'g" where
  "gen5 R seed = snd (rng_integers R (gen4 R seed) (- 20) 20 False)"

definition drawn_minRange :: "'g rng_ops \<Rightarrow> int \<Rightarrow> int" where
  "drawn_minRange R seed = fst (rng_integers R (gen4 R seed) (- 20) 20 False)"

definition gen6 :: "'g rng_ops \<Rightarrow> int \<Rightarrow> 'g" where
  "gen6 R seed = snd (rng_integers R (gen5 R seed) (drawn_minRange R seed + 1) 20 True)"

definition gen7 :: "'g rng_ops \<Rightarrow> int \<Rightarrow> 'g" where
  "gen7 R seed = snd (rng_choice_str R (gen6 R seed) (map fst FunctionsListsByType_HiddenLayer))"

definition gen8 :: "'g rng_ops \<Rightarrow> int \<Rightarrow> 'g" where
  "gen8 R seed = snd (rng_choice_str R (gen7 R seed) (map fst FunctionsListsByType_OutputLayer))"

definition gen9 :: "'g rng_ops \<Rightarrow> int \<Rightarrow> 'g" where
  "gen9 R seed = snd (rng_choice_str R (gen8 R seed) (map fst FunctionsListsByType_LossFunction))"

definition drawn_batch_size :: "'g rng_ops \<Rightarrow> int \<Rightarrow> int" where
  "drawn_batch_size R seed = fst (rng_choice_int R (gen0 R seed) BATCH_SIZE)"

definition drawn_epoch_size :: "'g rng_ops \<Rightarrow> int \<Rightarrow> int" where
  "drawn_epoch_size R seed = fst (rng_choice_int R (gen1 R seed) EPOCH_SIZE)"

definition drawn_cycles :: "'g rng_ops \<Rightarrow> int \<Rightarrow> int" where
  "drawn_cycles R seed = fst (rng_choice_int R (gen2 R seed) CYCLES_PER_EPOCH)"

definition drawn_learning_rate :: "'g rng_ops \<Rightarrow> int \<Rightarrow> real" where
  "drawn_learning_rate R seed = py_round2 (fst (rng_random R (gen3 R seed)) * (98 / 100) + 1 / 100)"

definition drawn_maxRange :: "'g rng_ops \<Rightarrow> int \<Rightarrow> int" where
  "drawn_maxRange R seed = fst (rng_integers R (gen5 R seed) (drawn_minRange R seed + 1) 20 True)"

definition drawn_activation1 :: "'g rng_ops \<Rightarrow> int \<Rightarrow> string" where
  "drawn_activation1 R seed =
     fst (rng_choice_str R (gen6 R seed) (map fst FunctionsListsByType_HiddenLayer))"

definition drawn_activation2 :: "'g rng_ops \<Rightarrow> int \<Rightarrow> string" where
  "drawn_activation2 R seed =
     fst (rng_choice_str R (gen7 R seed) (map fst FunctionsListsByType_OutputLayer))"

definition drawn_loss :: "'g rng_ops \<Rightarrow> int \<Rightarrow> string" where
  "drawn_loss R seed =
     fst (rng_choice_str R (gen8 R seed) (map fst FunctionsListsByType_LossFunction))"

definition drawn_dirichlet :: "'g rng_ops \<Rightarrow> int \<Rightarrow> real list" where
  "drawn_dirichlet R seed = fst (rng_dirichlet R (gen9 R seed) [1, 1, 1, 1])"

definition gen10 :: "'g rng_ops \<Rightarrow> int \<Rightarrow> 'g" where
  "gen10 R seed = snd (rng_dirichlet R (gen9 R seed) [1, 1, 1, 1])"

text \<open>The clip range of the regenerated slice, and the weights drawn within a range.\<close>

definition final_minRange :: "'g rng_ops \<Rightarrow> int \<Rightarrow> ColumnsMap set \<Rightarrow> XOR_Slice \<Rightarrow> int" where
  "final_minRange R seed L s = (if Col_minRange \<in> L then minRange s else drawn_minRange R seed)"

definition final_maxRange :: "'g rng_ops \<Rightarrow> int \<Rightarrow> ColumnsMap set \<Rightarrow> XOR_Slice \<Rightarrow> int" where
  "final_maxRange R seed L s = (if Col_minRange \<in> L then maxRange s else drawn_maxRange R seed)"

definition drawn_w1 :: "'g rng_ops \<Rightarrow> int \<Rightarrow> int \<Rightarrow> int \<Rightarrow> matrix" where
  "drawn_w1 R seed lo hi =
     fst (rng_uniform R (gen10 R seed) (real_of_int lo) (real_of_int hi) 3 2)"

definition drawn_w2 :: "'g rng_ops \<Rightarrow> int \<Rightarrow> int \<Rightarrow> int \<Rightarrow> matrix" where
  "drawn_w2 R seed lo hi =
     fst (rng_uniform R
            (snd (rng_uniform R (gen10 R seed) (real_of_int lo) (real_of_int hi) 3 2))
            (real_of_int lo) (real_of_int hi) 3 1)"

definition drawn_products :: "'g rng_ops \<Rightarrow> int \<Rightarrow> real list" where
  \<comment> \<open>\<^verbatim>\<open>rng.dirichlet((1, 1, 1, 1)) * 100\<close>, the products as NumPy computes them.\<close>
  "drawn_products R seed = map (\<lambda>v. float_mul R v 100) (drawn_dirichlet R seed)"

definition percents_of :: "real list \<Rightarrow> int list" where
  \<comment> \<open>From the products: \<^verbatim>\<open>arrPc = products.astype(int); arrPc[-1] = 100 - sum(arrPc[0: -1])\<close>\<close>
  "percents_of products =
     (let arrPc = map astype_int products
      in arrPc[length arrPc - 1 := 100 - sum_list (butlast arrPc)])"

subsection \<open>Names that are not registered\<close>

definition is_registered :: "(string \<times> Function_d1) list \<Rightarrow> json \<Rightarrow> bool" where
  \<comment> \<open>The value is a name (a string) and a key of the role table.\<close>
  "is_registered table v = (case v of JStr n \<Rightarrow> n \<in> set (map fst table) | _ \<Rightarrow> False)"

definition hashable :: "json \<Rightarrow> bool" where
  \<comment> \<open>Every JSON value but an array or an object.\<close>
  "hashable v = (case v of JArr a \<Rightarrow> False | JObj a \<Rightarrow> False | _ \<Rightarrow> True)"

definition reset_name ::
  "(string \<times> Function_d1) list \<Rightarrow> string \<Rightarrow> (string \<rightharpoonup> json) \<Rightarrow> (string \<rightharpoonup> json)" where
  \<comment> \<open>The object with the name under \<open>k\<close> replaced by the first key of its role table
      when it is not registered there.\<close>
  "reset_name table k j =
     (if is_registered table (json_get j k (JStr [])) then j
      else j(k \<mapsto> JStr (fst (hd table))))"

definition reset_unknown_names :: "(string \<rightharpoonup> json) \<Rightarrow> (string \<rightharpoonup> json)" where
  "reset_unknown_names j =
     reset_name FunctionsListsByType_LossFunction ''loss''
       (reset_name FunctionsListsByType_OutputLayer ''activation2''
          (reset_name FunctionsListsByType_HiddenLayer ''activation1'' j))"

definition name_warning ::
  "(string \<times> Function_d1) list \<Rightarrow> string \<Rightarrow> string \<Rightarrow> (string \<rightharpoonup> json) \<Rightarrow> log_line list" where
  "name_warning table role k j =
     (let v = json_get j k (JStr [])
      in if is_registered table v then []
         else [Warning_not_defined role v (fst (hd table))])"

definition unknown_name_warnings :: "(string \<rightharpoonup> json) \<Rightarrow> log_line list" where
  "unknown_name_warnings j =
     name_warning FunctionsListsByType_HiddenLayer ''hidden activation function'' ''activation1'' j
     @ name_warning FunctionsListsByType_OutputLayer ''Output activation function'' ''activation2'' j
     @ name_warning FunctionsListsByType_LossFunction ''Loss function'' ''loss'' j"

definition key_reads :: "(string \<rightharpoonup> json) \<Rightarrow> string \<Rightarrow> (json \<Rightarrow> error + 'a) \<Rightarrow> 'a \<Rightarrow> bool" where
  \<comment> \<open>The object has the key \<open>k\<close> and the conversion of its value gives \<open>v\<close>.\<close>
  "key_reads j k conv v = (case j k of None \<Rightarrow> False | Some x \<Rightarrow> conv x = Inr v)"

definition replace_log ::
  "log_line list \<Rightarrow> error + XOR_Slice \<times> log_line list \<Rightarrow> error + XOR_Slice \<times> log_line list" where
  \<comment> \<open>The same outcome with the warnings \<open>W\<close> as its log.\<close>
  "replace_log W r = (case r of Inl e \<Rightarrow> Inl e | Inr (tp, lg) \<Rightarrow> Inr (tp, W))"

subsection \<open>The save dialog\<close>

definition proposed_name :: "string \<Rightarrow> XOR_model \<Rightarrow> string" where
  \<comment> \<open>The name \<^verbatim>\<open>saveModel\<close> proposes to the dialog.\<close>
  "proposed_name lastUsedDirectory crtXorModel =
     (case lastSavedFileInfo crtXorModel of
        None \<Rightarrow> lastUsedDirectory @ ''/'' @ modelName crtXorModel @ ''.json''
      | Some fi \<Rightarrow> absolutePath fi @ ''/'' @ modelName crtXorModel @ ''.json'')"

definition dialog_shown :: "string \<Rightarrow> XOR_model \<Rightarrow> bool \<Rightarrow> bool" where
  \<comment> \<open>Whether \<^verbatim>\<open>saveModel\<close> asks for a file name: on the first save, when the model was
      renamed since it was saved, or on "save as".\<close>
  "dialog_shown lastUsedDirectory crtXorModel bSaveAs =
     (case lastSavedFileInfo crtXorModel of
        None \<Rightarrow> True
      | Some fi \<Rightarrow>
          absoluteFilePath fi \<noteq> proposed_name lastUsedDirectory crtXorModel \<or> bSaveAs)"

subsection \<open>Concrete instances\<close>

text \<open>
  A small deterministic generator (its state is a counter), a slice, a controller with
  turning points at 0, 5 and 12 over 20 steps, and plain instances of the text and
  conversion parameters. They serve to evaluate the model on concrete inputs.
\<close>

definition test_rng :: "nat rng_ops" where
  "test_rng =
     \<lparr>default_rng = (\<lambda>seed. nat seed),
      rng_choice_int = (\<lambda>g xs. (xs ! (g mod length xs), Suc g)),
      rng_choice_str = (\<lambda>g xs. (xs ! (g mod length xs), Suc g)),
      rng_random = (\<lambda>g. (real (g mod 10) / 10, Suc g)),
      rng_integers = (\<lambda>g lo hi endpoint.
         (lo + int g mod (hi - lo + (if endpoint then 1 else 0)), Suc g)),
      rng_dirichlet = (\<lambda>g alpha. ([51 / 200, 51 / 200, 51 / 200, 47 / 200], Suc g)),
      rng_uniform = (\<lambda>g lo hi r c.
         (replicate r (replicate c (lo + (hi - lo) * (real (g mod 10) / 10))), Suc g)),
      rng_choice_p = (\<lambda>g pop n p. (replicate (nat n) (pop ! (g mod length pop)), Suc g)),
      float_mul = (\<lambda>a b. a * b)\<rparr>"

definition test_slice :: XOR_Slice where
  "test_slice =
     \<lparr>seedTP = 7, index = 0, batch_size = 2, epoch_size = 3, cyclesPerOneStepFwdOfEpoch = 2,
      learning_rate = 1 / 10, activation1 = ''ReLU'', activation2 = ''linear'',
      loss = ''Hinge_Loss'', xPercents = [10, 20, 30, 40], yParam = [[0], [1], [1], [0]],
      xHits = [0, 0, 0, 0], minRange = - 1, maxRange = 1,
      w1 = [[1 / 2, - 1 / 2], [1 / 4, 1 / 2], [0, 0]], w1_lock = [[1, 0], [0, 0], [0, 0]],
      z1 = [[0, 0], [0, 0], [0, 0], [0, 0]], a1 = [[0, 0], [0, 0], [0, 0], [0, 0]],
      w2 = [[1 / 2], [- 1 / 2], [0]], w2_lock = [[0], [0], [0]],
      z2 = [[0], [0], [0], [0]], y_aka_a2 = [[0], [0], [0], [0]],
      lossAvg = [[1]], lossPerX = [[1], [1], [1], [1]]\<rparr>"

definition test_array :: "nat \<Rightarrow> XOR_array_model" where
  \<comment> \<open>A store of n steps; step k carries k in every array.\<close>
  "test_array n =
     \<lparr>arr_xHits = map (\<lambda>k. [int k, 2 * int k, 0, 0]) [0..<n],
      arr_w1 = map (\<lambda>k. [[real k, 0], [0, 0], [0, 0]]) [0..<n],
      arr_z1 = map (\<lambda>k. [[0, 0], [0, 0], [real k, 0], [real k, 0]]) [0..<n],
      arr_a1 = map (\<lambda>k. [[0, 0], [0, 0], [real k, 0], [real k, 0]]) [0..<n],
      arr_w2 = map (\<lambda>k. [[real k], [0], [0]]) [0..<n],
      arr_z2 = map (\<lambda>k. [[0], [0], [real k], [real k]]) [0..<n],
      arr_y_aka_a2 = map (\<lambda>k. [[0], [0], [real k], [real k]]) [0..<n],
      arr_lossPerX = map (\<lambda>k. [[real k], [real k], [real k], [real k]]) [0..<n],
      arr_lossAvg = map (\<lambda>k. [[real k]]) [0..<n]\<rparr>"

definition test_text :: text_ops where
  "test_text =
     \<lparr>diff_text = (\<lambda>a b. ''diff''),
      getHTML_TP_equal_mark = (\<lambda>i. ''TP''),
      getHTML_loss = (\<lambda>v. ''loss''),
      format_0_3f = (\<lambda>v. ''0.000''),
      split_join = (\<lambda>s old new. s)\<rparr>"

definition test_model :: XOR_model where
  "test_model =
     \<lparr>modelName = ''Model 1'',
      lstTurningPoints =
        [test_slice\<lparr>index := 0, epoch_size := 5\<rparr>,
         test_slice\<lparr>index := 5, epoch_size := 7\<rparr>,
         test_slice\<lparr>index := 12, epoch_size := 8\<rparr>],
      lstTurningPointsDiff = [''d0'', ''d5'', ''d12''],
      lst_TP_Final_Loss = [''l0'', ''l5'', ''l12''],
      crtSlice = test_slice,
      maskParamLocks = 0,
      lastSavedFileInfo = None,
      xor_array = test_array 20,
      indexOfCrtBaseTP_in_lstTurningPoints = 0\<rparr>"

fun conv_int :: "json \<Rightarrow> error + int" where
  "conv_int (JInt i) = Inr i"
| "conv_int (JBool b) = Inr (if b then 1 else 0)"
| "conv_int (JFloat r) = Inr (astype_int r)"
| "conv_int j = Inl TypeError"

fun conv_float :: "json \<Rightarrow> error + real" where
  "conv_float (JInt i) = Inr (real_of_int i)"
| "conv_float (JFloat r) = Inr r"
| "conv_float j = Inl TypeError"

fun conv_list :: "(json \<Rightarrow> error + 'a) \<Rightarrow> json list \<Rightarrow> error + 'a list" where
  "conv_list f [] = Inr []"
| "conv_list f (j # js) = bind_err (f j) (\<lambda>v. bind_err (conv_list f js) (\<lambda>vs. Inr (v # vs)))"

definition conv_flat :: "(json \<Rightarrow> error + 'a) \<Rightarrow> json \<Rightarrow> nat \<Rightarrow> error + 'a list" where
  "conv_flat f j n =
     (case j of
        JArr js \<Rightarrow> bind_err (conv_list f js)
                     (\<lambda>vs. if length vs = n then Inr vs else Inl ValueError)
      | _ \<Rightarrow> Inl ValueError)"

definition conv_matrix ::
  "(json \<Rightarrow> error + 'a) \<Rightarrow> json \<Rightarrow> nat \<Rightarrow> nat \<Rightarrow> error + 'a list list" where
  "conv_matrix f j r c =
     (case j of
        JArr js \<Rightarrow> bind_err (conv_list (\<lambda>row. conv_flat f row c) js)
                     (\<lambda>rows. if length rows = r then Inr rows else Inl ValueError)
      | _ \<Rightarrow> Inl ValueError)"

definition test_conv :: py_conv where
  \<comment> \<open>Conversions of JSON numbers and of nested arrays of the asked shape.\<close>
  "test_conv =
     \<lparr>py_int = conv_int, py_float = conv_float,
      asarray_int = conv_matrix conv_int,
      asarray_int_flat = conv_flat conv_int,
      asarray_float = conv_matrix conv_float\<rparr>"

definition test_json :: "string \<rightharpoonup> json" where
  \<comment> \<open>A saved turning point: no value is the one \<open>test_slice\<close> holds, and none of the
      three names is registered.\<close>
  "test_json =
     [''index'' \<mapsto> JInt 3, ''seedTP'' \<mapsto> JInt 11, ''batch_size'' \<mapsto> JInt 4,
      ''epoch_size'' \<mapsto> JInt 9, ''cyclesPerOneStepFwdOfEpoch'' \<mapsto> JInt 5,
      ''learning_rate'' \<mapsto> JFloat (1 / 4), ''minRange'' \<mapsto> JInt (- 2),
      ''maxRange'' \<mapsto> JInt 3,
      ''yParam'' \<mapsto> JArr [JArr [JInt 1], JArr [JInt 0], JArr [JInt 0], JArr [JInt 1]],
      ''xPercents'' \<mapsto> JArr [JInt 40, JInt 30, JInt 20, JInt 10],
      ''w1'' \<mapsto> JArr [JArr [JFloat (3 / 2), JInt 2], JArr [JInt 3, JFloat (- 1 / 4)],
                        JArr [JInt 1, JInt (- 1)]],
      ''w1_lock'' \<mapsto> JArr [JArr [JInt 0, JInt 1], JArr [JInt 0, JInt 0],
                             JArr [JInt 1, JInt 0]],
      ''activation1'' \<mapsto> JStr ''Swish'',
      ''w2'' \<mapsto> JArr [JArr [JInt 2], JArr [JFloat (3 / 4)], JArr [JInt (- 1)]],
      ''w2_lock'' \<mapsto> JArr [JArr [JInt 1], JArr [JInt 0], JArr [JInt 0]],
      ''activation2'' \<mapsto> JStr ''softmax'',
      ''loss'' \<mapsto> JStr ''MSE'']"

definition long_file_name :: string where
  "long_file_name =
     ''/home/user/models/a_model_name_that_is_longer_than_fifty_characters_in_all.json''"

subsection \<open>Well-formed timelines and the outcome of truncating one\<close>

text \<open>
  A timeline as \<^verbatim>\<open>XOR_model\<close> maintains it: the first turning point at position 0, the
  turning points in increasing order of position and inside the array, one difference
  text and one final loss per turning point, the nine arrays of one length, the mean loss
  of a position a 1x1 array.
\<close>

definition arrays_aligned :: "XOR_array_model \<Rightarrow> bool" where
  "arrays_aligned arr \<longleftrightarrow>
     length (arr_xHits arr) = length (arr_w1 arr) \<and> length (arr_z1 arr) = length (arr_w1 arr) \<and>
     length (arr_a1 arr) = length (arr_w1 arr) \<and> length (arr_w2 arr) = length (arr_w1 arr) \<and>
     length (arr_z2 arr) = length (arr_w1 arr) \<and> length (arr_y_aka_a2 arr) = length (arr_w1 arr) \<and>
     length (arr_lossPerX arr) = length (arr_w1 arr) \<and>
     length (arr_lossAvg arr) = length (arr_w1 arr)"

definition wf_model :: "XOR_model \<Rightarrow> bool" where
  "wf_model m \<longleftrightarrow>
     lstTurningPoints m \<noteq> [] \<and> index (hd (lstTurningPoints m)) = 0 \<and>
     sorted_wrt (<) (map index (lstTurningPoints m)) \<and>
     list_all (\<lambda>tp. index tp < model_count m) (lstTurningPoints m) \<and>
     length (lstTurningPointsDiff m) = length (lstTurningPoints m) \<and>
     length (lst_TP_Final_Loss m) = length (lstTurningPoints m) \<and>
     arrays_aligned (xor_array m) \<and>
     list_all (\<lambda>a. length a = 1 \<and> length (hd a) = 1) (arr_lossAvg (xor_array m))"

definition slice_at :: "XOR_Slice \<Rightarrow> XOR_array_model \<Rightarrow> nat \<Rightarrow> XOR_Slice" where
  "slice_at item arr n =
     item\<lparr>index := int n, xHits := arr_xHits arr ! n, w1 := arr_w1 arr ! n, z1 := arr_z1 arr ! n,
          a1 := arr_a1 arr ! n, w2 := arr_w2 arr ! n, z2 := arr_z2 arr ! n,
          y_aka_a2 := arr_y_aka_a2 arr ! n, lossAvg := arr_lossAvg arr ! n,
          lossPerX := arr_lossPerX arr ! n\<rparr>"




text \<open>
  The store without its first n steps, with the hit counters counted from step n.
\<close>

definition array_drop_rebase :: "nat \<Rightarrow> XOR_array_model \<Rightarrow> XOR_array_model" where
  "array_drop_rebase n arr =
     arr\<lparr>arr_xHits := map (\<lambda>row. map2 (-) row (arr_xHits arr ! n)) (drop n (arr_xHits arr)),
         arr_w1 := drop n (arr_w1 arr), arr_z1 := drop n (arr_z1 arr),
         arr_a1 := drop n (arr_a1 arr), arr_w2 := drop n (arr_w2 arr),
         arr_z2 := drop n (arr_z2 arr), arr_y_aka_a2 := drop n (arr_y_aka_a2 arr),
         arr_lossPerX := drop n (arr_lossPerX arr), arr_lossAvg := drop n (arr_lossAvg arr)\<rparr>"

definition test_timeline :: XOR_model where
  \<comment> \<open>The controller \<open>test_model\<close> with a different configuration at each turning point.\<close>
  "test_timeline =
     test_model\<lparr>lstTurningPoints :=
       [test_slice\<lparr>index := 0, epoch_size := 5\<rparr>,
        test_slice\<lparr>index := 5, epoch_size := 7, learning_rate := 1 / 2, activation1 := ''tanh''\<rparr>,
        test_slice\<lparr>index := 12, epoch_size := 8, learning_rate := 1 / 4,
                    activation1 := ''sigmoid''\<rparr>]\<rparr>"

subsection \<open>The training loop in the words of the specification\<close>

text \<open>
  The training loop as the specification words it. The state of the loop is the hit
  counters so far, the two weight matrices and the generator.
\<close>

record 'g train_state =
  hits_so_far :: "int list"
  cur_w1 :: matrix
  cur_w2 :: matrix
  cur_rng :: 'g

definition spec_distribution :: "int list \<Rightarrow> real list" where
  \<comment> \<open>The percentages as probabilities, the last one forced to 1 minus the sum of the
      others.\<close>
  "spec_distribution percents =
     (let others = butlast (map (\<lambda>v. real_of_int v / 100) percents)
      in others @ [1 - sum_list others])"

definition restore_row :: "real list \<Rightarrow> real list \<Rightarrow> int list \<Rightarrow> real list" where
  "restore_row old new lock = map2 (\<lambda>(u, v) l. if l = 1 then u else v) (zip old new) lock"

definition restore_locked :: "matrix \<Rightarrow> matrix \<Rightarrow> int list list \<Rightarrow> matrix" where
  \<comment> \<open>Entry by entry: the old value where the entry is locked, the new value elsewhere.\<close>
  "restore_locked old new lock = map2 (\<lambda>(u, v) l. restore_row u v l) (zip old new) lock"

definition spec_update ::
  "matrix \<Rightarrow> matrix \<Rightarrow> real \<Rightarrow> real \<Rightarrow> real \<Rightarrow> int list list \<Rightarrow> matrix" where
  \<comment> \<open>W <- clip(W - lr * dW, min, max), locked entries restored to their value before.\<close>
  "spec_update w dw lr lo hi lock =
     restore_locked w (mat_clip lo hi (mat_map2 (-) w (mat_scale lr dw))) lock"

definition spec_cycle ::
  "'g rng_ops \<Rightarrow> XOR_Slice \<Rightarrow> Function_d1 \<Rightarrow> Function_d1 \<Rightarrow> Function_d1
     \<Rightarrow> 'g train_state \<Rightarrow> 'g train_state" where
  \<comment> \<open>One cycle: sample a mini-batch, count its hits, propagate forward and backward,
      update both weight matrices.\<close>
  "spec_cycle R tp act1 act2 fLoss st =
     (let (batch, g) = rng_choice_p R (cur_rng st) [0, 1, 2, 3] (batch_size tp)
                         (spec_distribution (xPercents tp));
          x = map (\<lambda>h. X_BATCH_4 ! h) batch;
          y_true = map (\<lambda>h. yParam tp ! h) batch;
          (a1, a2) = XOR_forward_prop x (cur_w1 st) act1 (cur_w2 st) act2;
          (dw1, dw2) = XOR_back_prop x act1 a1 (cur_w2 st) act2 a2 y_true fLoss
      in \<lparr>hits_so_far = map (\<lambda>k. hits_so_far st ! k + int (count_list batch k)) [0..<4],
          cur_w1 = spec_update (cur_w1 st) dw1 (learning_rate tp) (real_of_int (minRange tp))
                     (real_of_int (maxRange tp)) (w1_lock tp),
          cur_w2 = spec_update (cur_w2 st) dw2 (learning_rate tp) (real_of_int (minRange tp))
                     (real_of_int (maxRange tp)) (w2_lock tp),
          cur_rng = g\<rparr>)"

primrec spec_segment ::
  "'g rng_ops \<Rightarrow> XOR_Slice \<Rightarrow> Function_d1 \<Rightarrow> Function_d1 \<Rightarrow> Function_d1 \<Rightarrow> nat
     \<Rightarrow> 'g train_state" where
  \<comment> \<open>Step 0 is the turning point's weights, clipped, with no hits; step i + 1 comes from
      step i by \<^verbatim>\<open>cyclesPerOneStepFwdOfEpoch\<close> cycles.\<close>
  "spec_segment R tp act1 act2 fLoss 0 =
     \<lparr>hits_so_far = [0, 0, 0, 0],
      cur_w1 = mat_clip (real_of_int (minRange tp)) (real_of_int (maxRange tp)) (w1 tp),
      cur_w2 = mat_clip (real_of_int (minRange tp)) (real_of_int (maxRange tp)) (w2 tp),
      cur_rng = default_rng R (index tp + (if seedTP tp \<ge> 0 then seedTP tp else 0))\<rparr>"
| "spec_segment R tp act1 act2 fLoss (Suc i) =
     ((spec_cycle R tp act1 act2 fLoss) ^^ nat (cyclesPerOneStepFwdOfEpoch tp))
       (spec_segment R tp act1 act2 fLoss i)"

definition locks01 :: "int list list \<Rightarrow> bool" where
  \<comment> \<open>Every entry of a lock mask is 0 (free) or 1 (locked).\<close>
  "locks01 lock = list_all (list_all (\<lambda>l. l = 0 \<or> l = 1)) lock"

definition trainable ::
  "XOR_Slice \<Rightarrow> Function_d1 \<Rightarrow> Function_d1 \<Rightarrow> Function_d1 \<Rightarrow> bool" where
  \<comment> \<open>The three names are registered for their roles (and name \<open>act1\<close>, \<open>act2\<close>,
      \<open>fLoss\<close>), the lock masks hold 0 and 1 only, there are percentages, and the labels
      have one row per input.\<close>
  "trainable tp act1 act2 fLoss \<longleftrightarrow>
     dict_getitem FunctionsListsByType_HiddenLayer (activation1 tp) = Inr act1 \<and>
     dict_getitem FunctionsListsByType_OutputLayer (activation2 tp) = Inr act2 \<and>
     dict_getitem FunctionsListsByType_LossFunction (loss tp) = Inr fLoss \<and>
     locks01 (w1_lock tp) \<and> locks01 (w2_lock tp) \<and> xPercents tp \<noteq> [] \<and>
     length (yParam tp) = 4"

subsection \<open>What a regeneration reads\<close>

text \<open>
  The fields of a slice that \<^verbatim>\<open>fillModel\<close> reads, and the agreement of two slices before
  a regeneration with the lock set L: the same index and lock masks, the same value in
  every locked configuration field, and the same weights where regeneration keeps them
  (at index 0 the locked entries; at a later index all entries, with the percentages and
  the labels).
\<close>

definition training_inputs ::
  "XOR_Slice \<Rightarrow> (int \<times> int \<times> int \<times> int \<times> int \<times> real) \<times> (string \<times> string \<times> string)
     \<times> (int \<times> int) \<times> (int list \<times> int list list) \<times> (matrix \<times> int list list)
     \<times> (matrix \<times> int list list)" where
  "training_inputs s =
     ((seedTP s, index s, batch_size s, epoch_size s, cyclesPerOneStepFwdOfEpoch s, learning_rate s),
      (activation1 s, activation2 s, loss s), (minRange s, maxRange s),
      (xPercents s, yParam s), (w1 s, w1_lock s), (w2 s, w2_lock s))"

definition locked_part :: "matrix \<Rightarrow> int list list \<Rightarrow> matrix" where
  "locked_part w w_lock = mat_map2 (*) w (mat_of_int w_lock)"

definition agree_prior :: "ColumnsMap set \<Rightarrow> XOR_Slice \<Rightarrow> XOR_Slice \<Rightarrow> bool" where
  "agree_prior L s1 s2 \<longleftrightarrow>
     index s1 = index s2 \<and> w1_lock s1 = w1_lock s2 \<and> w2_lock s1 = w2_lock s2
     \<and> (Col_batch_size \<in> L \<longrightarrow> batch_size s1 = batch_size s2)
     \<and> (Col_epoch_size \<in> L \<longrightarrow> epoch_size s1 = epoch_size s2)
     \<and> (Col_cyclesPerOneStepFwdOfEpoch \<in> L \<longrightarrow>
          cyclesPerOneStepFwdOfEpoch s1 = cyclesPerOneStepFwdOfEpoch s2)
     \<and> (Col_learning_rate \<in> L \<longrightarrow> learning_rate s1 = learning_rate s2)
     \<and> (Col_minRange \<in> L \<longrightarrow> minRange s1 = minRange s2 \<and> maxRange s1 = maxRange s2)
     \<and> (Col_activation1 \<in> L \<longrightarrow> activation1 s1 = activation1 s2)
     \<and> (Col_activation2 \<in> L \<longrightarrow> activation2 s1 = activation2 s2)
     \<and> (Col_loss \<in> L \<longrightarrow> loss s1 = loss s2)
     \<and> (if index s1 = 0
         then locked_part (w1 s1) (w1_lock s1) = locked_part (w1 s2) (w1_lock s2)
              \<and> locked_part (w2 s1) (w2_lock s1) = locked_part (w2 s2) (w2_lock s2)
         else w1 s1 = w1 s2 \<and> w2 s1 = w2 s2 \<and> xPercents s1 = xPercents s2
              \<and> yParam s1 = yParam s2)"

definition test_slice_other :: XOR_Slice where
  \<comment> \<open>A slice that differs from \<open>test_slice\<close> in the seed, in unlocked configuration
      fields, in the unlocked weight entries, in the percentages and in computed fields.\<close>
  "test_slice_other =
     test_slice\<lparr>seedTP := 99, batch_size := 8, learning_rate := 3 / 4, minRange := - 5,
                 maxRange := 5, xPercents := [1, 2, 3, 94], xHits := [5, 5, 5, 5],
                 w1 := [[1 / 2, 9], [9, 9], [9, 9]], w2 := [[3], [3], [3]],
                 lossAvg := [[2]]\<rparr>"

definition test_locks :: "ColumnsMap set" where
  "test_locks = {Col_epoch_size, Col_cyclesPerOneStepFwdOfEpoch, Col_activation1,
                 Col_activation2, Col_loss}"

(*THEOREMS*)

section \<open>Properties\<close>

subsection \<open>The function library at the edges\<close>

lemma sigmoid_derivative_nd_clipped:
  "sigmoid_derivative_nd a =
     map (map (\<lambda>v. np_clip EPSILON (1 - EPSILON) v * (1 - np_clip EPSILON (1 - EPSILON) v))) a"
  by (simp add: sigmoid_derivative_nd_def Let_def)

lemma np_clip_bounds: "lo \<le> hi \<Longrightarrow> lo \<le> np_clip lo hi v \<and> np_clip lo hi v \<le> hi"
  by (simp add: np_clip_def)

text \<open>
  C6. On a NumPy array the sigmoid derivative and the log cross-entropy loss clip into
  [EPSILON, 1 - EPSILON], as the claim says. On a plain Python number the
  \<^verbatim>\<open>except\<close> branch computes \<^verbatim>\<open>min(a, max(a, EPSILON), 1 - EPSILON)\<close>, which
  is \<^verbatim>\<open>min(a, 1 - EPSILON)\<close>: the lower bound is lost. At \<open>a = 0\<close> the derivative is 0,
  not \<open>EPSILON * (1 - EPSILON)\<close>, and the loss keeps the prediction 0, whose logarithm
  it then takes.
\<close>

theorem sigmoid_derivative_scalar_lower_bound_lost:
  "sigmoid_derivative (PyNum 0) = PyNum 0
   \<and> sigmoid_derivative (NdArray [[0]]) = NdArray [[EPSILON * (1 - EPSILON)]]
   \<and> LCE_Loss_init_a (PyNum 0) = PyNum 0
   \<and> LCE_Loss_init_a (NdArray [[0]]) = NdArray [[EPSILON]]"
  by (simp add: py_min3_def sigmoid_derivative_nd_def mat_clip_def np_clip_def EPSILON_def Let_def)

subsection \<open>Saving under a name that is too long\<close>

lemma completeBaseName_Nil: "completeBaseName [] = []"
  by (simp add: completeBaseName_def fileName_def)

text \<open>
  C10. When \<^verbatim>\<open>saveModel\<close> asks for a file name and the chosen name has a base name of
  more than \<^verbatim>\<open>MAX_LEN_FILENAME_JSON\<close> = 50 characters, it returns \<^verbatim>\<open>False\<close> (no
  exception), never opens a file for writing, keeps the first 50 characters as the model
  name and emits \<^verbatim>\<open>sigModelNameChanged\<close> with that truncated name (after a message box).
\<close>

theorem saveModel_name_too_long:
  assumes "dialog_shown dir m bSaveAs"
      and "dialog (proposed_name dir m) = chosen"
      and "length (completeBaseName chosen) > MAX_LEN_FILENAME_JSON"
  shows "saveModel dialog writer dir m bSaveAs =
           (False,
            m\<lparr>modelName := take MAX_LEN_FILENAME_JSON (completeBaseName chosen)\<rparr>,
            [MessageBox ''File name length exceeded''
               ''File name length exceeds 50.\<newline>Truncated but NOT saved!'',
             Emit (sigModelNameChanged (take MAX_LEN_FILENAME_JSON (completeBaseName chosen)))])
         \<and> length (take MAX_LEN_FILENAME_JSON (completeBaseName chosen)) = 50
         \<and> (\<forall>p. OpenForWrite p \<notin> set (snd (snd (saveModel dialog writer dir m bSaveAs))))"
proof -
  have ne: "chosen \<noteq> []"
    using assms(3) completeBaseName_Nil by (auto simp: MAX_LEN_FILENAME_JSON_def)
  have eq: "saveModel dialog writer dir m bSaveAs =
           (False,
            m\<lparr>modelName := take MAX_LEN_FILENAME_JSON (completeBaseName chosen)\<rparr>,
            [MessageBox ''File name length exceeded''
               ''File name length exceeds 50.\<newline>Truncated but NOT saved!'',
             Emit (sigModelNameChanged (take MAX_LEN_FILENAME_JSON (completeBaseName chosen)))])"
    using assms ne
    by (cases "lastSavedFileInfo m")
       (auto simp: saveModel_def dialog_shown_def proposed_name_def Let_def)
  show ?thesis
    using assms(3) by (simp add: eq MAX_LEN_FILENAME_JSON_def)
qed

lemma completeBaseName_long_file_name:
  "completeBaseName long_file_name =
     ''a_model_name_that_is_longer_than_fifty_characters_in_all''"
  by (simp add: completeBaseName_def fileName_def long_file_name_def)

theorem saveModel_name_too_long_witness:
  "dialog_shown ''/home/user/models'' test_model False
   \<and> length (completeBaseName long_file_name) = 56
   \<and> saveModel (\<lambda>proposed. long_file_name) (\<lambda>path. []) ''/home/user/models'' test_model False =
       (False,
        test_model\<lparr>modelName := ''a_model_name_that_is_longer_than_fifty_characters_''\<rparr>,
        [MessageBox ''File name length exceeded''
           ''File name length exceeds 50.\<newline>Truncated but NOT saved!'',
         Emit (sigModelNameChanged ''a_model_name_that_is_longer_than_fifty_characters_'')])"
proof -
  have shown: "dialog_shown ''/home/user/models'' test_model False"
    by (simp add: dialog_shown_def test_model_def)
  have long: "length (completeBaseName long_file_name) > MAX_LEN_FILENAME_JSON"
    by (simp add: completeBaseName_long_file_name MAX_LEN_FILENAME_JSON_def)
  show ?thesis
    using saveModel_name_too_long
            [where dialog = "\<lambda>proposed. long_file_name" and writer = "\<lambda>path. []"
               and dir = "''/home/user/models''" and m = test_model and bSaveAs = False
               and chosen = long_file_name]
          shown long
    by (simp add: completeBaseName_long_file_name MAX_LEN_FILENAME_JSON_def)
qed

subsection \<open>Loading names that are not registered\<close>

lemma HiddenLayer_eval:
  "FunctionsListsByType_HiddenLayer =
     [(''sigmoid'', Sigmoid), (''ReLU'', ReLU), (''LeakyReLU'', LeakyReLU), (''tanh'', Tanh),
      (''linear'', Linear)]"
  by (simp add: FunctionsListsByType_HiddenLayer_def Functions_dict_def)

lemma OutputLayer_eval:
  "FunctionsListsByType_OutputLayer =
     [(''sigmoid'', Sigmoid), (''ReLU'', ReLU), (''tanh'', Tanh), (''linear'', Linear),
      (''BinaryStop'', BinaryStop)]"
  by (simp add: FunctionsListsByType_OutputLayer_def Functions_dict_def)

lemma LossFunction_eval:
  "FunctionsListsByType_LossFunction =
     [(''LCE_Loss'', LCE_Loss), (''Hinge_Loss'', Hinge_Loss),
      (''Squared_Hinge_Loss'', Squared_Hinge_Loss), (''Hinge_Loss_0_1'', Hinge_Loss_0_1),
      (''Squared_Hinge_Loss_0_1'', Squared_Hinge_Loss_0_1)]"
  by (simp add: FunctionsListsByType_LossFunction_def Functions_dict_def)

lemma bind_err_Inr: "bind_err (Inr x) f = f x"
  by (simp add: bind_err_def)

lemma bind_err_Inl: "bind_err (Inl e) f = Inl e"
  by (simp add: bind_err_def)

lemma bind_err_eq_Inr: "bind_err m f = Inr r \<longleftrightarrow> (\<exists>x. m = Inr x \<and> f x = Inr r)"
  by (cases m) (simp_all add: bind_err_def)

lemma name_or_reset_hashable:
  assumes "hashable v" "first_key reset = Inr k"
  shows "name_or_reset table reset role v =
           Inr (if is_registered table v then v else JStr k,
                if is_registered table v then [] else [Warning_not_defined role v k])"
  using assms
  by (cases v) (simp_all add: name_or_reset_def hashable_def is_registered_def bind_err_def)

lemma name_or_reset_registered:
  "is_registered table v \<Longrightarrow> name_or_reset table reset role v = Inr (v, [])"
  by (cases v) (simp_all add: name_or_reset_def is_registered_def)

lemma replace_log_bind:
  "replace_log W (bind_err m f) = bind_err m (\<lambda>x. replace_log W (f x))"
  by (cases m) (simp_all add: bind_err_def replace_log_def)

lemma replace_log_Inr: "replace_log W (Inr (tp, lg)) = Inr (tp, W)"
  by (simp add: replace_log_def)

lemma first_keys:
  "first_key FunctionsListsByType_HiddenLayer = Inr ''sigmoid''"
  "first_key FunctionsListsByType_LossFunction = Inr ''LCE_Loss''"
  "fst (hd FunctionsListsByType_HiddenLayer) = ''sigmoid''"
  "fst (hd FunctionsListsByType_OutputLayer) = ''sigmoid''"
  "fst (hd FunctionsListsByType_LossFunction) = ''LCE_Loss''"
  by (simp_all add: first_key_def HiddenLayer_eval OutputLayer_eval LossFunction_eval)

lemma registered_first:
  "is_registered FunctionsListsByType_HiddenLayer (JStr ''sigmoid'')"
  "is_registered FunctionsListsByType_OutputLayer (JStr ''sigmoid'')"
  "is_registered FunctionsListsByType_LossFunction (JStr ''LCE_Loss'')"
  by (simp_all add: is_registered_def HiddenLayer_eval OutputLayer_eval LossFunction_eval)

lemma json_getitem_reset:
  "k \<noteq> ''activation1'' \<Longrightarrow> k \<noteq> ''activation2'' \<Longrightarrow> k \<noteq> ''loss'' \<Longrightarrow>
   json_getitem (reset_unknown_names j) k = json_getitem j k"
  by (simp add: reset_unknown_names_def reset_name_def json_getitem_def)

lemma json_get_reset:
  "json_get (reset_unknown_names j) ''activation1'' (JStr []) =
     (let v = json_get j ''activation1'' (JStr [])
      in if is_registered FunctionsListsByType_HiddenLayer v then v else JStr ''sigmoid'')"
  "json_get (reset_unknown_names j) ''activation2'' (JStr []) =
     (let v = json_get j ''activation2'' (JStr [])
      in if is_registered FunctionsListsByType_OutputLayer v then v else JStr ''sigmoid'')"
  "json_get (reset_unknown_names j) ''loss'' (JStr []) =
     (let v = json_get j ''loss'' (JStr [])
      in if is_registered FunctionsListsByType_LossFunction v then v else JStr ''LCE_Loss'')"
  by (simp_all add: reset_unknown_names_def reset_name_def json_get_def first_keys Let_def)

lemma fromJson_reset:
  assumes h1: "hashable (json_get j ''activation1'' (JStr []))"
      and h2: "hashable (json_get j ''activation2'' (JStr []))"
      and h3: "hashable (json_get j ''loss'' (JStr []))"
  shows "fromJson C self j =
           replace_log (unknown_name_warnings j) (fromJson C self (reset_unknown_names j))"
proof -
  note n1 = name_or_reset_hashable [OF h1 first_keys(1)]
  note n2 = name_or_reset_hashable [OF h2 first_keys(1)]
  note n3 = name_or_reset_hashable [OF h3 first_keys(2)]
  show ?thesis
    unfolding fromJson_def
    by (simp add: replace_log_bind replace_log_Inr json_getitem_reset json_get_reset n1 n2 n3
          bind_err_Inr Let_def name_or_reset_registered registered_first
          unknown_name_warnings_def name_warning_def first_keys
        cong: if_cong)
qed

lemma fromJson_fields:
  assumes ok: "fromJson C self j = Inr (tp, lg)"
      and h1: "hashable (json_get j ''activation1'' (JStr []))"
      and h2: "hashable (json_get j ''activation2'' (JStr []))"
      and h3: "hashable (json_get j ''loss'' (JStr []))"
  shows "activation1 tp =
           (let v = json_get j ''activation1'' (JStr [])
            in if is_registered FunctionsListsByType_HiddenLayer v then json_str v
               else fst (hd FunctionsListsByType_HiddenLayer))
       \<and> activation2 tp =
           (let v = json_get j ''activation2'' (JStr [])
            in if is_registered FunctionsListsByType_OutputLayer v then json_str v
               else fst (hd FunctionsListsByType_OutputLayer))
       \<and> loss tp =
           (let v = json_get j ''loss'' (JStr [])
            in if is_registered FunctionsListsByType_LossFunction v then json_str v
               else fst (hd FunctionsListsByType_LossFunction))
       \<and> lg = unknown_name_warnings j"
proof -
  note n1 = name_or_reset_hashable [OF h1 first_keys(1)]
  note n2 = name_or_reset_hashable [OF h2 first_keys(1)]
  note n3 = name_or_reset_hashable [OF h3 first_keys(2)]
  show ?thesis
    using ok unfolding fromJson_def
    by (auto simp: bind_err_eq_Inr Let_def n1 n2 n3 json_str_def first_keys
          unknown_name_warnings_def name_warning_def)
qed

lemma key_reads_bind:
  "key_reads j k conv v \<Longrightarrow> bind_err (json_getitem j k) conv = Inr v"
  by (simp add: key_reads_def json_getitem_def bind_err_def split: option.splits)

lemma json_str_JStr: "json_str (JStr n) = n"
  by (simp add: json_str_def)

lemma fromJson_parsed:
  assumes h1: "hashable (json_get j ''activation1'' (JStr []))"
      and h2: "hashable (json_get j ''activation2'' (JStr []))"
      and h3: "hashable (json_get j ''loss'' (JStr []))"
      and k: "key_reads j ''index'' (py_int C) vi"
        "key_reads j ''seedTP'' (py_int C) vs"
        "key_reads j ''batch_size'' (py_int C) vb"
        "key_reads j ''epoch_size'' (py_int C) ve"
        "key_reads j ''cyclesPerOneStepFwdOfEpoch'' (py_int C) vc"
        "key_reads j ''learning_rate'' (py_float C) vr"
        "key_reads j ''minRange'' (py_int C) vmin"
        "key_reads j ''maxRange'' (py_int C) vmax"
        "key_reads j ''yParam'' (\<lambda>x. asarray_int C x 4 1) vy"
        "key_reads j ''xPercents'' (\<lambda>x. asarray_int_flat C x 4) vx"
        "key_reads j ''w1'' (\<lambda>x. asarray_float C x 3 2) vw1"
        "key_reads j ''w1_lock'' (\<lambda>x. asarray_int C x 3 2) vl1"
        "key_reads j ''w2'' (\<lambda>x. asarray_float C x 3 1) vw2"
        "key_reads j ''w2_lock'' (\<lambda>x. asarray_int C x 3 1) vl2"
  shows "fromJson C self j =
           Inr (self\<lparr>index := vi, seedTP := vs, batch_size := vb, epoch_size := ve,
                     cyclesPerOneStepFwdOfEpoch := vc, learning_rate := vr, minRange := vmin,
                     maxRange := vmax, yParam := vy, xPercents := vx, w1 := vw1, w1_lock := vl1,
                     activation1 :=
                       (let v = json_get j ''activation1'' (JStr [])
                        in if is_registered FunctionsListsByType_HiddenLayer v then json_str v
                           else fst (hd FunctionsListsByType_HiddenLayer)),
                     w2 := vw2, w2_lock := vl2,
                     activation2 :=
                       (let v = json_get j ''activation2'' (JStr [])
                        in if is_registered FunctionsListsByType_OutputLayer v then json_str v
                           else fst (hd FunctionsListsByType_OutputLayer)),
                     loss :=
                       (let v = json_get j ''loss'' (JStr [])
                        in if is_registered FunctionsListsByType_LossFunction v then json_str v
                           else fst (hd FunctionsListsByType_LossFunction))\<rparr>,
                unknown_name_warnings j)"
proof -
  note n1 = name_or_reset_hashable [OF h1 first_keys(1)]
  note n2 = name_or_reset_hashable [OF h2 first_keys(1)]
  note n3 = name_or_reset_hashable [OF h3 first_keys(2)]
  note b = k [THEN key_reads_bind]
  show ?thesis
    unfolding fromJson_def
    by (simp add: b bind_err_Inr Let_def n1 n2 n3 first_keys if_distrib [of json_str]
          json_str_JStr unknown_name_warnings_def name_warning_def
        del: One_nat_def split del: if_split cong: if_cong)
qed


text \<open>
  C9. Let the values under \<^verbatim>\<open>activation1\<close>, \<^verbatim>\<open>activation2\<close> and \<^verbatim>\<open>loss\<close> be
  names (any JSON value but an array or an object; a missing key counts as the empty
  name). Then \<^verbatim>\<open>fromJson\<close> behaves on the object exactly as on the object in which every
  name that is not registered for its role is replaced by the first key of the table of
  that role, except that it logs one warning per replaced name: it raises the same
  exception, if any, and otherwise yields the same slice. So an unregistered name never
  raises, the field falls back to the first registered entry of its role table
  (\<^verbatim>\<open>sigmoid\<close>, \<^verbatim>\<open>sigmoid\<close>, \<^verbatim>\<open>LCE_Loss\<close>), and a warning is logged. All other fields
  are parsed as usual: when each of the fourteen other keys is present and converts, the
  call succeeds and the slice it leaves holds the fourteen converted values, the three
  names (kept when registered, replaced otherwise) and nothing else changed. The source
  takes the fall-back of the output activation from the table of the hidden layer; both
  tables start with \<^verbatim>\<open>sigmoid\<close>.
\<close>

theorem fromJson_unknown_names:
  assumes h1: "hashable (json_get j ''activation1'' (JStr []))"
      and h2: "hashable (json_get j ''activation2'' (JStr []))"
      and h3: "hashable (json_get j ''loss'' (JStr []))"
  shows "fromJson C self j =
           replace_log (unknown_name_warnings j) (fromJson C self (reset_unknown_names j))
       \<and> is_registered FunctionsListsByType_HiddenLayer
           (json_get (reset_unknown_names j) ''activation1'' (JStr []))
       \<and> is_registered FunctionsListsByType_OutputLayer
           (json_get (reset_unknown_names j) ''activation2'' (JStr []))
       \<and> is_registered FunctionsListsByType_LossFunction
           (json_get (reset_unknown_names j) ''loss'' (JStr []))
       \<and> (\<forall>tp lg. fromJson C self j = Inr (tp, lg) \<longrightarrow>
            activation1 tp =
              (let v = json_get j ''activation1'' (JStr [])
               in if is_registered FunctionsListsByType_HiddenLayer v then json_str v
                  else fst (hd FunctionsListsByType_HiddenLayer))
            \<and> activation2 tp =
              (let v = json_get j ''activation2'' (JStr [])
               in if is_registered FunctionsListsByType_OutputLayer v then json_str v
                  else fst (hd FunctionsListsByType_OutputLayer))
            \<and> loss tp =
              (let v = json_get j ''loss'' (JStr [])
               in if is_registered FunctionsListsByType_LossFunction v then json_str v
                  else fst (hd FunctionsListsByType_LossFunction))
            \<and> lg = unknown_name_warnings j)
       \<and> (\<forall>vi vs vb ve vc vr vmin vmax vy vx vw1 vl1 vw2 vl2.
            key_reads j ''index'' (py_int C) vi \<longrightarrow>
            key_reads j ''seedTP'' (py_int C) vs \<longrightarrow>
            key_reads j ''batch_size'' (py_int C) vb \<longrightarrow>
            key_reads j ''epoch_size'' (py_int C) ve \<longrightarrow>
            key_reads j ''cyclesPerOneStepFwdOfEpoch'' (py_int C) vc \<longrightarrow>
            key_reads j ''learning_rate'' (py_float C) vr \<longrightarrow>
            key_reads j ''minRange'' (py_int C) vmin \<longrightarrow>
            key_reads j ''maxRange'' (py_int C) vmax \<longrightarrow>
            key_reads j ''yParam'' (\<lambda>x. asarray_int C x 4 1) vy \<longrightarrow>
            key_reads j ''xPercents'' (\<lambda>x. asarray_int_flat C x 4) vx \<longrightarrow>
            key_reads j ''w1'' (\<lambda>x. asarray_float C x 3 2) vw1 \<longrightarrow>
            key_reads j ''w1_lock'' (\<lambda>x. asarray_int C x 3 2) vl1 \<longrightarrow>
            key_reads j ''w2'' (\<lambda>x. asarray_float C x 3 1) vw2 \<longrightarrow>
            key_reads j ''w2_lock'' (\<lambda>x. asarray_int C x 3 1) vl2 \<longrightarrow>
            fromJson C self j =
              Inr (self\<lparr>index := vi, seedTP := vs, batch_size := vb, epoch_size := ve,
                        cyclesPerOneStepFwdOfEpoch := vc, learning_rate := vr, minRange := vmin,
                        maxRange := vmax, yParam := vy, xPercents := vx, w1 := vw1,
                        w1_lock := vl1,
                        activation1 :=
                          (let v = json_get j ''activation1'' (JStr [])
                           in if is_registered FunctionsListsByType_HiddenLayer v then json_str v
                              else fst (hd FunctionsListsByType_HiddenLayer)),
                        w2 := vw2, w2_lock := vl2,
                        activation2 :=
                          (let v = json_get j ''activation2'' (JStr [])
                           in if is_registered FunctionsListsByType_OutputLayer v then json_str v
                              else fst (hd FunctionsListsByType_OutputLayer)),
                        loss :=
                          (let v = json_get j ''loss'' (JStr [])
                           in if is_registered FunctionsListsByType_LossFunction v then json_str v
                              else fst (hd FunctionsListsByType_LossFunction))\<rparr>,
                   unknown_name_warnings j))"
proof (intro conjI allI impI)
  show "fromJson C self j =
          replace_log (unknown_name_warnings j) (fromJson C self (reset_unknown_names j))"
    by (rule fromJson_reset [OF h1 h2 h3])
  show "is_registered FunctionsListsByType_HiddenLayer
          (json_get (reset_unknown_names j) ''activation1'' (JStr []))"
    by (simp add: json_get_reset Let_def registered_first)
  show "is_registered FunctionsListsByType_OutputLayer
          (json_get (reset_unknown_names j) ''activation2'' (JStr []))"
    by (simp add: json_get_reset Let_def registered_first)
  show "is_registered FunctionsListsByType_LossFunction
          (json_get (reset_unknown_names j) ''loss'' (JStr []))"
    by (simp add: json_get_reset Let_def registered_first)
next
  fix tp lg
  assume ok: "fromJson C self j = Inr (tp, lg)"
  note f = fromJson_fields [OF ok h1 h2 h3]
  show "activation1 tp =
          (let v = json_get j ''activation1'' (JStr [])
           in if is_registered FunctionsListsByType_HiddenLayer v then json_str v
              else fst (hd FunctionsListsByType_HiddenLayer))"
    using f by blast
  show "activation2 tp =
          (let v = json_get j ''activation2'' (JStr [])
           in if is_registered FunctionsListsByType_OutputLayer v then json_str v
              else fst (hd FunctionsListsByType_OutputLayer))"
    using f by blast
  show "loss tp =
          (let v = json_get j ''loss'' (JStr [])
           in if is_registered FunctionsListsByType_LossFunction v then json_str v
              else fst (hd FunctionsListsByType_LossFunction))"
    using f by blast
  show "lg = unknown_name_warnings j"
    using f by blast
next
  fix vi vs vb ve vc vr vmin vmax vy vx vw1 vl1 vw2 vl2
  assume k: "key_reads j ''index'' (py_int C) vi"
        "key_reads j ''seedTP'' (py_int C) vs"
        "key_reads j ''batch_size'' (py_int C) vb"
        "key_reads j ''epoch_size'' (py_int C) ve"
        "key_reads j ''cyclesPerOneStepFwdOfEpoch'' (py_int C) vc"
        "key_reads j ''learning_rate'' (py_float C) vr"
        "key_reads j ''minRange'' (py_int C) vmin"
        "key_reads j ''maxRange'' (py_int C) vmax"
        "key_reads j ''yParam'' (\<lambda>x. asarray_int C x 4 1) vy"
        "key_reads j ''xPercents'' (\<lambda>x. asarray_int_flat C x 4) vx"
        "key_reads j ''w1'' (\<lambda>x. asarray_float C x 3 2) vw1"
        "key_reads j ''w1_lock'' (\<lambda>x. asarray_int C x 3 2) vl1"
        "key_reads j ''w2'' (\<lambda>x. asarray_float C x 3 1) vw2"
        "key_reads j ''w2_lock'' (\<lambda>x. asarray_int C x 3 1) vl2"
  show "fromJson C self j =
              Inr (self\<lparr>index := vi, seedTP := vs, batch_size := vb, epoch_size := ve,
                        cyclesPerOneStepFwdOfEpoch := vc, learning_rate := vr, minRange := vmin,
                        maxRange := vmax, yParam := vy, xPercents := vx, w1 := vw1,
                        w1_lock := vl1,
                        activation1 :=
                          (let v = json_get j ''activation1'' (JStr [])
                           in if is_registered FunctionsListsByType_HiddenLayer v then json_str v
                              else fst (hd FunctionsListsByType_HiddenLayer)),
                        w2 := vw2, w2_lock := vl2,
                        activation2 :=
                          (let v = json_get j ''activation2'' (JStr [])
                           in if is_registered FunctionsListsByType_OutputLayer v then json_str v
                              else fst (hd FunctionsListsByType_OutputLayer)),
                        loss :=
                          (let v = json_get j ''loss'' (JStr [])
                           in if is_registered FunctionsListsByType_LossFunction v then json_str v
                              else fst (hd FunctionsListsByType_LossFunction))\<rparr>,
                   unknown_name_warnings j)"
    by (rule fromJson_parsed [OF h1 h2 h3 k])
qed

theorem fromJson_unknown_names_witness:
  "hashable (json_get test_json ''activation1'' (JStr []))
   \<and> hashable (json_get test_json ''activation2'' (JStr []))
   \<and> hashable (json_get test_json ''loss'' (JStr []))
   \<and> \<not> is_registered FunctionsListsByType_HiddenLayer (json_get test_json ''activation1'' (JStr []))
   \<and> \<not> is_registered FunctionsListsByType_OutputLayer (json_get test_json ''activation2'' (JStr []))
   \<and> \<not> is_registered FunctionsListsByType_LossFunction (json_get test_json ''loss'' (JStr []))
   \<and> fromJson test_conv test_slice test_json =
       Inr (test_slice\<lparr>index := 3, seedTP := 11, batch_size := 4, epoch_size := 9,
                       cyclesPerOneStepFwdOfEpoch := 5, learning_rate := 1 / 4, minRange := - 2,
                       maxRange := 3, yParam := [[1], [0], [0], [1]],
                       xPercents := [40, 30, 20, 10],
                       w1 := [[3 / 2, 2], [3, - 1 / 4], [1, - 1]],
                       w1_lock := [[0, 1], [0, 0], [1, 0]], activation1 := ''sigmoid'',
                       w2 := [[2], [3 / 4], [- 1]], w2_lock := [[1], [0], [0]],
                       activation2 := ''sigmoid'', loss := ''LCE_Loss''\<rparr>,
            [Warning_not_defined ''hidden activation function'' (JStr ''Swish'') ''sigmoid'',
             Warning_not_defined ''Output activation function'' (JStr ''softmax'') ''sigmoid'',
             Warning_not_defined ''Loss function'' (JStr ''MSE'') ''LCE_Loss''])"
proof -
  have h1: "hashable (json_get test_json ''activation1'' (JStr []))"
   and h2: "hashable (json_get test_json ''activation2'' (JStr []))"
   and h3: "hashable (json_get test_json ''loss'' (JStr []))"
    by (simp_all add: hashable_def json_get_def test_json_def)
  have nr: "\<not> is_registered FunctionsListsByType_HiddenLayer
              (json_get test_json ''activation1'' (JStr []))"
    "\<not> is_registered FunctionsListsByType_OutputLayer
              (json_get test_json ''activation2'' (JStr []))"
    "\<not> is_registered FunctionsListsByType_LossFunction
              (json_get test_json ''loss'' (JStr []))"
    by (simp_all add: is_registered_def json_get_def test_json_def HiddenLayer_eval
        OutputLayer_eval LossFunction_eval)
  have w: "unknown_name_warnings test_json =
            [Warning_not_defined ''hidden activation function'' (JStr ''Swish'') ''sigmoid'',
             Warning_not_defined ''Output activation function'' (JStr ''softmax'') ''sigmoid'',
             Warning_not_defined ''Loss function'' (JStr ''MSE'') ''LCE_Loss'']"
    by (simp add: unknown_name_warnings_def name_warning_def is_registered_def json_get_def
          test_json_def HiddenLayer_eval OutputLayer_eval LossFunction_eval)
  have k: "key_reads test_json ''index'' (py_int test_conv) 3"
        "key_reads test_json ''seedTP'' (py_int test_conv) 11"
        "key_reads test_json ''batch_size'' (py_int test_conv) 4"
        "key_reads test_json ''epoch_size'' (py_int test_conv) 9"
        "key_reads test_json ''cyclesPerOneStepFwdOfEpoch'' (py_int test_conv) 5"
        "key_reads test_json ''learning_rate'' (py_float test_conv) (1 / 4)"
        "key_reads test_json ''minRange'' (py_int test_conv) (- 2)"
        "key_reads test_json ''maxRange'' (py_int test_conv) 3"
        "key_reads test_json ''yParam'' (\<lambda>x. asarray_int test_conv x 4 1) [[1], [0], [0], [1]]"
        "key_reads test_json ''xPercents'' (\<lambda>x. asarray_int_flat test_conv x 4) [40, 30, 20, 10]"
        "key_reads test_json ''w1'' (\<lambda>x. asarray_float test_conv x 3 2)
           [[3 / 2, 2], [3, - 1 / 4], [1, - 1]]"
        "key_reads test_json ''w1_lock'' (\<lambda>x. asarray_int test_conv x 3 2)
           [[0, 1], [0, 0], [1, 0]]"
        "key_reads test_json ''w2'' (\<lambda>x. asarray_float test_conv x 3 1) [[2], [3 / 4], [- 1]]"
        "key_reads test_json ''w2_lock'' (\<lambda>x. asarray_int test_conv x 3 1) [[1], [0], [0]]"
    by (simp_all add: key_reads_def test_json_def test_conv_def conv_matrix_def conv_flat_def
        bind_err_def)
  note parsed = fromJson_unknown_names [OF h1 h2 h3, of test_conv test_slice,
      THEN conjunct2, THEN conjunct2, THEN conjunct2, THEN conjunct2, THEN conjunct2,
      rule_format, OF k]
  show ?thesis
    using parsed h1 h2 h3 nr
    by (simp add: w first_keys)
qed

subsection \<open>Regeneration from a seed: the fields of the regenerated slice\<close>

lemmas gens = gen0_def gen1_def gen2_def gen3_def gen4_def gen5_def gen6_def gen7_def gen8_def
  gen9_def gen10_def drawn_minRange_def drawn_batch_size_def drawn_epoch_size_def
  drawn_cycles_def drawn_learning_rate_def drawn_maxRange_def drawn_activation1_def
  drawn_activation2_def drawn_loss_def drawn_dirichlet_def final_minRange_def
  final_maxRange_def drawn_w1_def drawn_w2_def percents_of_def drawn_products_def

lemma if_upd:
  "(if c then batch_size_update (\<lambda>_. v1) s else s) = batch_size_update (\<lambda>x. if c then v1 else x) s"
  "(if c then epoch_size_update (\<lambda>_. v1) s else s) = epoch_size_update (\<lambda>x. if c then v1 else x) s"
  "(if c then cyclesPerOneStepFwdOfEpoch_update (\<lambda>_. v1) s else s) =
     cyclesPerOneStepFwdOfEpoch_update (\<lambda>x. if c then v1 else x) s"
  "(if c then learning_rate_update (\<lambda>_. vr) s else s) = learning_rate_update (\<lambda>x. if c then vr else x) s"
  "(if c then activation1_update (\<lambda>_. vs) s else s) = activation1_update (\<lambda>x. if c then vs else x) s"
  "(if c then activation2_update (\<lambda>_. vs) s else s) = activation2_update (\<lambda>x. if c then vs else x) s"
  "(if c then loss_update (\<lambda>_. vs) s else s) = loss_update (\<lambda>x. if c then vs else x) s"
  "(if c then s\<lparr>minRange := v1, maxRange := v2\<rparr> else s) =
      (maxRange_update (\<lambda>x. if c then v2 else x) (minRange_update (\<lambda>x. if c then v1 else x) s))"
  by (cases c; simp)+

lemma compute_z_a_loss_frame:
  "seedTP (fst (compute_z_a_loss s)) = seedTP s"
  "index (fst (compute_z_a_loss s)) = index s"
  "batch_size (fst (compute_z_a_loss s)) = batch_size s"
  "epoch_size (fst (compute_z_a_loss s)) = epoch_size s"
  "cyclesPerOneStepFwdOfEpoch (fst (compute_z_a_loss s)) = cyclesPerOneStepFwdOfEpoch s"
  "learning_rate (fst (compute_z_a_loss s)) = learning_rate s"
  "activation1 (fst (compute_z_a_loss s)) = activation1 s"
  "activation2 (fst (compute_z_a_loss s)) = activation2 s"
  "loss (fst (compute_z_a_loss s)) = loss s"
  "xPercents (fst (compute_z_a_loss s)) = xPercents s"
  "yParam (fst (compute_z_a_loss s)) = yParam s"
  "xHits (fst (compute_z_a_loss s)) = xHits s"
  "minRange (fst (compute_z_a_loss s)) = minRange s"
  "maxRange (fst (compute_z_a_loss s)) = maxRange s"
  "w1 (fst (compute_z_a_loss s)) = w1 s"
  "w1_lock (fst (compute_z_a_loss s)) = w1_lock s"
  "w2 (fst (compute_z_a_loss s)) = w2 s"
  "w2_lock (fst (compute_z_a_loss s)) = w2_lock s"
  by (simp_all add: compute_z_a_loss_def Let_def split: sum.splits)

lemma feed_fields:
  "seedTP (fst (feedFromSeed R seed L s)) = seed"
  "index (fst (feedFromSeed R seed L s)) = index s"
  "batch_size (fst (feedFromSeed R seed L s)) =
     (if Col_batch_size \<in> L then batch_size s else drawn_batch_size R seed)"
  "epoch_size (fst (feedFromSeed R seed L s)) =
     (if Col_epoch_size \<in> L then epoch_size s else drawn_epoch_size R seed)"
  "cyclesPerOneStepFwdOfEpoch (fst (feedFromSeed R seed L s)) =
     (if Col_cyclesPerOneStepFwdOfEpoch \<in> L then cyclesPerOneStepFwdOfEpoch s
      else drawn_cycles R seed)"
  "learning_rate (fst (feedFromSeed R seed L s)) =
     (if Col_learning_rate \<in> L then learning_rate s else drawn_learning_rate R seed)"
  "minRange (fst (feedFromSeed R seed L s)) = final_minRange R seed L s"
  "maxRange (fst (feedFromSeed R seed L s)) = final_maxRange R seed L s"
  "activation1 (fst (feedFromSeed R seed L s)) =
     (if Col_activation1 \<in> L then activation1 s else drawn_activation1 R seed)"
  "activation2 (fst (feedFromSeed R seed L s)) =
     (if Col_activation2 \<in> L then activation2 s else drawn_activation2 R seed)"
  "loss (fst (feedFromSeed R seed L s)) =
     (if Col_loss \<in> L then loss s else drawn_loss R seed)"
  "w1_lock (fst (feedFromSeed R seed L s)) = w1_lock s"
  "w2_lock (fst (feedFromSeed R seed L s)) = w2_lock s"
  "xPercents (fst (feedFromSeed R seed L s)) =
     (if index s = 0 then percents_of (drawn_products R seed) else xPercents s)"
  "yParam (fst (feedFromSeed R seed L s)) = (if index s = 0 then Y_XOR_TRUE_4 else yParam s)"
  "xHits (fst (feedFromSeed R seed L s)) = (if index s = 0 then [0, 0, 0, 0] else xHits s)"
  "w1 (fst (feedFromSeed R seed L s)) =
     (if index s = 0
      then lock_keep (w1 s) (w1_lock s)
             (drawn_w1 R seed (final_minRange R seed L s) (final_maxRange R seed L s))
      else mat_clip (real_of_int (final_minRange R seed L s))
             (real_of_int (final_maxRange R seed L s)) (w1 s))"
  "w2 (fst (feedFromSeed R seed L s)) =
     (if index s = 0
      then lock_keep (w2 s) (w2_lock s)
             (drawn_w2 R seed (final_minRange R seed L s) (final_maxRange R seed L s))
      else mat_clip (real_of_int (final_minRange R seed L s))
             (real_of_int (final_maxRange R seed L s)) (w2 s))"
  apply (cases "index s = 0";
         simp add: feedFromSeed_def Let_def case_prod_beta compute_z_a_loss_frame if_upd
           split del: if_split;
         simp add: gens comp_def)+
  done


lemma list4: "length d = 4 \<Longrightarrow> \<exists>a b c e. d = [a, b, c, e]"
  by (cases d; simp; rename_tac x xs; case_tac xs; simp; rename_tac y ys; case_tac ys; simp;
      rename_tac z zs; case_tac zs; simp)

lemma percents_of_4:
  "percents_of [a, b, c, e] =
     [astype_int a, astype_int b, astype_int c,
      100 - (astype_int a + astype_int b + astype_int c)]"
  by (simp add: percents_of_def Let_def)

lemma astype_int_nonneg: "0 \<le> v \<Longrightarrow> astype_int v = \<lfloor>v\<rfloor> \<and> 0 \<le> astype_int v"
  by (simp add: astype_int_def)

lemma percents_sum:
  fixes a b c e :: real
  assumes "0 \<le> a" "0 \<le> b" "0 \<le> c" "0 \<le> e" "a + b + c + e < 101"
  shows "0 \<le> 100 - (\<lfloor>a\<rfloor> + \<lfloor>b\<rfloor> + \<lfloor>c\<rfloor>)"
    and "\<lfloor>e\<rfloor> \<le> 100 - (\<lfloor>a\<rfloor> + \<lfloor>b\<rfloor> + \<lfloor>c\<rfloor>)"
    and "99 < a + b + c + e \<Longrightarrow> 100 - (\<lfloor>a\<rfloor> + \<lfloor>b\<rfloor> + \<lfloor>c\<rfloor>) \<le> \<lfloor>e\<rfloor> + 4"
proof -
  have fa: "real_of_int \<lfloor>a\<rfloor> \<le> a" "a < real_of_int \<lfloor>a\<rfloor> + 1"
   and fb: "real_of_int \<lfloor>b\<rfloor> \<le> b" "b < real_of_int \<lfloor>b\<rfloor> + 1"
   and fc: "real_of_int \<lfloor>c\<rfloor> \<le> c" "c < real_of_int \<lfloor>c\<rfloor> + 1"
   and fe: "real_of_int \<lfloor>e\<rfloor> \<le> e" "e < real_of_int \<lfloor>e\<rfloor> + 1"
    by linarith+
  define A where "A = \<lfloor>a\<rfloor>"
  define B where "B = \<lfloor>b\<rfloor>"
  define C where "C = \<lfloor>c\<rfloor>"
  define E where "E = \<lfloor>e\<rfloor>"
  note A_B_C_E_def = A_def B_def C_def E_def
  have E0: "0 \<le> E"
    using assms(4) by (simp add: E_def)
  have "real_of_int A + real_of_int B + real_of_int C + real_of_int E < 101"
    unfolding A_B_C_E_def using fa fb fc fe assms(5) by linarith
  then have "real_of_int (A + B + C + E) < real_of_int 101"
    by simp
  then have up: "A + B + C + E < 101"
    by (simp only: of_int_less_iff)
  show "0 \<le> 100 - (\<lfloor>a\<rfloor> + \<lfloor>b\<rfloor> + \<lfloor>c\<rfloor>)"
    using up E0 unfolding A_B_C_E_def by linarith
  show "\<lfloor>e\<rfloor> \<le> 100 - (\<lfloor>a\<rfloor> + \<lfloor>b\<rfloor> + \<lfloor>c\<rfloor>)"
    using up unfolding A_B_C_E_def by linarith
  show "100 - (\<lfloor>a\<rfloor> + \<lfloor>b\<rfloor> + \<lfloor>c\<rfloor>) \<le> \<lfloor>e\<rfloor> + 4" if "99 < a + b + c + e"
  proof -
    have "95 < real_of_int A + real_of_int B + real_of_int C + real_of_int E"
      unfolding A_B_C_E_def using fa fb fc fe that by linarith
    then have "real_of_int 95 < real_of_int (A + B + C + E)"
      by simp
    then have "95 < A + B + C + E"
      by (simp only: of_int_less_iff)
    then show ?thesis
      unfolding A_B_C_E_def by linarith
  qed
qed

lemma test_gens:
  "gen0 test_rng 7 = 7" "gen1 test_rng 7 = 8" "gen2 test_rng 7 = 9" "gen3 test_rng 7 = 10"
  "gen4 test_rng 7 = 11" "gen5 test_rng 7 = 12" "drawn_minRange test_rng 7 = - 9"
  "gen6 test_rng 7 = 13" "gen7 test_rng 7 = 14" "gen8 test_rng 7 = 15" "gen9 test_rng 7 = 16"
  "gen10 test_rng 7 = 17"
  by (simp_all add: gens test_rng_def)

lemma test_draws:
  "drawn_batch_size test_rng 7 = 10"
  "drawn_epoch_size test_rng 7 = 500"
  "drawn_cycles test_rng 7 = 2"
  "drawn_maxRange test_rng 7 = 4"
  "drawn_activation1 test_rng 7 = ''tanh''"
  "drawn_activation2 test_rng 7 = ''BinaryStop''"
  "drawn_loss test_rng 7 = ''LCE_Loss''"
  "drawn_dirichlet test_rng 7 = [51 / 200, 51 / 200, 51 / 200, 47 / 200]"
  "drawn_products test_rng 7 = [51 / 2, 51 / 2, 51 / 2, 47 / 2]"
     apply (simp_all add: drawn_batch_size_def drawn_products_def drawn_epoch_size_def drawn_cycles_def
      drawn_maxRange_def drawn_activation1_def drawn_activation2_def drawn_loss_def
      drawn_dirichlet_def test_gens)
     apply (simp_all add: test_rng_def BATCH_SIZE_def EPOCH_SIZE_def CYCLES_PER_EPOCH_def
      HiddenLayer_eval OutputLayer_eval LossFunction_eval)
  done




text \<open>
  C3 (as amended). For every column F and every seed, the run with only F locked and the
  run with nothing locked end with the same value in every configuration field other than
  F's own, and with the same percentages, labels and hit counters; and, unless F is the
  lock of the clip range (\<^verbatim>\<open>minRange\<close>), with the same clip range and the same
  weights \<^verbatim>\<open>w1\<close>, \<^verbatim>\<open>w2\<close>.
\<close>

theorem feedFromSeed_single_lock:
  "(F \<noteq> Col_batch_size \<longrightarrow>
      batch_size (fst (feedFromSeed R seed {F} s)) = batch_size (fst (feedFromSeed R seed {} s)))
   \<and> (F \<noteq> Col_epoch_size \<longrightarrow>
      epoch_size (fst (feedFromSeed R seed {F} s)) = epoch_size (fst (feedFromSeed R seed {} s)))
   \<and> (F \<noteq> Col_cyclesPerOneStepFwdOfEpoch \<longrightarrow>
      cyclesPerOneStepFwdOfEpoch (fst (feedFromSeed R seed {F} s)) =
        cyclesPerOneStepFwdOfEpoch (fst (feedFromSeed R seed {} s)))
   \<and> (F \<noteq> Col_learning_rate \<longrightarrow>
      learning_rate (fst (feedFromSeed R seed {F} s)) =
        learning_rate (fst (feedFromSeed R seed {} s)))
   \<and> (F \<noteq> Col_activation1 \<longrightarrow>
      activation1 (fst (feedFromSeed R seed {F} s)) = activation1 (fst (feedFromSeed R seed {} s)))
   \<and> (F \<noteq> Col_activation2 \<longrightarrow>
      activation2 (fst (feedFromSeed R seed {F} s)) = activation2 (fst (feedFromSeed R seed {} s)))
   \<and> (F \<noteq> Col_loss \<longrightarrow>
      loss (fst (feedFromSeed R seed {F} s)) = loss (fst (feedFromSeed R seed {} s)))
   \<and> (F \<noteq> Col_minRange \<longrightarrow>
      minRange (fst (feedFromSeed R seed {F} s)) = minRange (fst (feedFromSeed R seed {} s))
      \<and> maxRange (fst (feedFromSeed R seed {F} s)) = maxRange (fst (feedFromSeed R seed {} s))
      \<and> w1 (fst (feedFromSeed R seed {F} s)) = w1 (fst (feedFromSeed R seed {} s))
      \<and> w2 (fst (feedFromSeed R seed {F} s)) = w2 (fst (feedFromSeed R seed {} s)))
   \<and> xPercents (fst (feedFromSeed R seed {F} s)) = xPercents (fst (feedFromSeed R seed {} s))
   \<and> yParam (fst (feedFromSeed R seed {F} s)) = yParam (fst (feedFromSeed R seed {} s))
   \<and> xHits (fst (feedFromSeed R seed {F} s)) = xHits (fst (feedFromSeed R seed {} s))"
  by (simp add: feed_fields final_minRange_def final_maxRange_def)

theorem feedFromSeed_single_lock_witness:
  "Col_batch_size \<noteq> Col_minRange
   \<and> batch_size (fst (feedFromSeed test_rng 7 {Col_batch_size} test_slice)) = 2
   \<and> batch_size (fst (feedFromSeed test_rng 7 {} test_slice)) = 10
   \<and> epoch_size (fst (feedFromSeed test_rng 7 {Col_batch_size} test_slice)) =
       epoch_size (fst (feedFromSeed test_rng 7 {} test_slice))
   \<and> maxRange (fst (feedFromSeed test_rng 7 {Col_batch_size} test_slice)) =
       maxRange (fst (feedFromSeed test_rng 7 {} test_slice))
   \<and> w1 (fst (feedFromSeed test_rng 7 {Col_batch_size} test_slice)) =
       w1 (fst (feedFromSeed test_rng 7 {} test_slice))
   \<and> xPercents (fst (feedFromSeed test_rng 7 {Col_batch_size} test_slice)) =
       xPercents (fst (feedFromSeed test_rng 7 {} test_slice))"
  using feedFromSeed_single_lock [of Col_batch_size test_rng 7 test_slice]
  by (simp add: feed_fields test_draws) (simp add: test_slice_def)

lemma test_drawn_w1:
  "drawn_w1 test_rng 7 lo hi =
     replicate 3 (replicate 2 (real_of_int lo + (real_of_int hi - real_of_int lo) * (7 / 10)))"
  by (simp add: drawn_w1_def test_gens) (simp add: test_rng_def)

text \<open>
  C3 as stated fails when F is the lock of the clip range: the weights of index 0 are
  drawn uniformly within the clip range of the regenerated slice, so keeping the range
  [-1, 1] instead of the drawn range [-9, 4] changes every unlocked weight entry.
\<close>

theorem feedFromSeed_range_lock_changes_weights:
  "w1_lock test_slice = [[1, 0], [0, 0], [0, 0]]
   \<and> w1 (fst (feedFromSeed test_rng 7 {Col_minRange} test_slice)) =
       [[1 / 2, 2 / 5], [2 / 5, 2 / 5], [2 / 5, 2 / 5]]
   \<and> w1 (fst (feedFromSeed test_rng 7 {} test_slice)) =
       [[1 / 2, 1 / 10], [1 / 10, 1 / 10], [1 / 10, 1 / 10]]"
  apply (simp add: feed_fields final_minRange_def final_maxRange_def test_draws test_gens
      test_drawn_w1)
  apply (simp add: test_slice_def lock_keep_def mat_map2_def mat_of_int_def numeral_3_eq_3
      numeral_2_eq_2)
  done

text \<open>
  C5. At index 0 the regenerated percentages are four integers that sum to exactly 100:
  the first three are the draws of the Dirichlet vector times 100, truncated, and the last
  is 100 minus their sum. When the four products (as floats) are non-negative and sum to
  less than 101, as they do for a draw of non-negative entries that sum to 1 up to
  rounding, all four percentages are non-negative and the last is at least its own
  truncated product: it absorbs the rounding remainder, which is at most 4 when the
  products sum to more than 99.
\<close>

theorem feedFromSeed_percents:
  assumes ix: "index s = 0"
      and len: "length (drawn_products R seed) = 4"
      and nonneg: "\<forall>v \<in> set (drawn_products R seed). 0 \<le> v"
      and total: "sum_list (drawn_products R seed) < 101"
  shows "\<exists>p0 p1 p2 p3.
           xPercents (fst (feedFromSeed R seed L s)) = [p0, p1, p2, p3]
         \<and> 0 \<le> p0 \<and> 0 \<le> p1 \<and> 0 \<le> p2 \<and> 0 \<le> p3
         \<and> p0 + p1 + p2 + p3 = 100
         \<and> p0 = \<lfloor>drawn_products R seed ! 0\<rfloor>
         \<and> p1 = \<lfloor>drawn_products R seed ! 1\<rfloor>
         \<and> p2 = \<lfloor>drawn_products R seed ! 2\<rfloor>
         \<and> p3 = 100 - (p0 + p1 + p2)
         \<and> \<lfloor>drawn_products R seed ! 3\<rfloor> \<le> p3
         \<and> (99 < sum_list (drawn_products R seed) \<longrightarrow>
              p3 \<le> \<lfloor>drawn_products R seed ! 3\<rfloor> + 4)"
proof -
  obtain a b c e where d: "drawn_products R seed = [a, b, c, e]"
    using list4 [OF len] by blast
  have pos: "0 \<le> a" "0 \<le> b" "0 \<le> c" "0 \<le> e" and up: "a + b + c + e < 101"
    using nonneg total by (simp_all add: d)
  have x: "xPercents (fst (feedFromSeed R seed L s)) = percents_of [a, b, c, e]"
    by (simp add: feed_fields ix d)
  note ps = percents_sum [OF pos up]
  show ?thesis
    using pos ps
    by (simp add: x percents_of_4 astype_int_nonneg d)
qed

theorem feedFromSeed_percents_witness:
  "index test_slice = 0
   \<and> drawn_products test_rng 7 = [51 / 2, 51 / 2, 51 / 2, 47 / 2]
   \<and> xPercents (fst (feedFromSeed test_rng 7 {} test_slice)) = [25, 25, 25, 25]"
proof -
  have ix: "index test_slice = 0"
    by (simp add: test_slice_def)
  have len: "length (drawn_products test_rng 7) = 4"
   and nonneg: "\<forall>v \<in> set (drawn_products test_rng 7). 0 \<le> v"
   and total: "sum_list (drawn_products test_rng 7) < 101"
    by (simp_all add: test_draws)
  show ?thesis
    using feedFromSeed_percents [OF ix len nonneg total, of "{}"] ix
    by (auto simp: test_draws)
qed

subsection \<open>Deleting from a position to the end of the timeline\<close>


lemma py_getitem_nonneg:
  "0 \<le> i \<Longrightarrow> i < int (length a) \<Longrightarrow> py_getitem a i = Inr (a ! nat i)"
  by (simp add: py_getitem_def)


lemma float_of_array_1x1:
  assumes "length a = 1 \<and> length (hd a) = 1"
  shows "float_of_array a = Inr (hd (hd a))"
proof -
  obtain r where a: "a = [r]"
    using assms by (cases a) auto
  obtain v where r: "r = [v]"
    using assms a by (cases r) auto
  show ?thesis
    by (simp add: a r float_of_array_def)
qed

lemma setPos_in_range:
  assumes al: "arrays_aligned (xor_array m)"
      and lo: "0 \<le> ix" and hi: "ix < model_count m"
      and fi: "find (\<lambda>item. index item \<le> ix) (rev (lstTurningPoints m)) = Some item"
  shows "setPos m ix =
           Inr (m\<lparr>indexOfCrtBaseTP_in_lstTurningPoints := list_index (lstTurningPoints m) item,
                  crtSlice := slice_at item (xor_array m) (nat ix)\<rparr>)"
proof -
  have len: "ix < int (length (arr_w1 (xor_array m)))"
    using hi by (simp add: model_count_def count_def)
  show ?thesis
    using al lo hi len fi
    by (simp add: setPos_def Let_def arrays_aligned_def py_getitem_nonneg bind_err_Inr slice_at_def)
qed












subsection \<open>Deleting the positions before a position\<close>

lemma dropWhile_sorted_filter:
  "sorted_wrt (<) (map index tps) \<Longrightarrow>
   dropWhile (\<lambda>tp. index tp \<le> ix) tps = filter (\<lambda>tp. ix < index tp) tps"
proof (induction tps)
  case Nil
  show ?case by simp
next
  case (Cons x xs)
  show ?case
  proof (cases "index x \<le> ix")
    case True
    then show ?thesis using Cons by simp
  next
    case False
    have "\<forall>y\<in>set xs. ix < index y"
      using Cons.prems False by auto
    then have "filter (\<lambda>tp. ix < index tp) xs = xs"
      by (simp add: filter_id_conv)
    then show ?thesis using False by simp
  qed
qed

lemma find_snoc_only:
  "\<forall>x\<in>set xs. \<not> P x \<Longrightarrow> P y \<Longrightarrow> find P (xs @ [y]) = Some y"
  by (induction xs) simp_all

lemma array_deleteBefore_ok:
  "0 \<le> ix \<Longrightarrow> ix < count arr \<Longrightarrow> length (arr_xHits arr) = length (arr_w1 arr) \<Longrightarrow>
   array_deleteBefore arr ix = Inr (array_drop_rebase (nat ix) arr)"
  by (simp add: array_deleteBefore_def array_drop_rebase_def count_def Let_def)

lemma array_drop_rebase_aligned:
  "arrays_aligned arr \<Longrightarrow> arrays_aligned (array_drop_rebase n arr)"
  by (simp add: arrays_aligned_def array_drop_rebase_def)

lemma count_array_drop_rebase:
  "int n \<le> count arr \<Longrightarrow> count (array_drop_rebase n arr) = count arr - int n"
  by (simp add: count_def array_drop_rebase_def)

lemma list_index_hd: "list_index (tp # rest) tp = 0"
  by (simp add: list_index_def XOR_Slice_eq_def)

lemma deleteBefore_result:
  assumes wf: "wf_model m" and lo: "0 \<le> ix" and hi: "ix < model_count m"
  defines "k \<equiv> find_tp_ix (lstTurningPoints m) ix"
  defines "later \<equiv> map (\<lambda>tp. tp\<lparr>index := index tp - ix\<rparr>)
                      (filter (\<lambda>tp. ix < index tp) (lstTurningPoints m))"
  defines "e \<equiv> (if later = [] then model_count m - ix else index (hd later))"
  defines "tp0 \<equiv> (lstTurningPoints m ! k)\<lparr>index := 0, epoch_size := e\<rparr>"
  defines "arr' \<equiv> array_drop_rebase (nat ix) (xor_array m)"
  shows "\<exists>m'. deleteBefore T m ix = Inr (m', [sigModelChanged 0])
           \<and> xor_array m' = arr'
           \<and> lstTurningPoints m' = tp0 # later
           \<and> lst_TP_Final_Loss m' = drop k (lst_TP_Final_Loss m)
           \<and> length (lstTurningPointsDiff m') = Suc (length later)
           \<and> crtSlice m' = slice_at tp0 arr' 0
           \<and> indexOfCrtBaseTP_in_lstTurningPoints m' = 0
           \<and> modelName m' = modelName m
           \<and> lastSavedFileInfo m' = lastSavedFileInfo m
           \<and> maskParamLocks m' = maskParamLocks m"
proof -
  let ?tps = "lstTurningPoints m"
  let ?arr = "xor_array m"
  let ?P = "\<lambda>tp. index tp \<le> ix"
  let ?f = "\<lambda>tp. tp\<lparr>index := index tp - ix\<rparr>"
  have ne: "?tps \<noteq> []" and h0: "index (hd ?tps) = 0"
    and so: "sorted_wrt (<) (map index ?tps)"
    and bd: "list_all (\<lambda>tp. index tp < model_count m) ?tps"
    and ld: "length (lstTurningPointsDiff m) = length ?tps"
    and ll: "length (lst_TP_Final_Loss m) = length ?tps"
    and al: "arrays_aligned ?arr"
    and la: "list_all (\<lambda>a. length a = 1 \<and> length (hd a) = 1) (arr_lossAvg ?arr)"
    using wf by (simp_all add: wf_model_def)
  have clamp: "min (max 0 ix) (model_count m - 1) = ix"
    using lo hi by simp
  have adb: "array_deleteBefore ?arr ix = Inr arr'"
    unfolding arr'_def
    using array_deleteBefore_ok [of ix ?arr] lo hi al
    by (simp add: model_count_def arrays_aligned_def)
  have al': "arrays_aligned arr'"
    unfolding arr'_def by (rule array_drop_rebase_aligned [OF al])
  have cnt': "count arr' = model_count m - ix"
    unfolding arr'_def
    using count_array_drop_rebase [of "nat ix" ?arr] lo hi by (simp add: model_count_def)
  \<comment> \<open>the governing turning point\<close>
  have twne: "takeWhile ?P ?tps \<noteq> []"
    using ne h0 lo by (cases ?tps) simp_all
  have Sk: "Suc k = length (takeWhile ?P ?tps)"
    using twne by (simp add: k_def find_tp_ix_def)
  have klt: "k < length ?tps"
    using Sk length_takeWhile_le [of ?P ?tps] by simp
  have dropS: "drop (Suc k) ?tps = filter (\<lambda>tp. ix < index tp) ?tps"
    unfolding Sk dropWhile_eq_drop [symmetric] by (rule dropWhile_sorted_filter [OF so])
  have dropk: "drop k ?tps = (?tps ! k) # filter (\<lambda>tp. ix < index tp) ?tps"
    using Cons_nth_drop_Suc [OF klt] dropS by simp
  have kd: "k < length (lstTurningPointsDiff m)"
    using klt ld by simp
  have dropd: "drop k (lstTurningPointsDiff m) =
                 (lstTurningPointsDiff m ! k) # drop (Suc k) (lstTurningPointsDiff m)"
    using Cons_nth_drop_Suc [OF kd] by simp
  have lend: "length (drop (Suc k) (lstTurningPointsDiff m)) = length later"
    using ld dropS [symmetric] by (simp add: later_def)
  \<comment> \<open>renumbering\<close>
  have ren: "renumber_diffs T ix (drop k ?tps) (drop k (lstTurningPointsDiff m)) =
      Inr (?f (?tps ! k) # later,
           split_join T (lstTurningPointsDiff m ! k) (getHTML_TP_equal_mark T (index (?tps ! k)))
              (getHTML_TP_equal_mark T (index (?tps ! k) - ix))
           # map2 (\<lambda>tp d. split_join T d (getHTML_TP_equal_mark T (index tp))
                                (getHTML_TP_equal_mark T (index tp - ix)))
                (filter (\<lambda>tp. ix < index tp) ?tps) (drop (Suc k) (lstTurningPointsDiff m)))"
    using lend
    by (simp add: renumber_diffs_def dropk dropd later_def)
  have len1: "\<And>x. (length (x # later) = 1) = (later = [])"
    by simp
  \<comment> \<open>the epoch size of the new first turning point is a position of the new array\<close>
  have e_rng: "0 < e \<and> e \<le> model_count m - ix"
  proof (cases "later = []")
    case True
    then show ?thesis using hi by (simp add: e_def)
  next
    case False
    then obtain x xs where fx: "filter (\<lambda>tp. ix < index tp) ?tps = x # xs"
      by (cases "filter (\<lambda>tp. ix < index tp) ?tps") (simp_all add: later_def)
    then have "x \<in> set (filter (\<lambda>tp. ix < index tp) ?tps)"
      by simp
    then have "x \<in> set ?tps" and "ix < index x"
      by simp_all
    then have "ix < index x" and "index x < model_count m"
      using bd by (simp_all add: list_all_iff)
    then show ?thesis
      using False fx by (simp add: e_def later_def)
  qed
  have lenA: "int (length (arr_lossAvg arr')) = model_count m - ix"
    using al' cnt' by (simp add: arrays_aligned_def count_def)
  have pg: "py_getitem (arr_lossAvg arr') (e - 1) = Inr (arr_lossAvg arr' ! nat (e - 1))"
    using e_rng lenA by (simp add: py_getitem_nonneg)
  have "arr_lossAvg arr' ! nat (e - 1) \<in> set (arr_lossAvg arr')"
    using e_rng lenA by (intro nth_mem) linarith
  then have "arr_lossAvg arr' ! nat (e - 1) \<in> set (arr_lossAvg ?arr)"
    by (auto simp: arr'_def array_drop_rebase_def dest: in_set_dropD)
  then have one: "length (arr_lossAvg arr' ! nat (e - 1)) = 1 \<and>
                  length (hd (arr_lossAvg arr' ! nat (e - 1))) = 1"
    using la by (simp add: list_all_iff)
  note fl = float_of_array_1x1 [OF one]
  \<comment> \<open>positioning at 0 finds the new first turning point\<close>
  have fnd: "find (\<lambda>item. index item \<le> 0) (rev (tp0 # later)) = Some tp0"
  proof -
    have "\<forall>x\<in>set (rev later). \<not> index x \<le> 0"
      by (auto simp: later_def)
    moreover have "index tp0 \<le> 0"
      by (simp add: tp0_def)
    ultimately show ?thesis
      using find_snoc_only [of "rev later" "\<lambda>item. index item \<le> 0" tp0] by simp
  qed
  have sp: "\<And>M::XOR_model. xor_array M = arr' \<Longrightarrow> lstTurningPoints M = tp0 # later \<Longrightarrow>
      setPos M 0 = Inr (M\<lparr>indexOfCrtBaseTP_in_lstTurningPoints := 0,
                           crtSlice := slice_at tp0 arr' 0\<rparr>)"
  proof -
    fix M :: XOR_model
    assume a: "xor_array M = arr'" and t: "lstTurningPoints M = tp0 # later"
    have "0 < model_count M"
      using a cnt' hi by (simp add: model_count_def)
    then show "setPos M 0 = Inr (M\<lparr>indexOfCrtBaseTP_in_lstTurningPoints := 0,
                           crtSlice := slice_at tp0 arr' 0\<rparr>)"
      using setPos_in_range [of M 0 tp0] al' a t fnd by (simp add: list_index_hd)
  qed
  have mc: "\<And>a b c. model_count (m\<lparr>xor_array := arr', lstTurningPoints := a,
               lstTurningPointsDiff := b, lst_TP_Final_Loss := c\<rparr>) = model_count m - ix"
    using cnt' by (simp add: model_count_def)
  have etp0: "epoch_size tp0 = e"
    by (simp add: tp0_def)
  have lenf: "length (filter (\<lambda>tp. ix < index tp) (lstTurningPoints m)) = length later"
    by (simp add: later_def)
  have lend': "length (lstTurningPointsDiff m) - Suc k = length later"
    using lend by simp
  show ?thesis
  proof (cases "later = []")
    case True
    have eT: "e = model_count m - ix"
      by (simp add: e_def True)
    have t0: "(lstTurningPoints m ! k)\<lparr>index := 0, epoch_size := model_count m - ix\<rparr> = tp0"
      by (simp add: tp0_def eT)
    show ?thesis
      unfolding deleteBefore_def Let_def clamp
      apply (simp only: adb bind_err_Inr)
      apply (simp add: k_def [symmetric] ren bind_err_Inr mc True t0 etp0 pg fl sp lenf lend' del: One_nat_def)
      done
  next
    case False
    have eF: "e = index (hd later)"
      by (simp add: e_def False)
    have t0: "(lstTurningPoints m ! k)\<lparr>index := 0, epoch_size := index (hd later)\<rparr> = tp0"
      by (simp add: tp0_def eF)
    show ?thesis
      unfolding deleteBefore_def Let_def clamp
      apply (simp only: adb bind_err_Inr)
      apply (simp add: k_def [symmetric] ren bind_err_Inr mc False t0 etp0 pg fl sp lenf lend' del: One_nat_def)
      done
  qed
qed

lemma setPos_first:
  fixes M :: XOR_model
  assumes al: "arrays_aligned (xor_array M)" and pos: "0 < model_count M"
      and t: "lstTurningPoints M = tp0 # later" and i0: "index tp0 \<le> 0"
      and il: "\<forall>x\<in>set later. 0 < index x"
  shows "setPos M 0 = Inr (M\<lparr>indexOfCrtBaseTP_in_lstTurningPoints := 0,
                             crtSlice := slice_at tp0 (xor_array M) 0\<rparr>)"
proof -
  have "\<forall>x\<in>set (rev later). \<not> index x \<le> 0"
    using il by auto
  then have "find (\<lambda>item. index item \<le> 0) (rev (lstTurningPoints M)) = Some tp0"
    using find_snoc_only [of "rev later" "\<lambda>item. index item \<le> 0" tp0] i0 t by simp
  then show ?thesis
    using setPos_in_range [of M 0 tp0] al pos t by (simp add: list_index_hd)
qed

lemma find_rev_first:
  assumes ne: "tps \<noteq> []" and h0: "index (hd tps) \<le> ix"
  shows "\<exists>item. find (\<lambda>item. index item \<le> ix) (rev tps) = Some item"
proof -
  have "hd tps \<in> set (rev tps)"
    using ne by simp
  then have "find (\<lambda>item. index item \<le> ix) (rev tps) \<noteq> None"
    using h0 by (auto simp: find_None_iff)
  then show ?thesis
    by auto
qed

lemma takeWhile_sorted_filter:
  "sorted_wrt (<) (map index tps) \<Longrightarrow>
   takeWhile (\<lambda>tp. index tp \<le> ix) tps = filter (\<lambda>tp. index tp \<le> ix) tps"
proof (induction tps)
  case Nil
  show ?case by simp
next
  case (Cons x xs)
  show ?case
  proof (cases "index x \<le> ix")
    case True
    then show ?thesis using Cons by simp
  next
    case False
    have "\<forall>y\<in>set xs. \<not> index y \<le> ix"
      using Cons.prems False by auto
    then have "filter (\<lambda>tp. index tp \<le> ix) xs = []"
      by (simp add: filter_empty_conv)
    then show ?thesis using False by simp
  qed
qed

lemma find_tp_ix_last:
  assumes so: "sorted_wrt (<) (map index tps)" and ne: "tps \<noteq> []"
      and h0: "index (hd tps) \<le> ix"
  shows "tps ! find_tp_ix tps ix = last (filter (\<lambda>tp. index tp \<le> ix) tps)"
    and "find_tp_ix tps ix = length (filter (\<lambda>tp. index tp \<le> ix) tps) - 1"
proof -
  let ?tw = "takeWhile (\<lambda>tp. index tp \<le> ix) tps"
  have tw: "?tw = filter (\<lambda>tp. index tp \<le> ix) tps"
    by (rule takeWhile_sorted_filter [OF so])
  have twne: "?tw \<noteq> []"
    using ne h0 by (cases tps) simp_all
  have k: "find_tp_ix tps ix = length ?tw - 1"
    by (simp add: find_tp_ix_def)
  have "find_tp_ix tps ix < length ?tw"
    using twne by (simp add: k)
  then have "?tw ! find_tp_ix tps ix = tps ! find_tp_ix tps ix"
    by (rule takeWhile_nth)
  moreover have "last ?tw = ?tw ! find_tp_ix tps ix"
    using twne by (simp add: last_conv_nth k)
  ultimately show "tps ! find_tp_ix tps ix = last (filter (\<lambda>tp. index tp \<le> ix) tps)"
    by (simp add: tw)
  show "find_tp_ix tps ix = length (filter (\<lambda>tp. index tp \<le> ix) tps) - 1"
    by (simp add: k tw)
qed

text \<open>
  C8. On a well-formed timeline, for every valid position ix (0 \<le> ix < length),
  \<^verbatim>\<open>deleteBefore(ix)\<close> succeeds and emits \<^verbatim>\<open>sigModelChanged(0)\<close>. It drops the steps before ix
  from every array and subtracts from every remaining hit counter the counters of the step
  that is now at position 0. The turning points that remain are: first the one in force at
  ix (the last one at or before ix), with its own configuration, its index forced to 0 and
  its epoch size reaching to the next turning point or to the end; then every turning
  point after ix, unchanged but for its index, lowered by ix. The turning points before
  the one in force are dropped, with their final losses. The model is positioned at 0,
  where asking for position 0 gives it back, with the weights that were in effect at
  position ix before.
\<close>

theorem deleteBefore_keeps_from_ix:
  assumes wf: "wf_model m" and lo: "0 \<le> ix" and hi: "ix < model_count m"
  shows "\<exists>m' m0. deleteBefore T m ix = Inr (m', [sigModelChanged 0])
           \<and> setPos m ix = Inr m0
           \<and> model_count m' = model_count m - ix
           \<and> xor_array m' = array_drop_rebase (nat ix) (xor_array m)
           \<and> arr_xHits (xor_array m') =
               map (\<lambda>row. map2 (-) row (arr_xHits (xor_array m) ! nat ix))
                 (drop (nat ix) (arr_xHits (xor_array m)))
           \<and> lstTurningPoints m' =
               (last (filter (\<lambda>tp. index tp \<le> ix) (lstTurningPoints m)))
                 \<lparr>index := 0,
                  epoch_size :=
                    (if filter (\<lambda>tp. ix < index tp) (lstTurningPoints m) = []
                     then model_count m - ix
                     else index (hd (filter (\<lambda>tp. ix < index tp) (lstTurningPoints m))) - ix)\<rparr>
               # map (\<lambda>tp. tp\<lparr>index := index tp - ix\<rparr>)
                   (filter (\<lambda>tp. ix < index tp) (lstTurningPoints m))
           \<and> map index (lstTurningPoints m') =
               0 # map (\<lambda>i. i - ix) (filter (\<lambda>i. ix < i) (map index (lstTurningPoints m)))
           \<and> lst_TP_Final_Loss m' =
               drop (length (filter (\<lambda>tp. index tp \<le> ix) (lstTurningPoints m)) - 1)
                 (lst_TP_Final_Loss m)
           \<and> length (lstTurningPointsDiff m') = length (lstTurningPoints m')
           \<and> modelName m' = modelName m
           \<and> getPos m' = 0
           \<and> setPos m' 0 = Inr m'
           \<and> w1 (crtSlice m') = w1 (crtSlice m0) \<and> w2 (crtSlice m') = w2 (crtSlice m0)
           \<and> w1 (crtSlice m') = arr_w1 (xor_array m) ! nat ix
           \<and> w2 (crtSlice m') = arr_w2 (xor_array m) ! nat ix"
proof -
  let ?tps = "lstTurningPoints m"
  let ?arr = "xor_array m"
  define k where "k = find_tp_ix ?tps ix"
  define later where "later = map (\<lambda>tp. tp\<lparr>index := index tp - ix\<rparr>)
                      (filter (\<lambda>tp. ix < index tp) ?tps)"
  define e where "e = (if later = [] then model_count m - ix else index (hd later))"
  define tp0 where "tp0 = (?tps ! k)\<lparr>index := 0, epoch_size := e\<rparr>"
  define arr' where "arr' = array_drop_rebase (nat ix) ?arr"
  have ne: "?tps \<noteq> []" and h0: "index (hd ?tps) = 0" and al: "arrays_aligned ?arr"
    and so: "sorted_wrt (<) (map index ?tps)"
    using wf by (simp_all add: wf_model_def)
  obtain m' where r: "deleteBefore T m ix = Inr (m', [sigModelChanged 0])"
    and xa: "xor_array m' = arr'"
    and tl: "lstTurningPoints m' = tp0 # later"
    and fl: "lst_TP_Final_Loss m' = drop k (lst_TP_Final_Loss m)"
    and dl: "length (lstTurningPointsDiff m') = Suc (length later)"
    and cs: "crtSlice m' = slice_at tp0 arr' 0"
    and ic: "indexOfCrtBaseTP_in_lstTurningPoints m' = 0"
    and mn: "modelName m' = modelName m"
    using deleteBefore_result [OF wf lo hi, of T]
    unfolding k_def [symmetric] later_def [symmetric] e_def [symmetric] tp0_def [symmetric]
      arr'_def [symmetric]
    by blast
  have h0': "index (hd ?tps) \<le> ix"
    using h0 lo by simp
  note kl = find_tp_ix_last [OF so ne h0', folded k_def]
  have e_eq: "e = (if filter (\<lambda>tp. ix < index tp) ?tps = [] then model_count m - ix
                   else index (hd (filter (\<lambda>tp. ix < index tp) ?tps)) - ix)"
    by (simp add: e_def later_def hd_map)
  have tl': "lstTurningPoints m' =
               (last (filter (\<lambda>tp. index tp \<le> ix) ?tps))
                 \<lparr>index := 0,
                  epoch_size :=
                    (if filter (\<lambda>tp. ix < index tp) ?tps = []
                     then model_count m - ix
                     else index (hd (filter (\<lambda>tp. ix < index tp) ?tps)) - ix)\<rparr>
               # map (\<lambda>tp. tp\<lparr>index := index tp - ix\<rparr>) (filter (\<lambda>tp. ix < index tp) ?tps)"
    unfolding tl tp0_def kl(1) e_eq later_def by (rule refl)
  have fl': "lst_TP_Final_Loss m' =
               drop (length (filter (\<lambda>tp. index tp \<le> ix) ?tps) - 1) (lst_TP_Final_Loss m)"
    unfolding fl kl(2) by (rule refl)
  have dl': "length (lstTurningPointsDiff m') = length (lstTurningPoints m')"
    by (simp add: dl tl)
  obtain item where fi: "find (\<lambda>item. index item \<le> ix) (rev ?tps) = Some item"
    using find_rev_first [OF ne, of ix] h0 lo by auto
  note sp = setPos_in_range [OF al lo hi fi]
  have len: "nat ix < length (arr_w1 ?arr)" "nat ix < length (arr_w2 ?arr)"
    using lo hi al by (simp_all add: model_count_def count_def arrays_aligned_def)
  have cnt: "model_count m' = model_count m - ix"
    using count_array_drop_rebase [of "nat ix" ?arr] lo hi xa
    by (simp add: model_count_def arr'_def)
  have al': "arrays_aligned (xor_array m')"
    unfolding xa arr'_def by (rule array_drop_rebase_aligned [OF al])
  have il: "\<forall>x\<in>set later. 0 < index x"
    by (auto simp: later_def)
  have "setPos m' 0 = Inr (m'\<lparr>indexOfCrtBaseTP_in_lstTurningPoints := 0,
                               crtSlice := slice_at tp0 (xor_array m') 0\<rparr>)"
    using setPos_first [OF al' _ tl _ il] cnt hi by (simp add: tp0_def)
  also have "m'\<lparr>indexOfCrtBaseTP_in_lstTurningPoints := 0,
                crtSlice := slice_at tp0 (xor_array m') 0\<rparr> = m'"
    using ic cs xa by (cases m') simp
  finally have again: "setPos m' 0 = Inr m'" .
  have mi: "map index (lstTurningPoints m') =
              0 # map (\<lambda>i. i - ix) (filter (\<lambda>i. ix < i) (map index ?tps))"
    by (simp add: tl tp0_def later_def filter_map comp_def)
  have w: "w1 (crtSlice m') = arr_w1 ?arr ! nat ix" "w2 (crtSlice m') = arr_w2 ?arr ! nat ix"
    using len by (simp_all add: cs slice_at_def arr'_def array_drop_rebase_def)
  have xh: "arr_xHits (xor_array m') =
               map (\<lambda>row. map2 (-) row (arr_xHits ?arr ! nat ix)) (drop (nat ix) (arr_xHits ?arr))"
    by (simp add: xa arr'_def array_drop_rebase_def)
  have gp: "getPos m' = 0"
    by (simp add: getPos_def cs slice_at_def)
  have w0: "w1 (slice_at item ?arr (nat ix)) = arr_w1 ?arr ! nat ix"
    "w2 (slice_at item ?arr (nat ix)) = arr_w2 ?arr ! nat ix"
    by (simp_all add: slice_at_def)
  have xa': "xor_array m' = array_drop_rebase (nat ix) ?arr"
    by (simp add: xa arr'_def)
  show ?thesis
    apply (rule exI [of _ m'])
    apply (rule exI [of _ "m\<lparr>indexOfCrtBaseTP_in_lstTurningPoints := list_index ?tps item,
                           crtSlice := slice_at item ?arr (nat ix)\<rparr>"])
    apply (intro conjI)
    apply (rule r)
    apply (rule sp)
    apply (rule cnt)
    apply (rule xa')
    apply (rule xh)
    apply (rule tl')
    apply (rule mi)
    apply (rule fl')
    apply (rule dl')
    apply (rule mn)
    apply (rule gp)
    apply (rule again)
    apply (simp_all add: w w0)
    done
qed

lemma wf_test_timeline: "wf_model test_timeline"
  by (simp add: wf_model_def test_timeline_def test_model_def test_slice_def model_count_def
      count_def test_array_def arrays_aligned_def list_all_iff)

lemma count_test_timeline: "model_count test_timeline = 20"
  by (simp add: test_timeline_def test_model_def model_count_def count_def test_array_def)

theorem deleteBefore_keeps_from_ix_witness:
  "wf_model test_timeline \<and> model_count test_timeline = 20
   \<and> map index (lstTurningPoints test_timeline) = [0, 5, 12]
   \<and> map activation1 (lstTurningPoints test_timeline) = [''ReLU'', ''tanh'', ''sigmoid'']
   \<and> (\<exists>m'. deleteBefore test_text test_timeline 7 = Inr (m', [sigModelChanged 0])
          \<and> model_count m' = 13
          \<and> lstTurningPoints m' =
              [test_slice\<lparr>index := 0, epoch_size := 5, learning_rate := 1 / 2,
                          activation1 := ''tanh''\<rparr>,
               test_slice\<lparr>index := 5, epoch_size := 8, learning_rate := 1 / 4,
                          activation1 := ''sigmoid''\<rparr>]
          \<and> lst_TP_Final_Loss m' = [''l5'', ''l12'']
          \<and> arr_xHits (xor_array m') ! 0 = [0, 0, 0, 0]
          \<and> arr_xHits (xor_array m') ! 1 = [1, 2, 0, 0]
          \<and> setPos m' 0 = Inr m'
          \<and> w1 (crtSlice m') = [[7, 0], [0, 0], [0, 0]]
          \<and> w2 (crtSlice m') = [[7], [0], [0]])"
proof -
  have tps: "lstTurningPoints test_timeline =
       [test_slice\<lparr>index := 0, epoch_size := 5\<rparr>,
        test_slice\<lparr>index := 5, epoch_size := 7, learning_rate := 1 / 2, activation1 := ''tanh''\<rparr>,
        test_slice\<lparr>index := 12, epoch_size := 8, learning_rate := 1 / 4,
                    activation1 := ''sigmoid''\<rparr>]"
    and fl: "lst_TP_Final_Loss test_timeline = [''l0'', ''l5'', ''l12'']"
    and arr: "xor_array test_timeline = test_array 20"
    by (simp_all add: test_timeline_def test_model_def)
  have a7: "arr_xHits (test_array 20) ! 7 = [7, 14, 0, 0]"
    "arr_xHits (test_array 20) ! 8 = [8, 16, 0, 0]"
    "arr_w1 (test_array 20) ! 7 = [[7, 0], [0, 0], [0, 0]]"
    "arr_w2 (test_array 20) ! 7 = [[7], [0], [0]]"
    "length (arr_xHits (test_array 20)) = 20"
    by (simp_all add: test_array_def)
  have act: "map activation1 (lstTurningPoints test_timeline) = [''ReLU'', ''tanh'', ''sigmoid'']"
    by (simp add: tps) (simp add: test_slice_def)
  obtain m' m0 where r: "deleteBefore test_text test_timeline 7 = Inr (m', [sigModelChanged 0])"
    and c: "model_count m' = model_count test_timeline - 7"
    and h: "arr_xHits (xor_array m') =
               map (\<lambda>row. map2 (-) row (arr_xHits (xor_array test_timeline) ! nat 7))
                 (drop (nat 7) (arr_xHits (xor_array test_timeline)))"
    and t: "lstTurningPoints m' =
               (last (filter (\<lambda>tp. index tp \<le> 7) (lstTurningPoints test_timeline)))
                 \<lparr>index := 0,
                  epoch_size :=
                    (if filter (\<lambda>tp. 7 < index tp) (lstTurningPoints test_timeline) = []
                     then model_count test_timeline - 7
                     else index (hd (filter (\<lambda>tp. 7 < index tp)
                                       (lstTurningPoints test_timeline))) - 7)\<rparr>
               # map (\<lambda>tp. tp\<lparr>index := index tp - 7\<rparr>)
                   (filter (\<lambda>tp. 7 < index tp) (lstTurningPoints test_timeline))"
    and f: "lst_TP_Final_Loss m' =
               drop (length (filter (\<lambda>tp. index tp \<le> 7) (lstTurningPoints test_timeline)) - 1)
                 (lst_TP_Final_Loss test_timeline)"
    and s: "setPos m' 0 = Inr m'"
    and w: "w1 (crtSlice m') = arr_w1 (xor_array test_timeline) ! nat 7"
           "w2 (crtSlice m') = arr_w2 (xor_array test_timeline) ! nat 7"
    using deleteBefore_keeps_from_ix [OF wf_test_timeline, of 7 test_text]
    by (auto simp: count_test_timeline)
  have h0: "arr_xHits (xor_array m') ! 0 = [0, 0, 0, 0]"
    "arr_xHits (xor_array m') ! 1 = [1, 2, 0, 0]"
    unfolding h arr by (simp_all add: a7)
  have t': "lstTurningPoints m' =
              [test_slice\<lparr>index := 0, epoch_size := 5, learning_rate := 1 / 2,
                          activation1 := ''tanh''\<rparr>,
               test_slice\<lparr>index := 5, epoch_size := 8, learning_rate := 1 / 4,
                          activation1 := ''sigmoid''\<rparr>]"
    unfolding t tps by simp
  have f': "lst_TP_Final_Loss m' = [''l5'', ''l12'']"
    unfolding f tps fl by simp
  show ?thesis
    using r c s w h0 t' f' wf_test_timeline act
    by (simp add: count_test_timeline arr a7) (simp add: tps)
qed

subsection \<open>The training loop of \<^verbatim>\<open>fillModel\<close>\<close>

lemma restore_row_blend:
  "list_all (\<lambda>l. l = 0 \<or> l = 1) lock \<Longrightarrow>
   map2 (+) (map2 (*) new (map (\<lambda>l. 1 - real_of_int l) lock)) (map2 (*) old (map real_of_int lock))
     = restore_row old new lock"
proof (induction lock arbitrary: old new)
  case Nil
  show ?case by (simp add: restore_row_def)
next
  case (Cons l ls)
  show ?case
  proof (cases new)
    case Nil
    then show ?thesis by (simp add: restore_row_def)
  next
    case (Cons n ns)
    note new = this
    show ?thesis
    proof (cases old)
      case Nil
      then show ?thesis by (simp add: restore_row_def new)
    next
      case (Cons u us)
      have "list_all (\<lambda>l. l = 0 \<or> l = 1) ls" and l: "l = 0 \<or> l = 1"
        using Cons.prems by simp_all
      then have "map2 (+) (map2 (*) ns (map (\<lambda>l. 1 - real_of_int l) ls))
                   (map2 (*) us (map real_of_int ls)) = restore_row us ns ls"
        using Cons.IH by blast
      then show ?thesis
        using l by (auto simp: restore_row_def new Cons)
    qed
  qed
qed

lemma lock_update_restore:
  "locks01 lock \<Longrightarrow> lock_update w dw lr lo hi lock = spec_update w dw lr lo hi lock"
proof -
  have gen: "list_all (list_all (\<lambda>l. l = 0 \<or> l = 1)) lock \<Longrightarrow>
    map2 (map2 (+)) (map2 (map2 (*)) new (map (map (\<lambda>l. 1 - real_of_int l)) lock))
       (map2 (map2 (*)) old (map (map real_of_int) lock)) = restore_locked old new lock"
    for old new :: matrix
  proof (induction lock arbitrary: old new)
    case Nil
    show ?case by (simp add: restore_locked_def)
  next
    case (Cons l ls)
    show ?case
    proof (cases new)
      case Nil
      then show ?thesis by (simp add: restore_locked_def)
    next
      case (Cons n ns)
      note new = this
      show ?thesis
      proof (cases old)
        case Nil
        then show ?thesis by (simp add: restore_locked_def new)
      next
        case (Cons u us)
        have ls: "list_all (list_all (\<lambda>l. l = 0 \<or> l = 1)) ls"
          and l: "list_all (\<lambda>l. l = 0 \<or> l = 1) l"
          using Cons.prems by simp_all
        have tl: "map2 (map2 (+)) (map2 (map2 (*)) ns (map (map (\<lambda>l. 1 - real_of_int l)) ls))
                   (map2 (map2 (*)) us (map (map real_of_int) ls)) = restore_locked us ns ls"
          using Cons.IH [OF ls] .
        show ?thesis
          using tl restore_row_blend [OF l, of n u]
          by (simp add: restore_locked_def new Cons)
      qed
    qed
  qed
  assume "locks01 lock"
  then show ?thesis
    unfolding lock_update_def spec_update_def mat_map2_def mat_of_int_def locks01_def
    by (rule gen)
qed

lemma p_distribution_spec:
  "percents \<noteq> [] \<Longrightarrow> p_distribution_of percents = spec_distribution percents"
proof -
  assume ne: "percents \<noteq> []"
  define p where "p = map (\<lambda>v. real_of_int v / 100) percents"
  have "p \<noteq> []"
    using ne by (simp add: p_def)
  then have "p[length p - 1 := v] = butlast p @ [v]" for v
    by (induction p rule: rev_induct) (simp_all add: list_update_append)
  then show ?thesis
    by (simp add: p_distribution_of_def spec_distribution_def Let_def p_def)
qed

lemma spec_cycle_hits_len: "length (hits_so_far (spec_cycle R tp act1 act2 fLoss st)) = 4"
  by (simp add: spec_cycle_def case_prod_beta Let_def)

lemma funpow_hits_len:
  "length (hits_so_far st) = 4 \<Longrightarrow>
   length (hits_so_far ((spec_cycle R tp act1 act2 fLoss ^^ n) st)) = 4"
  by (induction n) (simp_all add: spec_cycle_hits_len)

lemma segment_hits_len: "length (hits_so_far (spec_segment R tp act1 act2 fLoss i)) = 4"
  by (induction i) (simp_all add: funpow_hits_len)

lemma segment_no_cycles:
  "nat (cyclesPerOneStepFwdOfEpoch tp) = 0 \<Longrightarrow>
   spec_segment R tp act1 act2 fLoss i = spec_segment R tp act1 act2 fLoss 0"
  by (induction i) simp_all

lemma cycle_body_spec:
  assumes tr: "trainable tp act1 act2 fLoss"
      and rg: "\<And>g n p. list_all (\<lambda>h. h < 4) (fst (rng_choice_p R g [0, 1, 2, 3] n p))"
      and h4: "length (hits_so_far st) = 4"
  shows "cycle_body R tp (p_distribution_of (xPercents tp)) i
           (hits_so_far st, cur_w1 st, cur_w2 st, A, cur_rng st) =
         Inr (hits_so_far (spec_cycle R tp act1 act2 fLoss st),
              cur_w1 (spec_cycle R tp act1 act2 fLoss st),
              cur_w2 (spec_cycle R tp act1 act2 fLoss st),
              A[i := hits_so_far (spec_cycle R tp act1 act2 fLoss st)],
              cur_rng (spec_cycle R tp act1 act2 fLoss st))"
proof -
  have a1: "dict_getitem FunctionsListsByType_HiddenLayer (activation1 tp) = Inr act1"
   and a2: "dict_getitem FunctionsListsByType_OutputLayer (activation2 tp) = Inr act2"
   and fl: "dict_getitem FunctionsListsByType_LossFunction (loss tp) = Inr fLoss"
   and l1: "locks01 (w1_lock tp)" and l2: "locks01 (w2_lock tp)"
   and pc: "xPercents tp \<noteq> []" and yp: "length (yParam tp) = 4"
    using tr by (simp_all add: trainable_def)
  define b where "b = rng_choice_p R (cur_rng st) [0, 1, 2, 3] (batch_size tp)
                        (spec_distribution (xPercents tp))"
  have hb: "\<forall>h\<in>set (fst b). h < 4"
    using rg [of "cur_rng st" "batch_size tp" "spec_distribution (xPercents tp)"]
    by (simp add: b_def list_all_iff)
  have ah: "add_hits (hits_so_far st) (fst b) =
              Inr (map (\<lambda>k. hits_so_far st ! k + int (count_list (fst b) k)) [0..<4])"
    using hb h4 by (simp add: add_hits_def del: upt_rec_numeral)
  have tx: "take_rows X_BATCH_4 (fst b) = Inr (map (\<lambda>h. X_BATCH_4 ! h) (fst b))"
  proof -
    have "length X_BATCH_4 = 4"
      by (simp add: X_BATCH_4_def)
    then show ?thesis
      using hb by (simp add: take_rows_def)
  qed
  have ty: "take_rows (yParam tp) (fst b) = Inr (map (\<lambda>h. yParam tp ! h) (fst b))"
    using hb yp by (simp add: take_rows_def)
  show ?thesis
    unfolding cycle_body_def spec_cycle_def p_distribution_spec [OF pc]
    by (simp add: b_def [symmetric] case_prod_beta Let_def ah tx ty a1 a2 fl bind_err_Inr
        lock_update_restore [OF l1] lock_update_restore [OF l2]
        del: upt_rec_numeral One_nat_def)
qed

lemma cycles_loop_spec:
  assumes tr: "trainable tp act1 act2 fLoss"
      and rg: "\<And>g n p. list_all (\<lambda>h. h < 4) (fst (rng_choice_p R g [0, 1, 2, 3] n p))"
      and h4: "length (hits_so_far st) = 4"
  shows "cycles_loop n R tp (p_distribution_of (xPercents tp)) i
           (hits_so_far st, cur_w1 st, cur_w2 st, A, cur_rng st) =
         Inr (hits_so_far ((spec_cycle R tp act1 act2 fLoss ^^ n) st),
              cur_w1 ((spec_cycle R tp act1 act2 fLoss ^^ n) st),
              cur_w2 ((spec_cycle R tp act1 act2 fLoss ^^ n) st),
              (if n = 0 then A
               else A[i := hits_so_far ((spec_cycle R tp act1 act2 fLoss ^^ n) st)]),
              cur_rng ((spec_cycle R tp act1 act2 fLoss ^^ n) st))"
  using h4
proof (induction n arbitrary: st A)
  case 0
  show ?case by simp
next
  case (Suc n)
  let ?f = "spec_cycle R tp act1 act2 fLoss"
  have sw: "(?f ^^ n) (?f st) = ?f ((?f ^^ n) st)"
    by (simp add: funpow_swap1)
  note cb = cycle_body_spec [OF tr rg Suc.prems, of i A]
  note ih = Suc.IH [of "?f st" "A[i := hits_so_far (?f st)]", OF spec_cycle_hits_len]
  show ?case
    by (simp add: cb bind_err_Inr ih sw)
qed

lemma step_body_spec:
  assumes tr: "trainable tp act1 act2 fLoss"
      and rg: "\<And>g n p. list_all (\<lambda>h. h < 4) (fst (rng_choice_p R g [0, 1, 2, 3] n p))"
      and h4: "length (hits_so_far st) = 4"
      and st: "hits_so_far st = A ! (i - 1)" "cur_w1 st = W1 ! (i - 1)"
              "cur_w2 st = W2 ! (i - 1)" "cur_rng st = g"
  shows "step_body R tp (p_distribution_of (xPercents tp)) i (A, W1, W2, g) =
         Inr ((if nat (cyclesPerOneStepFwdOfEpoch tp) = 0 then A
               else A[i := hits_so_far ((spec_cycle R tp act1 act2 fLoss
                                           ^^ nat (cyclesPerOneStepFwdOfEpoch tp)) st)]),
              W1[i := cur_w1 ((spec_cycle R tp act1 act2 fLoss
                                 ^^ nat (cyclesPerOneStepFwdOfEpoch tp)) st)],
              W2[i := cur_w2 ((spec_cycle R tp act1 act2 fLoss
                                 ^^ nat (cyclesPerOneStepFwdOfEpoch tp)) st)],
              cur_rng ((spec_cycle R tp act1 act2 fLoss
                          ^^ nat (cyclesPerOneStepFwdOfEpoch tp)) st))"
proof -
  note cl = cycles_loop_spec [OF tr rg h4, of "nat (cyclesPerOneStepFwdOfEpoch tp)" i A,
      unfolded st]
  show ?thesis
    unfolding step_body_def by (simp add: Let_def cl bind_err_Inr del: One_nat_def)
qed

lemma steps_loop_spec:
  assumes tr: "trainable tp act1 act2 fLoss"
      and rg: "\<And>g n p. list_all (\<lambda>h. h < 4) (fst (rng_choice_p R g [0, 1, 2, 3] n p))"
  shows "length A = E \<Longrightarrow> length W1 = E \<Longrightarrow> length W2 = E \<Longrightarrow> 1 \<le> j \<Longrightarrow> j \<le> E \<Longrightarrow>
     (\<forall>i<j. A ! i = hits_so_far (spec_segment R tp act1 act2 fLoss i)
           \<and> W1 ! i = cur_w1 (spec_segment R tp act1 act2 fLoss i)
           \<and> W2 ! i = cur_w2 (spec_segment R tp act1 act2 fLoss i)) \<Longrightarrow>
     (\<forall>i. j \<le> i \<and> i < E \<longrightarrow> A ! i = [0, 0, 0, 0]) \<Longrightarrow>
     g = cur_rng (spec_segment R tp act1 act2 fLoss (j - 1)) \<Longrightarrow>
     \<exists>A' W1' W2' g'.
        steps_loop R tp (p_distribution_of (xPercents tp)) [j..<E] (A, W1, W2, g) =
          Inr (A', W1', W2', g')
        \<and> length A' = E \<and> length W1' = E \<and> length W2' = E
        \<and> (\<forall>i<E. A' ! i = hits_so_far (spec_segment R tp act1 act2 fLoss i)
                 \<and> W1' ! i = cur_w1 (spec_segment R tp act1 act2 fLoss i)
                 \<and> W2' ! i = cur_w2 (spec_segment R tp act1 act2 fLoss i))"
proof (induction "E - j" arbitrary: j A W1 W2 g)
  case 0
  then have "j = E"
    by simp
  then show ?case
    using 0 by simp
next
  case (Suc n)
  let ?seg = "spec_segment R tp act1 act2 fLoss"
  let ?c = "nat (cyclesPerOneStepFwdOfEpoch tp)"
  have jlt: "j < E" and j1: "1 \<le> j"
    using Suc.hyps(2) Suc.prems(4) by simp_all
  have up: "[j..<E] = j # [Suc j..<E]"
    using jlt by (simp add: upt_conv_Cons)
  have prev: "j - 1 < j"
    using j1 by simp
  have seg_j: "?seg j = (spec_cycle R tp act1 act2 fLoss ^^ ?c) (?seg (j - 1))"
  proof -
    have "j = Suc (j - 1)"
      using j1 by simp
    then have "?seg j = ?seg (Suc (j - 1))"
      by simp
    then show ?thesis
      by simp
  qed
  have at_prev: "hits_so_far (?seg (j - 1)) = A ! (j - 1)"
      "cur_w1 (?seg (j - 1)) = W1 ! (j - 1)" "cur_w2 (?seg (j - 1)) = W2 ! (j - 1)"
      "cur_rng (?seg (j - 1)) = g"
    using Suc.prems(6) prev Suc.prems(8) by simp_all
  define A1 where "A1 = (if ?c = 0 then A else A[j := hits_so_far (?seg j)])"
  have sb: "step_body R tp (p_distribution_of (xPercents tp)) j (A, W1, W2, g) =
              Inr (A1, W1[j := cur_w1 (?seg j)], W2[j := cur_w2 (?seg j)], cur_rng (?seg j))"
    using step_body_spec [OF tr rg segment_hits_len at_prev]
    by (simp add: A1_def seg_j)
  have lenA: "length A = E" and lenW1: "length W1 = E" and lenW2: "length W2 = E"
    using Suc.prems by simp_all
  have A1_j: "A1 ! j = hits_so_far (?seg j)"
  proof (cases "?c = 0")
    case True
    have "A ! j = [0, 0, 0, 0]"
      using Suc.prems(7) jlt by simp
    moreover have "hits_so_far (?seg j) = [0, 0, 0, 0]"
      using segment_no_cycles [OF True, of R act1 act2 fLoss j] by simp
    ultimately show ?thesis
      using True by (simp add: A1_def)
  next
    case False
    then show ?thesis
      using jlt lenA by (simp add: A1_def)
  qed
  have A1_other: "A1 ! i = A ! i" if "i \<noteq> j" for i
    using that by (simp add: A1_def)
  have lenA1: "length A1 = E"
    using lenA by (simp add: A1_def)
  have inv1: "\<forall>i<Suc j. A1 ! i = hits_so_far (?seg i)
                 \<and> W1[j := cur_w1 (?seg j)] ! i = cur_w1 (?seg i)
                 \<and> W2[j := cur_w2 (?seg j)] ! i = cur_w2 (?seg i)"
  proof (intro allI impI)
    fix i
    assume "i < Suc j"
    then consider "i < j" | "i = j"
      by linarith
    then show "A1 ! i = hits_so_far (?seg i)
                 \<and> W1[j := cur_w1 (?seg j)] ! i = cur_w1 (?seg i)
                 \<and> W2[j := cur_w2 (?seg j)] ! i = cur_w2 (?seg i)"
    proof cases
      case 1
      then show ?thesis
        using Suc.prems(6) A1_other [of i] by simp
    next
      case 2
      then show ?thesis
        using A1_j jlt lenW1 lenW2 by simp
    qed
  qed
  have inv2: "\<forall>i. Suc j \<le> i \<and> i < E \<longrightarrow> A1 ! i = [0, 0, 0, 0]"
    using Suc.prems(7) A1_other by simp
  have n: "n = E - Suc j"
    using Suc.hyps(2) by simp
  have ih: "\<exists>A' W1' W2' g'.
        steps_loop R tp (p_distribution_of (xPercents tp)) [Suc j..<E]
          (A1, W1[j := cur_w1 (?seg j)], W2[j := cur_w2 (?seg j)], cur_rng (?seg j)) =
          Inr (A', W1', W2', g')
        \<and> length A' = E \<and> length W1' = E \<and> length W2' = E
        \<and> (\<forall>i<E. A' ! i = hits_so_far (?seg i) \<and> W1' ! i = cur_w1 (?seg i)
                 \<and> W2' ! i = cur_w2 (?seg i))"
    using Suc.hyps(1) [OF n, of A1 "W1[j := cur_w1 (?seg j)]" "W2[j := cur_w2 (?seg j)]"
        "cur_rng (?seg j)"] lenA1 lenW1 lenW2 jlt inv1 inv2
    by simp
  show ?case
    unfolding up using ih by (simp add: sb bind_err_Inr)
qed

lemma fillModel_segment:
  assumes tr: "trainable tp act1 act2 fLoss"
      and rg: "\<And>g n p. list_all (\<lambda>h. h < 4) (fst (rng_choice_p R g [0, 1, 2, 3] n p))"
      and ep: "1 \<le> epoch_size tp"
  shows "\<exists>arr. fillModel R tp = Inr arr
           \<and> length (arr_xHits arr) = nat (epoch_size tp)
           \<and> length (arr_w1 arr) = nat (epoch_size tp)
           \<and> length (arr_w2 arr) = nat (epoch_size tp)
           \<and> (\<forall>i<nat (epoch_size tp).
                  arr_xHits arr ! i = hits_so_far (spec_segment R tp act1 act2 fLoss i)
                \<and> arr_w1 arr ! i = cur_w1 (spec_segment R tp act1 act2 fLoss i)
                \<and> arr_w2 arr ! i = cur_w2 (spec_segment R tp act1 act2 fLoss i))"
proof -
  let ?seg = "spec_segment R tp act1 act2 fLoss"
  define E where "E = nat (epoch_size tp)"
  define A where "A = replicate E [0, 0, 0, 0 :: int]"
  define W1 where "W1 = (replicate E (np_zeros 3 2))
       [0 := mat_clip (real_of_int (minRange tp)) (real_of_int (maxRange tp)) (w1 tp)]"
  define W2 where "W2 = (replicate E (np_zeros 3 1))
       [0 := mat_clip (real_of_int (minRange tp)) (real_of_int (maxRange tp)) (w2 tp)]"
  define g where "g = default_rng R (index tp + (if seedTP tp \<ge> 0 then seedTP tp else 0))"
  have a1: "dict_getitem FunctionsListsByType_HiddenLayer (activation1 tp) = Inr act1"
   and a2: "dict_getitem FunctionsListsByType_OutputLayer (activation2 tp) = Inr act2"
   and fl: "dict_getitem FunctionsListsByType_LossFunction (loss tp) = Inr fLoss"
    using tr by (simp_all add: trainable_def)
  have E1: "1 \<le> E"
    using ep by (simp add: E_def)
  have len: "length A = E" "length W1 = E" "length W2 = E"
    by (simp_all add: A_def W1_def W2_def)
  have i0: "\<forall>i<1. A ! i = hits_so_far (?seg i) \<and> W1 ! i = cur_w1 (?seg i)
                  \<and> W2 ! i = cur_w2 (?seg i)"
    using E1 by (simp add: A_def W1_def W2_def)
  have z: "\<forall>i. 1 \<le> i \<and> i < E \<longrightarrow> A ! i = [0, 0, 0, 0]"
    by (simp add: A_def)
  have g0: "g = cur_rng (?seg (1 - 1))"
    by (simp add: g_def)
  obtain A' W1' W2' g' where
    sl: "steps_loop R tp (p_distribution_of (xPercents tp)) [1..<E] (A, W1, W2, g) =
           Inr (A', W1', W2', g')"
    and len': "length A' = E" "length W1' = E" "length W2' = E"
    and all: "\<forall>i<E. A' ! i = hits_so_far (?seg i) \<and> W1' ! i = cur_w1 (?seg i)
                 \<and> W2' ! i = cur_w2 (?seg i)"
    using steps_loop_spec [OF tr rg len(1) len(2) len(3) _ E1 i0 z g0] by auto
  have neg: "\<not> epoch_size tp < 0" "epoch_size tp \<noteq> 0"
    using ep by simp_all
  have sl': "steps_loop R tp (p_distribution_of (xPercents tp)) [1..<nat (epoch_size tp)]
       (replicate (nat (epoch_size tp)) [0, 0, 0, 0],
        (replicate (nat (epoch_size tp)) (np_zeros 3 2))
          [0 := mat_clip (real_of_int (minRange tp)) (real_of_int (maxRange tp)) (w1 tp)],
        (replicate (nat (epoch_size tp)) (np_zeros 3 1))
          [0 := mat_clip (real_of_int (minRange tp)) (real_of_int (maxRange tp)) (w2 tp)],
        default_rng R (index tp + (if seedTP tp \<ge> 0 then seedTP tp else 0))) =
           Inr (A', W1', W2', g')"
    using sl unfolding A_def W1_def W2_def g_def E_def .
  show ?thesis
    unfolding fillModel_def Let_def
    using len' all
    by (simp only: neg if_False sl' bind_err_Inr prod.case a1 a2 fl) (simp add: E_def)
qed


lemma test_rng_choice:
  "list_all (\<lambda>h. h < 4) (fst (rng_choice_p test_rng g [0, 1, 2, 3] n p))"
proof -
  have "g mod 4 < 4"
    by simp
  then have "g mod 4 = 0 \<or> g mod 4 = 1 \<or> g mod 4 = 2 \<or> g mod 4 = 3"
    by linarith
  then have "[0, 1, 2, 3] ! (g mod 4) < (4 :: nat)"
    by auto
  then show ?thesis
    by (simp add: test_rng_def list_all_iff)
qed





subsection \<open>Seed and locks determine the regenerated segment\<close>

lemma cycle_body_cong:
  assumes "training_inputs s1 = training_inputs s2"
  shows "cycle_body R s1 p i st = cycle_body R s2 p i st"
  using assms unfolding cycle_body_def training_inputs_def by simp

lemma cycles_loop_cong:
  assumes "training_inputs s1 = training_inputs s2"
  shows "cycles_loop n R s1 p i st = cycles_loop n R s2 p i st"
proof (induction n arbitrary: st)
  case 0
  show ?case by simp
next
  case (Suc n)
  have "cycles_loop n R s1 p i = cycles_loop n R s2 p i"
    by (rule ext) (rule Suc)
  then show ?case
    by (simp add: cycle_body_cong [OF assms])
qed

lemma step_body_cong:
  assumes "training_inputs s1 = training_inputs s2"
  shows "step_body R s1 p i st = step_body R s2 p i st"
proof -
  have "cyclesPerOneStepFwdOfEpoch s1 = cyclesPerOneStepFwdOfEpoch s2"
    using assms by (simp add: training_inputs_def)
  then show ?thesis
    unfolding step_body_def by (simp add: cycles_loop_cong [OF assms])
qed

lemma steps_loop_cong:
  assumes "training_inputs s1 = training_inputs s2"
  shows "steps_loop R s1 p is st = steps_loop R s2 p is st"
proof (induction "is" arbitrary: st)
  case Nil
  show ?case by simp
next
  case (Cons i rest)
  have "steps_loop R s1 p rest = steps_loop R s2 p rest"
    by (rule ext) (rule Cons)
  then show ?case
    by (simp add: step_body_cong [OF assms])
qed

lemma fillModel_cong:
  assumes "training_inputs s1 = training_inputs s2"
  shows "fillModel R s1 = fillModel R s2"
proof -
  have eqs: "seedTP s1 = seedTP s2" "index s1 = index s2" "epoch_size s1 = epoch_size s2"
    "minRange s1 = minRange s2" "maxRange s1 = maxRange s2" "w1 s1 = w1 s2" "w2 s1 = w2 s2"
    "xPercents s1 = xPercents s2" "yParam s1 = yParam s2" "activation1 s1 = activation1 s2"
    "activation2 s1 = activation2 s2" "loss s1 = loss s2"
    using assms by (simp_all add: training_inputs_def)
  show ?thesis
    unfolding fillModel_def eqs by (simp only: steps_loop_cong [OF assms])
qed

lemma feedFromSeed_training_inputs:
  assumes "agree_prior L s1 s2"
  shows "training_inputs (fst (feedFromSeed R seed L s1)) =
         training_inputs (fst (feedFromSeed R seed L s2))"
proof -
  have i: "index s1 = index s2" and l: "w1_lock s1 = w1_lock s2" "w2_lock s1 = w2_lock s2"
    using assms by (simp_all add: agree_prior_def)
  have r: "final_minRange R seed L s1 = final_minRange R seed L s2"
    "final_maxRange R seed L s1 = final_maxRange R seed L s2"
    using assms by (simp_all add: agree_prior_def final_minRange_def final_maxRange_def)
  have c: "batch_size (fst (feedFromSeed R seed L s1)) = batch_size (fst (feedFromSeed R seed L s2))"
    "epoch_size (fst (feedFromSeed R seed L s1)) = epoch_size (fst (feedFromSeed R seed L s2))"
    "cyclesPerOneStepFwdOfEpoch (fst (feedFromSeed R seed L s1)) =
       cyclesPerOneStepFwdOfEpoch (fst (feedFromSeed R seed L s2))"
    "learning_rate (fst (feedFromSeed R seed L s1)) = learning_rate (fst (feedFromSeed R seed L s2))"
    "activation1 (fst (feedFromSeed R seed L s1)) = activation1 (fst (feedFromSeed R seed L s2))"
    "activation2 (fst (feedFromSeed R seed L s1)) = activation2 (fst (feedFromSeed R seed L s2))"
    "loss (fst (feedFromSeed R seed L s1)) = loss (fst (feedFromSeed R seed L s2))"
    using assms by (simp_all add: agree_prior_def feed_fields)
  have p: "xPercents (fst (feedFromSeed R seed L s1)) = xPercents (fst (feedFromSeed R seed L s2))"
    "yParam (fst (feedFromSeed R seed L s1)) = yParam (fst (feedFromSeed R seed L s2))"
    using assms i by (simp_all add: agree_prior_def feed_fields split: if_splits)
  have w: "w1 (fst (feedFromSeed R seed L s1)) = w1 (fst (feedFromSeed R seed L s2))"
    "w2 (fst (feedFromSeed R seed L s1)) = w2 (fst (feedFromSeed R seed L s2))"
    using assms i l r
    by (simp_all add: agree_prior_def feed_fields lock_keep_def locked_part_def split: if_splits)
  show ?thesis
    unfolding training_inputs_def
    by (simp add: c p w) (simp add: feed_fields i l r)
qed

text \<open>
  C1. The seed and the lock set determine the regenerated segment: when two slices agree
  before regeneration on the index, on the lock masks, on every locked configuration field
  and on the weights that regeneration keeps (\<open>agree_prior\<close>), then regenerating both from
  the same seed with the same lock set leaves slices with the same training inputs, and
  \<^verbatim>\<open>fillModel\<close> gives the same outcome on both: the same arrays of hits, weights,
  pre-activations, activations, outputs and losses, step by step, or the same exception.
  Whatever else the two slices held before (the old seed, unlocked fields, unlocked weight
  entries and percentages at index 0, computed fields) has no influence.
\<close>

theorem regenerated_segment_determined:
  assumes "agree_prior L s1 s2"
  shows "training_inputs (fst (feedFromSeed R seed L s1)) =
           training_inputs (fst (feedFromSeed R seed L s2))
       \<and> fillModel R (fst (feedFromSeed R seed L s1)) =
           fillModel R (fst (feedFromSeed R seed L s2))"
  using feedFromSeed_training_inputs [OF assms, of R seed]
    fillModel_cong [OF feedFromSeed_training_inputs [OF assms, of R seed], of R]
  by simp

lemma test_regenerated:
  "trainable (fst (feedFromSeed test_rng 7 test_locks test_slice)) ReLU Linear Hinge_Loss"
  "epoch_size (fst (feedFromSeed test_rng 7 test_locks test_slice)) = 3"
  "batch_size (fst (feedFromSeed test_rng 7 test_locks test_slice)) = 10"
   apply (simp_all add: trainable_def feed_fields test_locks_def test_draws)
   apply (simp_all add: test_slice_def dict_getitem_def HiddenLayer_eval OutputLayer_eval
      LossFunction_eval locks01_def percents_of_def Y_XOR_TRUE_4_def Let_def)
  done

theorem regenerated_segment_determined_witness:
  "agree_prior test_locks test_slice test_slice_other
   \<and> test_slice \<noteq> test_slice_other
   \<and> w1 test_slice \<noteq> w1 test_slice_other
   \<and> fillModel test_rng (fst (feedFromSeed test_rng 7 test_locks test_slice)) =
       fillModel test_rng (fst (feedFromSeed test_rng 7 test_locks test_slice_other))
   \<and> (\<exists>arr. fillModel test_rng (fst (feedFromSeed test_rng 7 test_locks test_slice)) = Inr arr
          \<and> length (arr_w1 arr) = 3)"
proof -
  have ag: "agree_prior test_locks test_slice test_slice_other"
    by (simp add: agree_prior_def test_locks_def test_slice_other_def locked_part_def
        mat_map2_def mat_of_int_def)
      (simp add: test_slice_def)
  have ne: "test_slice \<noteq> test_slice_other" "w1 test_slice \<noteq> w1 test_slice_other"
    by (simp_all add: test_slice_other_def test_slice_def)
  have ep: "1 \<le> epoch_size (fst (feedFromSeed test_rng 7 test_locks test_slice))"
    by (simp add: test_regenerated)
  obtain arr where ok: "fillModel test_rng (fst (feedFromSeed test_rng 7 test_locks test_slice)) =
       Inr arr"
    and len: "length (arr_w1 arr) =
                nat (epoch_size (fst (feedFromSeed test_rng 7 test_locks test_slice)))"
    using fillModel_segment [OF test_regenerated(1) test_rng_choice ep] by blast
  have ex: "\<exists>arr. fillModel test_rng (fst (feedFromSeed test_rng 7 test_locks test_slice)) =
                   Inr arr \<and> length (arr_w1 arr) = 3"
    using ok len by (simp add: test_regenerated)
  note same = regenerated_segment_determined [OF ag, of test_rng 7, THEN conjunct2]
  show ?thesis
    by (intro conjI ag ne same ex)
qed


end
